theory Spec2Isabelle
  imports Main "HOL-Library.Word" "HOL-Library.AList"
begin

section \<open>Strings: the two functions of package strings that parseTag calls\<close>

text \<open>
  A Go string is a sequence of bytes; \<open>string\<close> (a list of 8-bit characters) is that
  sequence.  \<open>Split\<close> is \<^verbatim>\<open>strings.Split(s, ",")\<close> for a separator of one byte:
  every separator starts a new part, so a string without separator gives one part
  and the empty string gives one empty part.
\<close>

fun Split :: "string \<Rightarrow> char \<Rightarrow> string list" where
  "Split [] c = [[]]"
| "Split (x # xs) c =
     (if x = c then [] # Split xs c
      else (case Split xs c of [] \<Rightarrow> [[x]] | p # ps \<Rightarrow> (x # p) # ps))"

text \<open>
  \<^verbatim>\<open>strings.TrimSpace\<close> removes leading and trailing white space as Unicode defines
  it.  On bytes these are the six ASCII characters tab, line feed, vertical tab, form
  feed, carriage return and space, and the UTF-8 encodings of U+0085, U+00A0, U+1680,
  U+2000 to U+200A, U+2028, U+2029, U+202F, U+205F and U+3000.
\<close>

definition asciiSpace :: "char \<Rightarrow> bool" where
  "asciiSpace c = (c \<in> {CHR 0x09, CHR 0x0A, CHR 0x0B, CHR 0x0C, CHR 0x0D, CHR 0x20})"

definition spaceRunes :: "string list" where
  "spaceRunes =
     [[CHR 0xC2, CHR 0x85], [CHR 0xC2, CHR 0xA0], [CHR 0xE1, CHR 0x9A, CHR 0x80],
      [CHR 0xE2, CHR 0x80, CHR 0x80], [CHR 0xE2, CHR 0x80, CHR 0x81],
      [CHR 0xE2, CHR 0x80, CHR 0x82], [CHR 0xE2, CHR 0x80, CHR 0x83],
      [CHR 0xE2, CHR 0x80, CHR 0x84], [CHR 0xE2, CHR 0x80, CHR 0x85],
      [CHR 0xE2, CHR 0x80, CHR 0x86], [CHR 0xE2, CHR 0x80, CHR 0x87],
      [CHR 0xE2, CHR 0x80, CHR 0x88], [CHR 0xE2, CHR 0x80, CHR 0x89],
      [CHR 0xE2, CHR 0x80, CHR 0x8A], [CHR 0xE2, CHR 0x80, CHR 0xA8],
      [CHR 0xE2, CHR 0x80, CHR 0xA9], [CHR 0xE2, CHR 0x80, CHR 0xAF],
      [CHR 0xE2, CHR 0x81, CHR 0x9F], [CHR 0xE3, CHR 0x80, CHR 0x80]]"

text \<open>
  \<open>spaceWidth rs s\<close> is the number of bytes of the white-space rune that \<open>s\<close> starts
  with, and 0 when it starts with none; \<open>rs\<close> are the encodings of more than one
  byte.
\<close>

fun spaceWidth :: "string list \<Rightarrow> string \<Rightarrow> nat" where
  "spaceWidth rs [] = 0"
| "spaceWidth rs (c # cs) =
     (if asciiSpace c then 1
      else (case filter (\<lambda>r. take (length r) (c # cs) = r \<and> r \<noteq> []) rs of
              [] \<Rightarrow> 0
            | r # _ \<Rightarrow> length r))"

function TrimLeft :: "string list \<Rightarrow> string \<Rightarrow> string" where
  "TrimLeft rs s = (if spaceWidth rs s = 0 then s else TrimLeft rs (drop (spaceWidth rs s) s))"
  by pat_completeness auto
termination
proof (relation "measure (\<lambda>(rs, s). length s)")
  fix rs s
  assume "spaceWidth rs s \<noteq> 0"
  then have "s \<noteq> []" by (cases s) auto
  with \<open>spaceWidth rs s \<noteq> 0\<close>
  show "((rs, drop (spaceWidth rs s) s), (rs, s)) \<in> measure (\<lambda>(rs, s). length s)"
    by simp
qed simp

definition TrimSpace :: "string \<Rightarrow> string" where
  "TrimSpace s = rev (TrimLeft (map rev spaceRunes) (rev (TrimLeft spaceRunes s)))"

section \<open>The tag of a field\<close>

record tag =
  meta :: bool
  omit :: bool
  omitempty :: bool
  name :: string

definition tagValueMeta :: string where "tagValueMeta = ''meta''"
definition tagValueOmit :: string where "tagValueOmit = ''omit''"
definition tagValueOmitempty :: string where "tagValueOmitempty = ''omitempty''"

definition metaTagGeneration :: string where "metaTagGeneration = ''generation''"
definition metaTagExpiration :: string where "metaTagExpiration = ''expiration''"
definition metaTagNamespace :: string where "metaTagNamespace = ''namespace''"
definition metaTagSetName :: string where "metaTagSetName = ''set_name''"
definition metaTagDigest :: string where "metaTagDigest = ''digest''"
definition metaTagUserKey :: string where "metaTagUserKey = ''user_key''"

definition timeType :: string where "timeType = ''time.Time''"

section \<open>Go types and values as package reflect presents them\<close>

text \<open>
  The program inspects its arguments through package reflect, so the embedding keeps
  what reflect shows: the kind and the type of every value, the declared fields of a
  struct with their tags, and the flags of a \<^verbatim>\<open>reflect.Value\<close>.  Values of the kinds
  complex, chan, func and unsafe pointer are outside the embedding, and so are values
  of a defined type whose underlying type is no struct and no interface (such as
  \<^verbatim>\<open>type Level int\<close>): the types of the embedding are the predeclared and the
  composite types and the named struct and interface types, and on these the
  comparison of two types by the program is the equality of \<open>gtype\<close>.  The one
  defined type of this kind that the program meets on its own is the type of the bins
  of a record of the client library, a map from strings to \<^verbatim>\<open>any\<close>; the program asks
  for its kind and looks up keys in it and does nothing else with its type, so the
  bins are presented with their underlying type.  A struct type is a finite tree of
  field declarations, so types that refer to themselves through a pointer are outside
  as well.  \<open>int\<close>, \<open>uint\<close> and \<open>uintptr\<close> have 64 bits; the kind \<^verbatim>\<open>reflect.Int\<close> is
  written \<open>Int'\<close>.
\<close>

datatype ikind = Int' | Int8 | Int16 | Int32 | Int64

datatype ukind = Uint | Uint8 | Uint16 | Uint32 | Uint64 | Uintptr

datatype fkind = Float32 | Float64

datatype kind =
    Invalid | Bool | SInt ikind | UInt ukind | Float fkind | Complex64 | Complex128
  | Array | Chan | Func | Interface | Map | Ptr | Slice | String | Struct | UnsafePointer

text \<open>
  A field declaration holds the field's name, whether the name is exported, whether the
  field is embedded, the value of its \<^verbatim>\<open>aero\<close> tag (\<^verbatim>\<open>Tag.Get("aero")\<close>, empty when
  the field has none) and its type.  A struct or interface type carries its printed
  name (\<^verbatim>\<open>Type.String()\<close>), which is empty for an unnamed struct type.
\<close>

datatype gtype =
    TBool | TInt ikind | TUint ukind | TFloat fkind | TString
  | TArray nat gtype | TSlice gtype | TMap gtype gtype | TPtr gtype
  | TInterface string
  | TStruct string "sfield list"
and sfield =
    SField (fname: string) (fexported: bool) (fembedded: bool) (ftag: string) (ftype: gtype)

text \<open>
  Integers are mathematical integers within the range of their kind; floats are their
  IEEE 754 bit patterns.  A slice, a map, a pointer and an interface value may be nil
  (\<open>None\<close>).  A map lists its entries in the order in which this run of the program
  iterates over them.  A pointer holds the value it points to: two pointers to one
  variable are not distinguished from two pointers to equal variables.  A value of
  interface type (a field or an element declared \<^verbatim>\<open>any\<close>) is \<open>VIface\<close> around its
  dynamic value.
\<close>

datatype gval =
    VBool bool
  | VInt ikind int
  | VUint ukind int
  | VFloat32 "32 word"
  | VFloat64 "64 word"
  | VString string
  | VArray gtype "gval list"
  | VSlice gtype "gval list option"
  | VMap gtype gtype "(gval \<times> gval) list option"
  | VPtr gtype "gval option"
  | VIface string "gval option"
  | VStruct string "(sfield \<times> gval) list"

primrec bitsI :: "ikind \<Rightarrow> nat" where
  "bitsI Int' = 64" | "bitsI Int8 = 8" | "bitsI Int16 = 16" | "bitsI Int32 = 32" | "bitsI Int64 = 64"

primrec bitsU :: "ukind \<Rightarrow> nat" where
  "bitsU Uint = 64" | "bitsU Uint8 = 8" | "bitsU Uint16 = 16" | "bitsU Uint32 = 32"
| "bitsU Uint64 = 64" | "bitsU Uintptr = 64"

primrec kindOf :: "gtype \<Rightarrow> kind" where
  "kindOf TBool = Bool"
| "kindOf (TInt k) = SInt k"
| "kindOf (TUint k) = UInt k"
| "kindOf (TFloat k) = Float k"
| "kindOf TString = String"
| "kindOf (TArray n t) = Array"
| "kindOf (TSlice t) = Slice"
| "kindOf (TMap k t) = Map"
| "kindOf (TPtr t) = Ptr"
| "kindOf (TInterface n) = Interface"
| "kindOf (TStruct n ds) = Struct"

primrec typeOf :: "gval \<Rightarrow> gtype" where
  "typeOf (VBool b) = TBool"
| "typeOf (VInt k i) = TInt k"
| "typeOf (VUint k i) = TUint k"
| "typeOf (VFloat32 w) = TFloat Float32"
| "typeOf (VFloat64 w) = TFloat Float64"
| "typeOf (VString s) = TString"
| "typeOf (VArray t xs) = TArray (length xs) t"
| "typeOf (VSlice t xs) = TSlice t"
| "typeOf (VMap k t m) = TMap k t"
| "typeOf (VPtr t p) = TPtr t"
| "typeOf (VIface n d) = TInterface n"
| "typeOf (VStruct n fs) = TStruct n (map fst fs)"

text \<open>\<open>zero t\<close> is the zero value of type \<open>t\<close>, the content of \<^verbatim>\<open>reflect.Zero(t)\<close>.\<close>

primrec zero :: "gtype \<Rightarrow> gval" and zeroField :: "sfield \<Rightarrow> sfield \<times> gval" where
  "zero TBool = VBool False"
| "zero (TInt k) = VInt k 0"
| "zero (TUint k) = VUint k 0"
| "zero (TFloat k) = (case k of Float32 \<Rightarrow> VFloat32 0 | Float64 \<Rightarrow> VFloat64 0)"
| "zero TString = VString []"
| "zero (TArray n t) = VArray t (replicate n (zero t))"
| "zero (TSlice t) = VSlice t None"
| "zero (TMap k t) = VMap k t None"
| "zero (TPtr t) = VPtr t None"
| "zero (TInterface n) = VIface n None"
| "zero (TStruct n ds) = VStruct n (map zeroField ds)"
| "zeroField (SField a e m g t) = (SField a e m g t, zero t)"

definition anyType :: gtype where
  "anyType = TInterface ''interface {}''"

section \<open>Errors and panics\<close>

text \<open>
  An error is one of the two sentinel errors of the package, the result of
  \<^verbatim>\<open>errors.New\<close>, or the result of \<^verbatim>\<open>fmt.Errorf\<close>: the format string with its
  arguments (a type stands for its printed name, \<open>W\<close> is an error wrapped by
  \<^verbatim>\<open>%w\<close>).  A run-time panic of the Go program is the value \<open>Panic\<close>: the call does
  not return an error then, it does not return.
\<close>

datatype error =
    ErrInvalidSource
  | ErrInvalidSourceType
  | New string
  | Errorf string "arg list"
  | Panic string
and arg = S string | T gtype | N int | K kind | W error

text \<open>
  \<open>wrapf\<close> is \<^verbatim>\<open>fmt.Errorf\<close> with a format that ends in \<^verbatim>\<open>%w\<close>, applied to what a
  call gave in place of a result: an error is wrapped, a panic goes on.
\<close>

definition wrapf :: "string \<Rightarrow> arg list \<Rightarrow> error \<Rightarrow> error" where
  "wrapf format args err =
     (case err of Panic msg \<Rightarrow> Panic msg | _ \<Rightarrow> Errorf format (args @ [W err]))"

section \<open>reflect.Value\<close>

text \<open>
  A \<^verbatim>\<open>reflect.Value\<close> is the value it holds (\<open>None\<close> for the invalid Value) and
  three of its flag bits: whether it is addressable, and the two read-only bits that
  reflect sets on a value reached through an unexported field (\<open>embedRO\<close> through an
  unexported embedded field, \<open>stickyRO\<close> through any other unexported field).
\<close>

datatype flags = Flags (canAddr: bool) (stickyRO: bool) (embedRO: bool)

datatype Value = V (val: "gval option") (flag: flags)

definition noFlags :: flags where
  "noFlags = Flags False False False"

definition reflectZeroValue :: Value where
  "reflectZeroValue = V None noFlags"

definition ro :: "flags \<Rightarrow> bool" where
  "ro fl = (stickyRO fl \<or> embedRO fl)"

definition Kind :: "Value \<Rightarrow> kind" where
  "Kind v = (case val v of None \<Rightarrow> Invalid | Some x \<Rightarrow> kindOf (typeOf x))"

definition IsValid :: "Value \<Rightarrow> bool" where
  "IsValid v = (val v \<noteq> None)"

definition CanAddr :: "Value \<Rightarrow> bool" where
  "CanAddr v = canAddr (flag v)"

definition CanSet :: "Value \<Rightarrow> bool" where
  "CanSet v = (canAddr (flag v) \<and> \<not> ro (flag v))"

definition ValueOf :: "gval option \<Rightarrow> Value" where
  "ValueOf d = V d noFlags"

definition Zero :: "gtype \<Rightarrow> Value" where
  "Zero t = V (Some (zero t)) noFlags"

text \<open>
  \<^verbatim>\<open>v.Field(i)\<close> keeps the addressability and the sticky read-only bit of the struct and
  adds a read-only bit when the field is unexported; \<open>fieldFlags\<close> are the flags of the
  field declared by \<open>d\<close> in a struct with flags \<open>fl\<close>.
\<close>

definition fieldFlags :: "flags \<Rightarrow> sfield \<Rightarrow> flags" where
  "fieldFlags fl d =
     Flags (canAddr fl) (stickyRO fl \<or> (\<not> fexported d \<and> \<not> fembedded d))
       (\<not> fexported d \<and> fembedded d)"

text \<open>
  \<^verbatim>\<open>v.Elem()\<close> of a pointer is the invalid Value for a nil pointer and else the
  addressable pointee with the read-only bits of the pointer; \<^verbatim>\<open>v.Elem()\<close> of an
  interface value is its dynamic value, not addressable.  The program calls it on
  these two kinds only.
\<close>

definition Elem :: "Value \<Rightarrow> Value" where
  "Elem v =
     (case val v of
        Some (VPtr t (Some x)) \<Rightarrow> V (Some x) (Flags True (stickyRO (flag v)) (embedRO (flag v)))
      | Some (VIface n (Some x)) \<Rightarrow> V (Some x) (Flags False (ro (flag v)) False)
      | _ \<Rightarrow> reflectZeroValue)"

text \<open>
  \<^verbatim>\<open>v.Interface()\<close> panics on the invalid Value and on a read-only one; of an interface
  value it returns the dynamic value.
\<close>

definition valueInterface :: "Value \<Rightarrow> error + gval option" where
  "valueInterface v =
     (case val v of
        None \<Rightarrow> Inl (Panic ''reflect: call of reflect.Value.Interface on zero Value'')
      | Some x \<Rightarrow>
          if ro (flag v)
          then Inl (Panic ''reflect.Value.Interface: cannot return value obtained from unexported field or method'')
          else Inr (case x of VIface n d \<Rightarrow> d | _ \<Rightarrow> Some x))"

text \<open>
  What the program needs of the Go run time and library and what this theory does not
  compute is a parameter of the embedding: the conversions of floating-point numbers,
  \<^verbatim>\<open>time.Parse\<close>, the index path of a field promoted from an embedded struct, the
  exported methods of a type (the number of their parameters and their results for a
  receiver), and whether a type implements an interface with methods.  Every theorem
  holds for all values of these parameters.
\<close>

datatype meth = Meth (numIn: nat) (results: "gval \<Rightarrow> gval list")

record golib =
  ParseFloat :: "string \<Rightarrow> 64 word option"
  FormatFloat :: "64 word \<Rightarrow> string"
  ParseTime :: "string \<Rightarrow> gval option"
  floatToInt64 :: "64 word \<Rightarrow> int"
  int64ToFloat :: "int \<Rightarrow> 64 word"
  float32To64 :: "32 word \<Rightarrow> 64 word"
  float64To32 :: "64 word \<Rightarrow> 32 word"
  promoted :: "gtype \<Rightarrow> string \<Rightarrow> nat list option"
  methodSet :: "gtype \<Rightarrow> string \<Rightarrow> meth option"
  implements :: "gtype \<Rightarrow> string \<Rightarrow> bool"

text \<open>
  \<^verbatim>\<open>v.Set(x)\<close> panics unless \<open>v\<close> can be set, \<open>x\<close> is valid and not read-only, and the
  type of \<open>x\<close> is assignable to the type of \<open>v\<close>: it is that type, or \<open>v\<close> has an
  interface type that \<open>x\<close> implements, or both are struct types with the same fields of
  which one has no name.  The result is the new content of \<open>v\<close>.
\<close>

definition assignTo :: "golib \<Rightarrow> gval \<Rightarrow> gtype \<Rightarrow> gval option" where
  "assignTo lib x t =
     (if typeOf x = t then Some x
      else (case t of
              TInterface n \<Rightarrow>
                if n = ''interface {}'' \<or> implements lib (typeOf x) n
                then Some (VIface n (case x of VIface m d \<Rightarrow> d | _ \<Rightarrow> Some x))
                else None
            | TStruct n ds \<Rightarrow>
                (case x of
                   VStruct m fs \<Rightarrow>
                     if (n = [] \<or> m = []) \<and> map fst fs = ds then Some (VStruct n fs) else None
                 | _ \<Rightarrow> None)
            | _ \<Rightarrow> None))"

definition Set :: "golib \<Rightarrow> Value \<Rightarrow> Value \<Rightarrow> error + gval" where
  "Set lib v x =
     (case val v of
        None \<Rightarrow> Inl (Panic ''reflect: call of reflect.Value.Set on zero Value'')
      | Some old \<Rightarrow>
          if \<not> CanSet v
          then Inl (Panic ''reflect: reflect.Value.Set using unaddressable value or value obtained using unexported field'')
          else (case val x of
                  None \<Rightarrow> Inl (Panic ''reflect: call of reflect.Value.Set on zero Value'')
                | Some y \<Rightarrow>
                    if ro (flag x)
                    then Inl (Panic ''reflect: reflect.Value.Set using value obtained using unexported field'')
                    else (case assignTo lib y (typeOf old) of
                            None \<Rightarrow> Inl (Panic ''reflect.Set: value is not assignable to type'')
                          | Some z \<Rightarrow> Inr z)))"

section \<open>reflect\_utils.go\<close>

text \<open>
  The argument of \<^verbatim>\<open>Encode\<close>, \<^verbatim>\<open>Decode\<close> and their helpers has type \<^verbatim>\<open>any\<close>, and the
  program asks whether it holds a \<^verbatim>\<open>reflect.Value\<close> (\<open>Refl\<close>) or anything else
  (\<open>Dyn\<close>, with \<open>None\<close> for the nil interface).
\<close>

datatype any = Dyn "gval option" | Refl Value

definition Field :: "flags \<Rightarrow> sfield \<Rightarrow> gval \<Rightarrow> Value" where
  "Field fl d x = V (Some x) (fieldFlags fl d)"

text \<open>
  \<open>fieldValueDeref fl d x\<close> is \<^verbatim>\<open>fieldValueDeref(value, i)\<close> for the field declared by
  \<open>d\<close> with content \<open>x\<close> at index \<open>i\<close> of a struct \<open>value\<close> with flags \<open>fl\<close>.
\<close>

definition fieldValueDeref :: "flags \<Rightarrow> sfield \<Rightarrow> gval \<Rightarrow> Value" where
  "fieldValueDeref fl d x =
     (let fieldValue = Field fl d x in
      if Kind fieldValue = Ptr then Elem fieldValue else fieldValue)"

definition structValue :: "any \<Rightarrow> error + Value" where
  "structValue v =
     (case v of
        Refl rv \<Rightarrow> Inr rv
      | Dyn d \<Rightarrow>
          (let sv = ValueOf d;
               sv' = (if Kind sv = Ptr then Elem sv else sv)
           in if Kind sv' \<noteq> Struct then Inl ErrInvalidSourceType else Inr sv'))"

text \<open>\<^verbatim>\<open>v.IsZero()\<close>: the value is the zero value of its type.\<close>

primrec IsZero :: "gval \<Rightarrow> bool" where
  "IsZero (VBool b) = (\<not> b)"
| "IsZero (VInt k i) = (i = 0)"
| "IsZero (VUint k i) = (i = 0)"
| "IsZero (VFloat32 w) = (w = 0)"
| "IsZero (VFloat64 w) = (w = 0)"
| "IsZero (VString s) = (s = [])"
| "IsZero (VArray t xs) = list_all id (map IsZero xs)"
| "IsZero (VSlice t xs) = (xs = None)"
| "IsZero (VMap k t m) = (m = None)"
| "IsZero (VPtr t p) = (p = None)"
| "IsZero (VIface n d) = (d = None)"
| "IsZero (VStruct n fs) = list_all snd (map (map_prod id IsZero) fs)"

text \<open>
  \<open>isEmptyValue\<close>, case by case in the order of the source.  A float is zero when all
  bits but the sign are zero (\<^verbatim>\<open>v.Float() == 0\<close> holds for both zeros).
\<close>

definition isEmptyValue :: "Value \<Rightarrow> bool" where
  "isEmptyValue v =
     (case val v of
        Some (VArray t xs) \<Rightarrow> length xs = 0
      | Some (VMap k t m) \<Rightarrow> (case m of None \<Rightarrow> True | Some es \<Rightarrow> length es = 0)
      | Some (VSlice t xs) \<Rightarrow> (case xs of None \<Rightarrow> True | Some es \<Rightarrow> length es = 0)
      | Some (VString s) \<Rightarrow> length s = 0
      | Some (VBool b) \<Rightarrow> \<not> b
      | Some (VInt k i) \<Rightarrow> i = 0
      | Some (VUint k i) \<Rightarrow> i = 0
      | Some (VFloat32 w) \<Rightarrow> take_bit 31 w = 0
      | Some (VFloat64 w) \<Rightarrow> take_bit 63 w = 0
      | Some (VIface n d) \<Rightarrow> d = None
      | Some (VPtr t p) \<Rightarrow> p = None
      | Some (VStruct n fs) \<Rightarrow> (if n = timeType then IsZero (VStruct n fs) else False)
      | None \<Rightarrow> True)"

section \<open>The tag parser\<close>

fun parseTag_parts :: "string \<Rightarrow> string list \<Rightarrow> tag \<Rightarrow> error + tag" where
  "parseTag_parts tagString [] parsed = Inr parsed"
| "parseTag_parts tagString (p # parts) parsed =
     (let part = TrimSpace p in
      if part = tagValueMeta then parseTag_parts tagString parts (parsed\<lparr>meta := True\<rparr>)
      else if part = tagValueOmitempty
        then parseTag_parts tagString parts (parsed\<lparr>omitempty := True\<rparr>)
      else if part = tagValueOmit then parseTag_parts tagString parts (parsed\<lparr>omit := True\<rparr>)
      else if name parsed = [] then parseTag_parts tagString parts (parsed\<lparr>name := part\<rparr>)
      else Inl (Errorf ''invalid tag: %s'' [S tagString]))"

definition parseTag :: "string \<Rightarrow> error + tag" where
  "parseTag tagString =
     (case parseTag_parts tagString (Split tagString (CHR '',''))
             \<lparr>meta = False, omit = False, omitempty = False, name = []\<rparr> of
        Inl err \<Rightarrow> Inl err
      | Inr parsed \<Rightarrow>
          if meta parsed \<and> name parsed = []
          then Inr (parsed\<lparr>meta := False, name := tagValueMeta\<rparr>)
          else Inr parsed)"

section \<open>The record that Encode produces\<close>

text \<open>
  \<^verbatim>\<open>mapper.Record\<close> embeds the three structs \<open>Key\<close>, \<open>KeyValue\<close> and \<open>Metadata\<close> and has
  the map \<open>Bins\<close>.  The program writes the six metadata fields through reflect, so each
  holds a Go value; a bin holds the content of an \<^verbatim>\<open>any\<close> (\<open>None\<close> for nil).
\<close>

record Key =
  Namespace :: gval
  SetName :: gval
  Digest :: gval

record KeyValue =
  UserKey :: gval

record Metadata =
  Generation :: gval
  Expiration :: gval

record Record =
  Key :: Key
  KeyValue :: KeyValue
  Metadata :: Metadata
  Bins :: "(string \<times> gval option) list"

definition KeyType :: gtype where
  "KeyType = TStruct ''mapper.Key''
     [SField ''Namespace'' True False ''meta,namespace'' TString,
      SField ''SetName'' True False ''meta,set_name'' TString,
      SField ''Digest'' True False ''meta,digest'' (TArray 20 (TUint Uint8))]"

definition KeyValueType :: gtype where
  "KeyValueType = TStruct ''mapper.KeyValue''
     [SField ''UserKey'' True False ''meta,user_key'' anyType]"

definition MetadataType :: gtype where
  "MetadataType = TStruct ''mapper.Metadata''
     [SField ''Generation'' True False ''meta,generation'' (TUint Uint32),
      SField ''Expiration'' True False ''meta,expiration'' (TUint Uint32)]"

definition RecordType :: gtype where
  "RecordType = TStruct ''mapper.Record''
     [SField ''Key'' True True [] KeyType,
      SField ''KeyValue'' True True [] KeyValueType,
      SField ''Metadata'' True True [] MetadataType,
      SField ''Bins'' True False [] (TMap TString anyType)]"

text \<open>The record that \<^verbatim>\<open>Encode\<close> starts from: \<^verbatim>\<open>&Record{Bins: make(map[string]any)}\<close>.\<close>

definition newRecord :: Record where
  "newRecord =
     \<lparr>Key = \<lparr>Namespace = zero TString, SetName = zero TString,
              Digest = zero (TArray 20 (TUint Uint8))\<rparr>,
      KeyValue = \<lparr>UserKey = zero anyType\<rparr>,
      Metadata = \<lparr>Generation = zero (TUint Uint32), Expiration = zero (TUint Uint32)\<rparr>,
      Bins = []\<rparr>"

text \<open>
  The Go value of a \<^verbatim>\<open>mapper.Record\<close>, as reflect sees it when the record is passed
  to \<^verbatim>\<open>Decode\<close>.
\<close>

definition structOf :: "gtype \<Rightarrow> gval list \<Rightarrow> gval" where
  "structOf t xs = (case t of TStruct n ds \<Rightarrow> VStruct n (zip ds xs) | _ \<Rightarrow> zero t)"

definition valueOfRecord :: "Record \<Rightarrow> gval" where
  "valueOfRecord r =
     structOf RecordType
       [structOf KeyType [Namespace (Key r), SetName (Key r), Digest (Key r)],
        structOf KeyValueType [UserKey (KeyValue r)],
        structOf MetadataType [Generation (Metadata r), Expiration (Metadata r)],
        VMap TString anyType
          (Some (map (\<lambda>(k, d). (VString k, VIface ''interface {}'' d)) (Bins r)))]"

section \<open>Encode\<close>

text \<open>
  \<open>setMetadata\<close> returns the new content of the record field, or \<open>None\<close> when it
  leaves the field as it is.
\<close>

definition setMetadata :: "golib \<Rightarrow> Value \<Rightarrow> Value \<Rightarrow> string \<Rightarrow> error + gval option" where
  "setMetadata lib field recordField tagName =
     (if isEmptyValue field then Inr None
      else (case (val field, val recordField) of
              (Some x, Some y) \<Rightarrow>
                if typeOf x \<noteq> typeOf y
                then Inl (Errorf ''type mismatch for tag '%s': source %s, record %s''
                            [S tagName, T (typeOf x), T (typeOf y)])
                else if CanSet recordField
                then (case Set lib recordField field of
                        Inl err \<Rightarrow> Inl err
                      | Inr z \<Rightarrow> Inr (Some z))
                else Inl (New ''cannot set record field'')
            | _ \<Rightarrow> Inl (Panic ''reflect: call of reflect.Value.Type on zero Value'')))"

text \<open>
  \<^verbatim>\<open>reflect.ValueOf(&record.Metadata).Elem().FieldByName("Generation")\<close> and its five
  siblings: an exported field of an addressable struct.
\<close>

definition recordField :: "gval \<Rightarrow> Value" where
  "recordField x = V (Some x) (Flags True False False)"

text \<open>
  The recursion of \<open>encode\<close> and of the decoders follows the nesting of the struct they
  walk; \<open>anySize\<close> measures it.
\<close>

definition anySize :: "any \<Rightarrow> nat" where
  "anySize v = (case v of Dyn d \<Rightarrow> size_option size d | Refl rv \<Rightarrow> size_option size (val rv))"

lemma size_fieldValueDeref: "anySize (Refl (fieldValueDeref fl d x)) \<le> Suc (size x)"
  by (auto simp: anySize_def fieldValueDeref_def Field_def Elem_def Let_def reflectZeroValue_def
           split: option.splits gval.splits)

lemma size_structValue:
  "structValue v = Inr sv \<Longrightarrow> size_option size (val sv) \<le> anySize v"
  by (auto simp: anySize_def structValue_def ValueOf_def Elem_def Let_def reflectZeroValue_def
           split: any.splits option.splits gval.splits if_splits)

text \<open>
  \<open>encode\<close> is the function of the source; \<open>encode_fields\<close> is its loop over the fields
  from index \<open>i\<close> on, and \<open>encode_field\<close> the body of the loop for one field.  The
  record is passed along and returned, as the pointer of the source is.
\<close>

function encode :: "golib \<Rightarrow> any \<Rightarrow> Record \<Rightarrow> error + Record"
  and encode_fields :: "golib \<Rightarrow> flags \<Rightarrow> (sfield \<times> gval) list \<Rightarrow> Record \<Rightarrow> error + Record"
  and encode_field :: "golib \<Rightarrow> flags \<Rightarrow> sfield \<Rightarrow> gval \<Rightarrow> Record \<Rightarrow> error + Record"
where
  "encode lib v record =
     (case structValue v of
        Inl err \<Rightarrow> Inl err
      | Inr sourceValue \<Rightarrow>
          (case val sourceValue of
             Some (VStruct n fs) \<Rightarrow> encode_fields lib (flag sourceValue) fs record
           | _ \<Rightarrow> Inl (Panic ''reflect: NumField of non-struct type'')))"
| "encode_fields lib fl [] record = Inr record"
| "encode_fields lib fl ((d, x) # rest) record =
     (case encode_field lib fl d x record of
        Inl err \<Rightarrow> Inl err
      | Inr record' \<Rightarrow> encode_fields lib fl rest record')"
| "encode_field lib fl d x record =
     (let fieldValue = fieldValueDeref fl d x in
      if Kind fieldValue = Struct then encode lib (Refl fieldValue) record
      else if ftag d = [] then Inr record
      else
        (case parseTag (ftag d) of
           Inl err \<Rightarrow> Inl err
         | Inr tag \<Rightarrow>
             if meta tag then
               (if name tag = metaTagGeneration then
                  (case setMetadata lib fieldValue
                          (recordField (Generation (Metadata record))) (name tag) of
                     Inl err \<Rightarrow> Inl err
                   | Inr None \<Rightarrow> Inr record
                   | Inr (Some z) \<Rightarrow>
                       Inr (record\<lparr>Metadata := (Metadata record)\<lparr>Generation := z\<rparr>\<rparr>))
                else if name tag = metaTagExpiration then
                  (case setMetadata lib fieldValue
                          (recordField (Expiration (Metadata record))) (name tag) of
                     Inl err \<Rightarrow> Inl err
                   | Inr None \<Rightarrow> Inr record
                   | Inr (Some z) \<Rightarrow>
                       Inr (record\<lparr>Metadata := (Metadata record)\<lparr>Expiration := z\<rparr>\<rparr>))
                else if name tag = metaTagNamespace then
                  (case setMetadata lib fieldValue
                          (recordField (Namespace (Key record))) (name tag) of
                     Inl err \<Rightarrow> Inl err
                   | Inr None \<Rightarrow> Inr record
                   | Inr (Some z) \<Rightarrow> Inr (record\<lparr>Key := (Key record)\<lparr>Namespace := z\<rparr>\<rparr>))
                else if name tag = metaTagSetName then
                  (case setMetadata lib fieldValue
                          (recordField (SetName (Key record))) (name tag) of
                     Inl err \<Rightarrow> Inl err
                   | Inr None \<Rightarrow> Inr record
                   | Inr (Some z) \<Rightarrow> Inr (record\<lparr>Key := (Key record)\<lparr>SetName := z\<rparr>\<rparr>))
                else if name tag = metaTagDigest then
                  (case setMetadata lib fieldValue
                          (recordField (Digest (Key record))) (name tag) of
                     Inl err \<Rightarrow> Inl err
                   | Inr None \<Rightarrow> Inr record
                   | Inr (Some z) \<Rightarrow> Inr (record\<lparr>Key := (Key record)\<lparr>Digest := z\<rparr>\<rparr>))
                else if name tag = metaTagUserKey then
                  (case setMetadata lib fieldValue
                          (recordField (UserKey (KeyValue record))) (name tag) of
                     Inl err \<Rightarrow> Inl err
                   | Inr None \<Rightarrow> Inr record
                   | Inr (Some z) \<Rightarrow>
                       Inr (record\<lparr>KeyValue := (KeyValue record)\<lparr>UserKey := z\<rparr>\<rparr>))
                else Inr record)
             else
               (let empty = isEmptyValue fieldValue in
                if omit tag \<or> (omitempty tag \<and> empty) then Inr record
                else
                  (let binName = name tag in
                   if binName = [] then Inr record
                   else if empty then
                     (case valueInterface (Zero (ftype d)) of
                        Inl err \<Rightarrow> Inl err
                      | Inr z \<Rightarrow> Inr (record\<lparr>Bins := AList.update binName z (Bins record)\<rparr>))
                   else
                     (case valueInterface fieldValue of
                        Inl err \<Rightarrow> Inl err
                      | Inr y \<Rightarrow> Inr (record\<lparr>Bins := AList.update binName y (Bins record)\<rparr>))))))"
  by pat_completeness auto
termination
  apply (relation "measure (\<lambda>a. case a of
           Inl (lib, v, r) \<Rightarrow> 3 * anySize v + 1
         | Inr (Inl (lib, fl, fs, r)) \<Rightarrow> 3 * size_list (size_prod (\<lambda>u. 0) size) fs + 2
         | Inr (Inr (lib, fl, d, x, r)) \<Rightarrow> 3 * size x + 6)")
      apply simp
  subgoal for lib v r sv y n fs using size_structValue [of v sv] by simp
    apply simp
   apply simp
  subgoal for lib fl d x r fv using size_fieldValueDeref [of fl d x] by simp
  done

declare encode.simps [simp del]
declare encode_field.simps [simp del]

definition Encode :: "golib \<Rightarrow> any \<Rightarrow> error + Record" where
  "Encode lib v = encode lib v newRecord"

section \<open>Package strconv and the numeric conversions\<close>

text \<open>
  \<^verbatim>\<open>strconv.FormatInt(i, 10)\<close>, \<^verbatim>\<open>strconv.FormatBool\<close>, \<^verbatim>\<open>strconv.ParseInt(s, 10, 64)\<close>
  and \<^verbatim>\<open>strconv.ParseBool\<close>; a parser returns \<open>None\<close> where the Go function returns an
  error.
\<close>

definition digitChar :: "nat \<Rightarrow> char" where
  "digitChar n = char_of (48 + n)"

fun showNat :: "nat \<Rightarrow> string" where
  "showNat n = (if n < 10 then [digitChar n] else showNat (n div 10) @ [digitChar (n mod 10)])"

declare showNat.simps [simp del]

definition FormatInt :: "int \<Rightarrow> string" where
  "FormatInt i = (if i < 0 then CHR ''-'' # showNat (nat (- i)) else showNat (nat i))"

definition FormatBool :: "bool \<Rightarrow> string" where
  "FormatBool b = (if b then ''true'' else ''false'')"

definition digitVal :: "char \<Rightarrow> nat option" where
  "digitVal c =
     (if (48::nat) \<le> of_char c \<and> of_char c \<le> (57::nat) then Some (of_char c - 48) else None)"

fun parseDigits :: "string \<Rightarrow> nat \<Rightarrow> nat option" where
  "parseDigits [] acc = Some acc"
| "parseDigits (c # cs) acc =
     (case digitVal c of None \<Rightarrow> None | Some d \<Rightarrow> parseDigits cs (10 * acc + d))"

definition ParseInt :: "string \<Rightarrow> int option" where
  "ParseInt s =
     (let neg = (s \<noteq> [] \<and> hd s = CHR ''-'');
          digits = (if s \<noteq> [] \<and> (hd s = CHR ''+'' \<or> hd s = CHR ''-'') then tl s else s)
      in if digits = [] then None
         else (case parseDigits digits 0 of
                 None \<Rightarrow> None
               | Some n \<Rightarrow>
                   if \<not> neg \<and> 2 ^ 63 \<le> n then None
                   else if neg \<and> 2 ^ 63 < n then None
                   else Some (if neg then - int n else int n)))"

definition ParseBool :: "string \<Rightarrow> bool option" where
  "ParseBool s =
     (if s \<in> {''1'', ''t'', ''T'', ''TRUE'', ''true'', ''True''} then Some True
      else if s \<in> {''0'', ''f'', ''F'', ''FALSE'', ''false'', ''False''} then Some False
      else None)"

text \<open>
  A conversion to an integer type keeps the low bits: \<open>wrapS n\<close> and \<open>wrapU n\<close> are the
  values of a signed and of an unsigned integer of \<open>n\<close> bits.
\<close>

definition wrapS :: "nat \<Rightarrow> int \<Rightarrow> int" where
  "wrapS n i = (i + 2 ^ (n - 1)) mod 2 ^ n - 2 ^ (n - 1)"

definition wrapU :: "nat \<Rightarrow> int \<Rightarrow> int" where
  "wrapU n i = i mod 2 ^ n"

text \<open>
  \<^verbatim>\<open>v.Convert(t)\<close> for the conversions between numeric kinds that the program performs:
  between integer kinds and between float kinds.  The result is read-only when \<open>v\<close>
  is.
\<close>

definition Convert :: "golib \<Rightarrow> Value \<Rightarrow> gtype \<Rightarrow> error + Value" where
  "Convert lib v t =
     (let fl = Flags False (ro (flag v)) False in
      case (val v, t) of
        (Some (VInt k i), TInt k') \<Rightarrow> Inr (V (Some (VInt k' (wrapS (bitsI k') i))) fl)
      | (Some (VInt k i), TUint k') \<Rightarrow> Inr (V (Some (VUint k' (wrapU (bitsU k') i))) fl)
      | (Some (VUint k i), TInt k') \<Rightarrow> Inr (V (Some (VInt k' (wrapS (bitsI k') i))) fl)
      | (Some (VUint k i), TUint k') \<Rightarrow> Inr (V (Some (VUint k' (wrapU (bitsU k') i))) fl)
      | (Some (VFloat32 w), TFloat Float32) \<Rightarrow> Inr (V (Some (VFloat32 w)) fl)
      | (Some (VFloat32 w), TFloat Float64) \<Rightarrow> Inr (V (Some (VFloat64 (float32To64 lib w))) fl)
      | (Some (VFloat64 w), TFloat Float32) \<Rightarrow> Inr (V (Some (VFloat32 (float64To32 lib w))) fl)
      | (Some (VFloat64 w), TFloat Float64) \<Rightarrow> Inr (V (Some (VFloat64 w)) fl)
      | _ \<Rightarrow> Inl (Panic ''reflect.Value.Convert: value cannot be converted to type''))"

text \<open>\<^verbatim>\<open>v.Int()\<close>, \<^verbatim>\<open>v.Uint()\<close> and \<^verbatim>\<open>v.Float()\<close> panic on a value of another kind.\<close>

definition IntOf :: "Value \<Rightarrow> error + int" where
  "IntOf v =
     (case val v of
        Some (VInt k i) \<Rightarrow> Inr i
      | _ \<Rightarrow> Inl (Panic ''reflect: call of reflect.Value.Int on a Value of another kind''))"

definition UintOf :: "Value \<Rightarrow> error + int" where
  "UintOf v =
     (case val v of
        Some (VUint k i) \<Rightarrow> Inr i
      | _ \<Rightarrow> Inl (Panic ''reflect: call of reflect.Value.Uint on a Value of another kind''))"

definition FloatOf :: "golib \<Rightarrow> Value \<Rightarrow> error + 64 word" where
  "FloatOf lib v =
     (case val v of
        Some (VFloat32 w) \<Rightarrow> Inr (float32To64 lib w)
      | Some (VFloat64 w) \<Rightarrow> Inr w
      | _ \<Rightarrow> Inl (Panic ''reflect: call of reflect.Value.Float on a Value of another kind''))"

text \<open>
  \<^verbatim>\<open>v.OverflowInt(x)\<close> and \<^verbatim>\<open>v.OverflowUint(x)\<close> for \<open>v\<close> of a signed and of an unsigned
  integer kind: \<open>x\<close> is not a value of that kind.
\<close>

definition OverflowInt :: "ikind \<Rightarrow> int \<Rightarrow> bool" where
  "OverflowInt k x = (x \<noteq> wrapS (bitsI k) x)"

definition OverflowUint :: "ukind \<Rightarrow> int \<Rightarrow> bool" where
  "OverflowUint k x = (x \<noteq> wrapU (bitsU k) x)"

section \<open>Fields and methods by name\<close>

text \<open>
  \<^verbatim>\<open>v.FieldByName(name)\<close> takes the field of that name that the struct declares, and
  else, when the struct embeds fields, the field that Go promotes under this name; the
  index path of a promoted field is the parameter \<open>promoted\<close>.  \<open>fieldAt\<close> is
  \<^verbatim>\<open>v.FieldByIndex\<close>: it follows the path through embedded structs and panics on a nil
  pointer to one; \<open>typeAt\<close> is the declared type of the field at the path and \<open>putAt\<close>
  stores a new content there.
\<close>

fun findField :: "string \<Rightarrow> (sfield \<times> gval) list \<Rightarrow> nat option" where
  "findField nm [] = None"
| "findField nm ((d, x) # fs) =
     (if fname d = nm then Some 0 else map_option Suc (findField nm fs))"

definition fieldPath :: "golib \<Rightarrow> gval \<Rightarrow> string \<Rightarrow> nat list option" where
  "fieldPath lib s nm =
     (case s of
        VStruct n fs \<Rightarrow>
          (case findField nm fs of
             Some i \<Rightarrow> Some [i]
           | None \<Rightarrow> if list_ex (\<lambda>p. fembedded (fst p)) fs then promoted lib (typeOf s) nm else None)
      | _ \<Rightarrow> None)"

definition throughPtr :: "gtype \<Rightarrow> gtype" where
  "throughPtr t = (case t of TPtr u \<Rightarrow> if kindOf u = Struct then u else t | _ \<Rightarrow> t)"

fun typeAt :: "gtype \<Rightarrow> nat list \<Rightarrow> gtype option" where
  "typeAt t [] = None"
| "typeAt t [i] =
     (case t of
        TStruct n ds \<Rightarrow> if i < length ds then Some (ftype (ds ! i)) else None
      | _ \<Rightarrow> None)"
| "typeAt t (i # j # p) =
     (case t of
        TStruct n ds \<Rightarrow>
          if i < length ds then typeAt (throughPtr (ftype (ds ! i))) (j # p) else None
      | _ \<Rightarrow> None)"

fun fieldAt :: "flags \<Rightarrow> gval \<Rightarrow> nat list \<Rightarrow> error + Value" where
  "fieldAt fl s [] = Inl (Panic ''reflect: Field index out of range'')"
| "fieldAt fl s [i] =
     (case s of
        VStruct n fs \<Rightarrow>
          if i < length fs then Inr (Field fl (fst (fs ! i)) (snd (fs ! i)))
          else Inl (Panic ''reflect: Field index out of range'')
      | _ \<Rightarrow> Inl (Panic ''reflect: call of reflect.Value.Field on a Value that is no struct''))"
| "fieldAt fl s (i # j # p) =
     (case s of
        VStruct n fs \<Rightarrow>
          if i < length fs
          then (let v = Field fl (fst (fs ! i)) (snd (fs ! i)) in
                case snd (fs ! i) of
                  VPtr t y \<Rightarrow>
                    if kindOf t = Struct
                    then (case y of
                            None \<Rightarrow>
                              Inl (Panic ''reflect: indirection through nil pointer to embedded struct'')
                          | Some z \<Rightarrow> fieldAt (flag (Elem v)) z (j # p))
                    else fieldAt (flag v) (VPtr t y) (j # p)
                | y \<Rightarrow> fieldAt (flag v) y (j # p))
          else Inl (Panic ''reflect: Field index out of range'')
      | _ \<Rightarrow> Inl (Panic ''reflect: call of reflect.Value.Field on a Value that is no struct''))"

fun putAt :: "gval \<Rightarrow> nat list \<Rightarrow> gval \<Rightarrow> gval" where
  "putAt s [] z = s"
| "putAt s [i] z =
     (case s of VStruct n fs \<Rightarrow> VStruct n (fs[i := (fst (fs ! i), z)]) | _ \<Rightarrow> s)"
| "putAt s (i # j # p) z =
     (case s of
        VStruct n fs \<Rightarrow>
          VStruct n (fs[i := (fst (fs ! i),
            (case snd (fs ! i) of
               VPtr t (Some y) \<Rightarrow>
                 if kindOf t = Struct then VPtr t (Some (putAt y (j # p) z))
                 else VPtr t (Some y)
             | y \<Rightarrow> putAt y (j # p) z))])
      | _ \<Rightarrow> s)"

definition FieldByName :: "golib \<Rightarrow> Value \<Rightarrow> string \<Rightarrow> error + Value" where
  "FieldByName lib v nm =
     (case val v of
        Some (VStruct n fs) \<Rightarrow>
          (case fieldPath lib (VStruct n fs) nm of
             None \<Rightarrow> Inr reflectZeroValue
           | Some p \<Rightarrow> fieldAt (flag v) (VStruct n fs) p)
      | _ \<Rightarrow> Inl (Panic ''reflect: call of reflect.Value.FieldByName on a Value that is no struct''))"

text \<open>
  \<open>getField\<close>: the second search, on \<^verbatim>\<open>value.Addr().Elem()\<close>, looks at the same struct.
\<close>

definition fieldNotFound :: "Value \<Rightarrow> string \<Rightarrow> error" where
  "fieldNotFound v fieldName =
     (case val v of
        None \<Rightarrow> Panic ''reflect: call of reflect.Value.Type on zero Value''
      | Some x \<Rightarrow>
          Errorf ''field '%s' not found on type %s (or pointer to it)'' [S fieldName, T (typeOf x)])"

definition getField :: "golib \<Rightarrow> Value \<Rightarrow> string \<Rightarrow> error + Value" where
  "getField lib v fieldName =
     (case FieldByName lib v fieldName of
        Inl err \<Rightarrow> Inl err
      | Inr field \<Rightarrow>
          if IsValid field then Inr field
          else if CanAddr v then
            (case FieldByName lib (V (val v) (Flags True (stickyRO (flag v)) (embedRO (flag v))))
                    fieldName of
               Inl err \<Rightarrow> Inl err
             | Inr field' \<Rightarrow>
                 if IsValid field' then Inr field'
                 else Inl (fieldNotFound v fieldName))
          else Inl (fieldNotFound v fieldName))"

text \<open>
  A method value is the method with its receiver and whether it was reached through
  an unexported field.  \<^verbatim>\<open>v.MethodByName\<close> looks in the method set of the type of \<open>v\<close>
  and panics on a nil interface value; \<open>getMethod\<close> looks in the method set of the
  pointer type next when \<open>v\<close> is addressable.  \<^verbatim>\<open>m.Call(nil)\<close> panics when the method
  value is read-only or the method has parameters.
\<close>

datatype methodValue = MethodValue (mth: meth) (receiver: gval) (mro: bool)

definition MethodByName :: "golib \<Rightarrow> Value \<Rightarrow> string \<Rightarrow> error + methodValue option" where
  "MethodByName lib v nm =
     (case val v of
        None \<Rightarrow> Inl (Panic ''reflect: call of reflect.Value.MethodByName on zero Value'')
      | Some x \<Rightarrow>
          (case methodSet lib (typeOf x) nm of
             None \<Rightarrow> Inr None
           | Some m \<Rightarrow>
               (case x of
                  VIface n None \<Rightarrow> Inl (Panic ''reflect: Method on nil interface value'')
                | _ \<Rightarrow> Inr (Some (MethodValue m x (ro (flag v)))))))"

definition getMethod :: "golib \<Rightarrow> Value \<Rightarrow> string \<Rightarrow> error + methodValue" where
  "getMethod lib v methodName =
     (case MethodByName lib v methodName of
        Inl err \<Rightarrow> Inl err
      | Inr (Some m) \<Rightarrow> Inr m
      | Inr None \<Rightarrow>
          (case val v of
             None \<Rightarrow> Inl (Panic ''reflect: call of reflect.Value.Type on zero Value'')
           | Some x \<Rightarrow>
               if CanAddr v then
                 (case MethodByName lib (V (Some (VPtr (typeOf x) (Some x)))
                         (Flags False (stickyRO (flag v)) (embedRO (flag v)))) methodName of
                    Inl err \<Rightarrow> Inl err
                  | Inr (Some m) \<Rightarrow> Inr m
                  | Inr None \<Rightarrow>
                      Inl (Errorf ''method '%s' not found on type %s (or pointer to it)''
                             [S methodName, T (typeOf x)]))
               else Inl (Errorf ''method '%s' not found on type %s (or pointer to it)''
                           [S methodName, T (typeOf x)])))"

definition Call :: "methodValue \<Rightarrow> error + Value list" where
  "Call m =
     (if mro m then Inl (Panic ''reflect: reflect.Value.Call using value obtained using unexported field'')
      else if numIn (mth m) \<noteq> 0 then Inl (Panic ''reflect: Call with too few input arguments'')
      else Inr (map (\<lambda>x. V (Some x) noFlags) (results (mth m) (receiver m))))"

section \<open>convertElementType and copyStruct\<close>

text \<open>
  What \<^verbatim>\<open>reflect.ValueOf\<close> makes of a \<^verbatim>\<open>reflect.Value\<close> that was passed as \<^verbatim>\<open>any\<close>:
  the struct \<^verbatim>\<open>reflect.Value\<close> itself, with its three unexported fields, of which the
  last is embedded.  No field of it can be read through reflect, so their contents are
  left zero here.
\<close>

definition ValueStructType :: gtype where
  "ValueStructType = TStruct ''reflect.Value''
     [SField ''typ_'' False False [] (TPtr (TStruct ''abi.Type'' [])),
      SField ''ptr'' False False [] (TUint Uintptr),
      SField ''flag'' False True [] (TUint Uintptr)]"

definition ValueOfAny :: "any \<Rightarrow> Value" where
  "ValueOfAny source =
     (case source of Dyn d \<Rightarrow> ValueOf d | Refl rv \<Rightarrow> ValueOf (Some (zero ValueStructType)))"

definition typeString :: "gtype \<Rightarrow> string" where
  "typeString t = (case t of TStruct n ds \<Rightarrow> n | TInterface n \<Rightarrow> n | _ \<Rightarrow> [])"

definition pointeeType :: "any \<Rightarrow> gtype" where
  "pointeeType target =
     (case target of Dyn (Some (VPtr t (Some x))) \<Rightarrow> typeOf x | _ \<Rightarrow> TBool)"

lemma typeOf_zero: "typeOf (zero t) = t"
proof (induction t rule: gtype.induct [of _ "\<lambda>d. fst (zeroField d) = d"])
  case (TStruct n ds)
  then show ?case by (simp add: map_idI)
next
  case (TFloat k)
  then show ?case by (cases k) simp_all
qed simp_all

lemma map_fst_update_same: "(map fst xs)[i := fst (xs ! i)] = map fst xs"
  by (cases "i < length xs") (simp_all add: list_update_same_conv list_update_beyond)

lemma typeOf_putAt: "typeOf (putAt s p z) = typeOf s"
proof (cases p)
  case Nil
  then show ?thesis by simp
next
  case (Cons i q)
  then show ?thesis
    by (cases q; cases s) (simp_all add: map_update map_fst_update_same)
qed

lemma size_ftype_mem: "d \<in> set ds \<Longrightarrow> size (ftype d) < Suc (size_list size ds)"
  by (induction ds) (auto, cases d, auto)

lemma size_ftype_nth: "i < length ds \<Longrightarrow> size (ftype (ds ! i)) < Suc (size_list size ds)"
  by (simp add: size_ftype_mem)

lemma size_throughPtr: "size (throughPtr t) \<le> size t"
  by (cases t) (auto simp: throughPtr_def)

lemma size_typeAt: "typeAt t p = Some u \<Longrightarrow> size u < size t"
proof (induction t p arbitrary: u rule: typeAt.induct)
  case (1 t)
  then show ?case by simp
next
  case (2 t i)
  then show ?case
    using size_ftype_nth by (auto split: gtype.splits if_splits)
next
  case (3 t i j p)
  show ?case
  proof (cases t)
    case (TStruct n ds)
    with 3 have i: "i < length ds" by (auto split: if_splits)
    have less: "size (ftype (ds ! i)) < size t"
      using size_ftype_nth [OF i] TStruct by simp
    from 3 TStruct i have "size u < size (throughPtr (ftype (ds ! i)))" by simp
    with less size_throughPtr [of "ftype (ds ! i)"] show ?thesis by simp
  qed (use 3 in auto)
qed

lemma pointeeType_Elem:
  "Kind (ValueOfAny target) = Ptr \<Longrightarrow> val (Elem (ValueOfAny target)) = Some y \<Longrightarrow>
   pointeeType target = typeOf y"
  by (auto simp: ValueOfAny_def ValueOf_def Kind_def Elem_def pointeeType_def typeOf_zero
        ValueStructType_def reflectZeroValue_def
      split: any.splits option.splits gval.splits)

text \<open>
  \<open>convertElementType\<close> and \<open>copyStruct\<close> are the functions of the source;
  \<open>convertSlice\<close> and \<open>convertMap\<close> are the loops of the slice and the map case from
  index \<open>i\<close> and over the remaining keys, \<open>copyStruct_fields\<close> is the loop of
  \<open>copyStruct\<close> over the remaining fields of the source.  \<open>copyStruct\<close> returns the
  struct that its target points to, as the loop leaves it.
\<close>

function convertElementType :: "golib \<Rightarrow> any \<Rightarrow> gtype \<Rightarrow> error + Value"
  and convertSlice :: "golib \<Rightarrow> flags \<Rightarrow> gtype \<Rightarrow> nat \<Rightarrow> gval list \<Rightarrow> error + gval list"
  and convertMap :: "golib \<Rightarrow> flags \<Rightarrow> gtype \<Rightarrow> gtype \<Rightarrow> (gval \<times> gval) list \<Rightarrow>
        (gval \<times> gval) list \<Rightarrow> error + (gval \<times> gval) list"
  and copyStruct :: "golib \<Rightarrow> any \<Rightarrow> any \<Rightarrow> error + gval"
  and copyStruct_fields :: "golib \<Rightarrow> flags \<Rightarrow> (sfield \<times> gval) list \<Rightarrow> gval \<Rightarrow> error + gval"
where
  "convertElementType lib source targetType =
     (let sourceValue0 = (case source of Refl rv \<Rightarrow> rv | Dyn d \<Rightarrow> ValueOf d);
          sourceValue1 = (if Kind sourceValue0 = Interface then Elem sourceValue0 else sourceValue0)
      in
      if \<not> IsValid sourceValue1 then Inr (Zero targetType)
      else if Kind sourceValue1 = Ptr \<and> \<not> IsValid (Elem sourceValue1) then Inr (Zero targetType)
      else
        (let sourceValue = (if Kind sourceValue1 = Ptr then Elem sourceValue1 else sourceValue1) in
         case val sourceValue of
           None \<Rightarrow> Inl (Panic ''reflect: call of reflect.Value.Type on zero Value'')
         | Some x \<Rightarrow>
         (let sourceType = typeOf x in
          if sourceType = targetType then Inr sourceValue
          else
            (case kindOf targetType of
               String \<Rightarrow>
                 (case x of
                    VString s \<Rightarrow> Inr sourceValue
                  | VInt k i \<Rightarrow> Inr (ValueOf (Some (VString (FormatInt i))))
                  | VFloat32 w \<Rightarrow>
                      Inr (ValueOf (Some (VString (FormatFloat lib (float32To64 lib w)))))
                  | VFloat64 w \<Rightarrow> Inr (ValueOf (Some (VString (FormatFloat lib w))))
                  | VBool b \<Rightarrow> Inr (ValueOf (Some (VString (FormatBool b))))
                  | _ \<Rightarrow> Inl (Errorf ''cannot convert %s to string'' [T sourceType]))
             | SInt tk \<Rightarrow>
                 (case x of
                    VInt k i \<Rightarrow> Convert lib sourceValue targetType
                  | VFloat32 w \<Rightarrow>
                      Convert lib (ValueOf (Some (VInt Int64 (floatToInt64 lib (float32To64 lib w)))))
                        targetType
                  | VFloat64 w \<Rightarrow>
                      Convert lib (ValueOf (Some (VInt Int64 (floatToInt64 lib w)))) targetType
                  | VString s \<Rightarrow>
                      (case ParseInt s of
                         None \<Rightarrow> Inl (Errorf ''cannot convert string '%s' to int: %w''
                                        [S s, W (New ''strconv.ParseInt'')])
                       | Some i \<Rightarrow> Convert lib (ValueOf (Some (VInt Int64 i))) targetType)
                  | _ \<Rightarrow> Inl (Errorf ''cannot convert %s to int'' [T sourceType]))
             | Float tk \<Rightarrow>
                 (case x of
                    VFloat32 w \<Rightarrow> Convert lib sourceValue targetType
                  | VFloat64 w \<Rightarrow> Convert lib sourceValue targetType
                  | VInt k i \<Rightarrow>
                      Convert lib (ValueOf (Some (VFloat64 (int64ToFloat lib i)))) targetType
                  | VString s \<Rightarrow>
                      (case ParseFloat lib s of
                         None \<Rightarrow> Inl (Errorf ''cannot convert string '%s' to float: %w''
                                        [S s, W (New ''strconv.ParseFloat'')])
                       | Some f \<Rightarrow> Convert lib (ValueOf (Some (VFloat64 f))) targetType)
                  | _ \<Rightarrow> Inl (Errorf ''cannot convert %s to float'' [T sourceType]))
             | Bool \<Rightarrow>
                 (case x of
                    VBool b \<Rightarrow> Inr sourceValue
                  | VString s \<Rightarrow>
                      (case ParseBool s of
                         None \<Rightarrow> Inl (Errorf ''cannot convert string '%s' to bool: %w''
                                        [S s, W (New ''strconv.ParseBool'')])
                       | Some b \<Rightarrow> Inr (ValueOf (Some (VBool b))))
                  | VInt k i \<Rightarrow> Inr (ValueOf (Some (VBool (i \<noteq> 0))))
                  | VFloat32 w \<Rightarrow> Inr (ValueOf (Some (VBool (take_bit 31 w \<noteq> 0))))
                  | VFloat64 w \<Rightarrow> Inr (ValueOf (Some (VBool (take_bit 63 w \<noteq> 0))))
                  | _ \<Rightarrow> Inl (Errorf ''cannot convert %s to bool'' [T sourceType]))
             | Slice \<Rightarrow>
                 (case x of
                    VSlice st xs \<Rightarrow>
                      (case targetType of
                         TSlice elementType \<Rightarrow>
                           (case convertSlice lib (flag sourceValue) elementType 0
                                   (case xs of None \<Rightarrow> [] | Some ys \<Rightarrow> ys) of
                              Inl err \<Rightarrow> Inl err
                            | Inr zs \<Rightarrow> Inr (ValueOf (Some (VSlice elementType (Some zs)))))
                       | _ \<Rightarrow> Inl (Panic ''reflect: Elem of a type that is no slice''))
                  | _ \<Rightarrow> Inl (Errorf ''cannot convert %s to slice'' [T sourceType]))
             | Map \<Rightarrow>
                 (case x of
                    VMap sk st m \<Rightarrow>
                      (case targetType of
                         TMap keyType elementType \<Rightarrow>
                           (case convertMap lib (flag sourceValue) keyType elementType
                                   (case m of None \<Rightarrow> [] | Some es \<Rightarrow> es) [] of
                              Inl err \<Rightarrow> Inl err
                            | Inr newMap \<Rightarrow>
                                Inr (ValueOf (Some (VMap keyType elementType (Some newMap)))))
                       | _ \<Rightarrow> Inl (Panic ''reflect: Key of a type that is no map''))
                  | _ \<Rightarrow> Inl (Errorf ''cannot convert %s to map'' [T sourceType]))
             | Struct \<Rightarrow>
                 (if typeString targetType = timeType then
                    (case x of
                       VString s \<Rightarrow>
                         (case ParseTime lib s of
                            None \<Rightarrow> Inl (Errorf ''cannot convert string '%s' to %s: %w''
                                           [S s, S timeType, W (New ''time.Parse'')])
                          | Some t \<Rightarrow> Inr (ValueOf (Some t)))
                     | VStruct n fs \<Rightarrow>
                         if typeString sourceType = timeType then Inr sourceValue
                         else Inl (Errorf ''cannot convert struct %s to %s''
                                     [T sourceType, S timeType])
                     | _ \<Rightarrow> Inl (Errorf ''cannot convert %s to %s'' [T sourceType, S timeType]))
                  else
                    (case copyStruct lib source
                            (Dyn (Some (VPtr targetType (Some (zero targetType))))) of
                       Inl err \<Rightarrow> Inl (wrapf ''error mapping nested struct: %w'' [] err)
                     | Inr nested \<Rightarrow> Inr (V (Some nested) (Flags True False False))))
             | Ptr \<Rightarrow>
                 (case targetType of
                    TPtr targetElemType \<Rightarrow>
                      (case convertElementType lib source targetElemType of
                         Inl err \<Rightarrow> Inl err
                       | Inr convertedValue \<Rightarrow>
                           (case Set lib (V (Some (zero targetElemType)) (Flags True False False))
                                   convertedValue of
                              Inl err \<Rightarrow> Inl err
                            | Inr z \<Rightarrow> Inr (ValueOf (Some (VPtr targetElemType (Some z))))))
                  | _ \<Rightarrow> Inl (Panic ''reflect: Elem of a type that is no pointer''))
             | k \<Rightarrow> Inl (Errorf ''unsupported target type: %s'' [K k])))))"
| "convertSlice lib sfl elementType i [] = Inr []"
| "convertSlice lib sfl elementType i (x # xs) =
     (case valueInterface (V (Some x) (Flags True (ro sfl) False)) of
        Inl err \<Rightarrow> Inl err
      | Inr sourceElement \<Rightarrow>
          (case convertElementType lib (Dyn sourceElement) elementType of
             Inl err \<Rightarrow>
               Inl (wrapf ''error converting slice element at index %d: %w'' [N (int i)] err)
           | Inr convertedElement \<Rightarrow>
               (case Set lib (V (Some (zero elementType)) (Flags True False False))
                       convertedElement of
                  Inl err \<Rightarrow> Inl err
                | Inr z \<Rightarrow>
                    (case convertSlice lib sfl elementType (Suc i) xs of
                       Inl err \<Rightarrow> Inl err
                     | Inr zs \<Rightarrow> Inr (z # zs)))))"
| "convertMap lib sfl keyType elementType [] newMap = Inr newMap"
| "convertMap lib sfl keyType elementType ((k, x) # es) newMap =
     (case valueInterface (V (Some k) (Flags False (ro sfl) False)) of
        Inl err \<Rightarrow> Inl err
      | Inr key \<Rightarrow>
          (case convertElementType lib (Dyn key) keyType of
             Inl err \<Rightarrow> Inl (wrapf ''error converting map key: %w'' [] err)
           | Inr convertedKey \<Rightarrow>
               (case valueInterface (V (Some x) (Flags False (ro sfl) False)) of
                  Inl err \<Rightarrow> Inl err
                | Inr sourceElement \<Rightarrow>
                    (case convertElementType lib (Dyn sourceElement) elementType of
                       Inl err \<Rightarrow> Inl (wrapf ''error converting map value: %w'' [] err)
                     | Inr convertedValue \<Rightarrow>
                         (case Set lib (V (Some (zero keyType)) (Flags True False False))
                                 convertedKey of
                            Inl err \<Rightarrow> Inl err
                          | Inr zk \<Rightarrow>
                              (case Set lib (V (Some (zero elementType)) (Flags True False False))
                                      convertedValue of
                                 Inl err \<Rightarrow> Inl err
                               | Inr zv \<Rightarrow>
                                   convertMap lib sfl keyType elementType es
                                     (AList.update zk zv newMap)))))))"
| "copyStruct lib source target =
     (let sourceValue0 = ValueOfAny source;
          sourceValue1 = (if Kind sourceValue0 = Interface then Elem sourceValue0 else sourceValue0);
          sourceValue = (if Kind sourceValue1 = Ptr then Elem sourceValue1 else sourceValue1);
          targetValue0 = ValueOfAny target
      in
      if Kind targetValue0 \<noteq> Ptr then Inl (New ''target must be a pointer to a struct'')
      else
        (case (val sourceValue, val (Elem targetValue0)) of
           (Some (VStruct n fs), Some (VStruct m gs)) \<Rightarrow>
             copyStruct_fields lib (flag sourceValue) fs (VStruct m gs)
         | (Some x, Some y) \<Rightarrow> Inl (New ''source and target must be structs'')
         | _ \<Rightarrow> Inl (Panic ''reflect: call of reflect.Value.Type on zero Value'')))"
| "copyStruct_fields lib sfl [] target = Inr target"
| "copyStruct_fields lib sfl ((d, x) # rest) target =
     (case parseTag (ftag d) of
        Inl err \<Rightarrow> Inl err
      | Inr tag \<Rightarrow>
          (let tagName = (if name tag = [] then fname d else name tag) in
           case fieldPath lib target tagName of
             None \<Rightarrow> copyStruct_fields lib sfl rest target
           | Some p \<Rightarrow>
               (case fieldAt (Flags True False False) target p of
                  Inl err \<Rightarrow> Inl err
                | Inr targetFieldValue \<Rightarrow>
                    if \<not> IsValid targetFieldValue \<or> \<not> CanSet targetFieldValue
                    then copyStruct_fields lib sfl rest target
                    else
                      (case valueInterface (Field sfl d x) of
                         Inl err \<Rightarrow> Inl err
                       | Inr sourceFieldValue \<Rightarrow>
                           (case typeAt (typeOf target) p of
                              None \<Rightarrow> Inl (Panic ''reflect: Field index out of range'')
                            | Some targetFieldType \<Rightarrow>
                                (case convertElementType lib (Dyn sourceFieldValue)
                                        targetFieldType of
                                   Inl err \<Rightarrow>
                                     Inl (wrapf ''error converting field %s: %w'' [S tagName] err)
                                 | Inr convertedValue \<Rightarrow>
                                     (case Set lib targetFieldValue convertedValue of
                                        Inl err \<Rightarrow> Inl err
                                      | Inr z \<Rightarrow>
                                          copyStruct_fields lib sfl rest (putAt target p z))))))))"
  by pat_completeness auto
termination
  apply (relation "inv_image (less_than <*lex*> less_than) (\<lambda>a. case a of
           Inl (Inl (lib, source, t)) \<Rightarrow> (3 * size t + 2, 0)
         | Inl (Inr (lib, sfl, t, i, xs)) \<Rightarrow> (3 * size t + 3, length xs)
         | Inr (Inl (lib, sfl, kt, t, es, m)) \<Rightarrow> (3 * (size kt + size t) + 3, length es)
         | Inr (Inr (Inl (lib, source, target))) \<Rightarrow> (3 * size (pointeeType target) + 1, 0)
         | Inr (Inr (Inr (lib, sfl, fs, target))) \<Rightarrow> (3 * size (typeOf target), length fs))")
                   apply (simp_all add: wf_lex_prod pointeeType_def typeOf_zero typeOf_putAt)
  subgoal for source target x xa xb xc xd y x2 n fs x2a m gs
    using pointeeType_Elem [of target "VStruct m gs"] by (simp add: pointeeType_def)
  subgoal for lib sfl d x target b xa p ba bb u
    using size_typeAt [of "typeOf target" p u] by simp
  done

declare convertElementType.simps [simp del]
declare copyStruct.simps [simp del]

section \<open>Decode\<close>

text \<open>
  A decoder mutates the struct that its argument \<open>v\<close> refers to and returns an error or
  nil.  Here it returns \<open>v\<close> with the struct as the call leaves it, also when it
  fails, and the error (\<open>None\<close> for nil).  \<open>storeStruct v s\<close> is \<open>v\<close> with the struct it
  refers to replaced by \<open>s\<close>; \<open>putDeref x y\<close> is the field content \<open>x\<close> after the value
  that \<open>fieldValueDeref\<close> returned for it got the content \<open>y\<close>; \<open>nestedResult x v'\<close> is
  the field content \<open>x\<close> after a recursive call on that value returned \<open>v'\<close>.
\<close>

definition storeStruct :: "any \<Rightarrow> gval \<Rightarrow> any" where
  "storeStruct v s =
     (case v of
        Refl rv \<Rightarrow> Refl (V (Some s) (flag rv))
      | Dyn d \<Rightarrow>
          (case d of
             Some (VPtr t (Some old)) \<Rightarrow> Dyn (Some (VPtr t (Some s)))
           | _ \<Rightarrow> Dyn (Some s)))"

definition putDeref :: "gval \<Rightarrow> gval \<Rightarrow> gval" where
  "putDeref x y = (case x of VPtr t (Some old) \<Rightarrow> VPtr t (Some y) | _ \<Rightarrow> y)"

definition nestedResult :: "gval \<Rightarrow> any \<Rightarrow> gval" where
  "nestedResult x v' =
     (case v' of
        Refl rv \<Rightarrow> (case val rv of Some y \<Rightarrow> putDeref x y | None \<Rightarrow> x)
      | Dyn d \<Rightarrow> x)"

text \<open>
  \<^verbatim>\<open>m.MapIndex(reflect.ValueOf(key))\<close> for a string \<open>key\<close>: the invalid Value when the
  map has no such key; a panic when a string is not assignable to the key type of the
  map.
\<close>

definition MapIndex :: "golib \<Rightarrow> Value \<Rightarrow> string \<Rightarrow> error + Value" where
  "MapIndex lib m key =
     (case val m of
        Some (VMap kt vt es) \<Rightarrow>
          (case assignTo lib (VString key) kt of
             None \<Rightarrow>
               Inl (Panic ''reflect.Value.MapIndex: value of type string is not assignable to the key type'')
           | Some k \<Rightarrow>
               (case map_of (case es of None \<Rightarrow> [] | Some ps \<Rightarrow> ps) k of
                  None \<Rightarrow> Inr reflectZeroValue
                | Some x \<Rightarrow> Inr (V (Some x) (Flags False (ro (flag m)) False))))
      | _ \<Rightarrow> Inl (Panic ''reflect: call of reflect.Value.MapIndex on a Value that is no map''))"

function decodeBins :: "golib \<Rightarrow> Value \<Rightarrow> any \<Rightarrow> any \<times> error option"
  and decodeBins_fields ::
    "golib \<Rightarrow> Value \<Rightarrow> flags \<Rightarrow> (sfield \<times> gval) list \<Rightarrow> (sfield \<times> gval) list \<times> error option"
  and decodeBins_field :: "golib \<Rightarrow> Value \<Rightarrow> flags \<Rightarrow> sfield \<Rightarrow> gval \<Rightarrow> gval \<times> error option"
where
  "decodeBins lib recordValue v =
     (if Kind recordValue \<noteq> Map then (v, None)
      else
        (case structValue v of
           Inl err \<Rightarrow> (v, Some err)
         | Inr targetValue \<Rightarrow>
             (case val targetValue of
                Some (VStruct n fs) \<Rightarrow>
                  (case decodeBins_fields lib recordValue (flag targetValue) fs of
                     (fs', err) \<Rightarrow> (storeStruct v (VStruct n fs'), err))
              | _ \<Rightarrow> (v, Some (Panic ''reflect: NumField of non-struct type'')))))"
| "decodeBins_fields lib recordValue fl [] = ([], None)"
| "decodeBins_fields lib recordValue fl ((d, x) # rest) =
     (case decodeBins_field lib recordValue fl d x of
        (x', Some err) \<Rightarrow> ((d, x') # rest, Some err)
      | (x', None) \<Rightarrow>
          (case decodeBins_fields lib recordValue fl rest of
             (rest', err) \<Rightarrow> ((d, x') # rest', err)))"
| "decodeBins_field lib recordValue fl d x =
     (let fieldValue = fieldValueDeref fl d x in
      if Kind fieldValue = Struct then
        (case decodeBins lib recordValue (Refl fieldValue) of
           (v', err) \<Rightarrow> (nestedResult x v', err))
      else if ftag d = [] then (x, None)
      else
        (case parseTag (ftag d) of
           Inl err \<Rightarrow> (x, Some err)
         | Inr tag \<Rightarrow>
             if name tag = [] then (x, None)
             else
               (case MapIndex lib recordValue (name tag) of
                  Inl err \<Rightarrow> (x, Some err)
                | Inr binValue \<Rightarrow>
                    if binValue = reflectZeroValue then (x, None)
                    else if \<not> CanSet fieldValue then (x, None)
                    else
                      (case convertElementType lib (Refl binValue) (ftype d) of
                         Inl err \<Rightarrow>
                           (x, Some (wrapf ''error converting value for field %s: %w''
                                       [S (fname d)] err))
                       | Inr convertedValue \<Rightarrow>
                           (case Set lib fieldValue convertedValue of
                              Inl err \<Rightarrow> (x, Some err)
                            | Inr z \<Rightarrow> (putDeref x z, None))))))"
  by pat_completeness auto
termination
  apply (relation "measure (\<lambda>a. case a of
           Inl (lib, r, v) \<Rightarrow> 3 * anySize v + 1
         | Inr (Inl (lib, r, fl, fs)) \<Rightarrow> 3 * size_list (size_prod (\<lambda>u. 0) size) fs + 2
         | Inr (Inr (lib, r, fl, d, x)) \<Rightarrow> 3 * size x + 6)")
      apply simp
  subgoal for lib r v sv y n fs using size_structValue [of v sv] by simp
    apply simp
   apply simp
  subgoal for lib r fl d x fv using size_fieldValueDeref [of fl d x] by simp
  done

declare decodeBins.simps [simp del]
declare decodeBins_field.simps [simp del]

text \<open>
  The four cases of the switch of \<open>decodeKey\<close>, each for the dereferenced value
  \<open>fieldValue\<close> of a field with content \<open>x\<close>; the result is the new content of the field
  and the error.  \<open>typeOfValue\<close> is \<^verbatim>\<open>v.Type()\<close>, which panics on the invalid Value;
  \<open>cannotBeChanged\<close> is the error that each case builds, with the type of the field,
  when the field is not settable: for a field that is a nil pointer the dereferenced
  value is invalid and building the error panics.
\<close>

definition typeOfValue :: "Value \<Rightarrow> error + gtype" where
  "typeOfValue v =
     (case val v of
        Some x \<Rightarrow> Inr (typeOf x)
      | None \<Rightarrow> Inl (Panic ''reflect: call of reflect.Value.Type on zero Value''))"

definition cannotBeChanged :: "Value \<Rightarrow> error" where
  "cannotBeChanged fieldValue =
     (case typeOfValue fieldValue of
        Inl err \<Rightarrow> err
      | Inr ft \<Rightarrow> Errorf ''%s value cannot be changed'' [T ft])"

definition setResult :: "golib \<Rightarrow> gval \<Rightarrow> Value \<Rightarrow> Value \<Rightarrow> gval \<times> error option" where
  "setResult lib x fieldValue y =
     (case Set lib fieldValue y of
        Inl err \<Rightarrow> (x, Some err)
      | Inr z \<Rightarrow> (putDeref x z, None))"

definition decodeKey_namespace :: "golib \<Rightarrow> Value \<Rightarrow> Value \<Rightarrow> gval \<Rightarrow> gval \<times> error option" where
  "decodeKey_namespace lib recordValue fieldValue x =
     (if \<not> CanSet fieldValue
      then (x, Some (cannotBeChanged fieldValue))
      else
        (case getMethod lib recordValue ''Namespace'' of
           Inl err \<Rightarrow>
             (case typeOfValue recordValue of
                Inl err' \<Rightarrow> (x, Some err')
              | Inr rt \<Rightarrow> (x, Some (wrapf ''%s: %w'' [T rt] err)))
         | Inr m \<Rightarrow>
             (case Call m of
                Inl err \<Rightarrow> (x, Some err)
              | Inr [] \<Rightarrow> (x, Some (Errorf ''method Namespace returned no values'' []))
              | Inr (r # rs) \<Rightarrow>
                  (case typeOfValue r of
                     Inl err \<Rightarrow> (x, Some err)
                   | Inr rt \<Rightarrow>
                       (case typeOfValue fieldValue of
                          Inl err \<Rightarrow> (x, Some err)
                        | Inr ft \<Rightarrow>
                            if rt = ft then setResult lib x fieldValue r
                            else (x, Some (Errorf
                                     ''method Namespace returned wrong type. Expected %s, got %s''
                                     [T ft, T rt])))))))"

definition decodeKey_setName :: "golib \<Rightarrow> Value \<Rightarrow> Value \<Rightarrow> gval \<Rightarrow> gval \<times> error option" where
  "decodeKey_setName lib recordValue fieldValue x =
     (if \<not> CanSet fieldValue
      then (x, Some (cannotBeChanged fieldValue))
      else
        (case getMethod lib recordValue ''SetName'' of
           Inl err \<Rightarrow> (x, Some err)
         | Inr m \<Rightarrow>
             (case Call m of
                Inl err \<Rightarrow> (x, Some err)
              | Inr [] \<Rightarrow> (x, Some (Errorf ''method SetName returned no values'' []))
              | Inr (r # rs) \<Rightarrow>
                  (case typeOfValue r of
                     Inl err \<Rightarrow> (x, Some err)
                   | Inr rt \<Rightarrow>
                       (case typeOfValue fieldValue of
                          Inl err \<Rightarrow> (x, Some err)
                        | Inr ft \<Rightarrow>
                            if rt = ft then setResult lib x fieldValue r
                            else (x, Some (Errorf
                                     ''method SetName returned wrong type. Expected %s, got %s''
                                     [T ft, T rt])))))))"

definition decodeKey_userKey :: "golib \<Rightarrow> Value \<Rightarrow> Value \<Rightarrow> gval \<Rightarrow> gval \<times> error option" where
  "decodeKey_userKey lib recordValue fieldValue x =
     (if \<not> CanSet fieldValue
      then (x, Some (cannotBeChanged fieldValue))
      else
        (case getMethod lib recordValue ''Value'' of
           Inl err \<Rightarrow> (x, Some err)
         | Inr m \<Rightarrow>
             (case Call m of
                Inl err \<Rightarrow> (x, Some err)
              | Inr [] \<Rightarrow> (x, Some (Errorf ''method Value returned no values'' []))
              | Inr (userKeyValue # rs) \<Rightarrow>
                  (case MethodByName lib userKeyValue ''GetObject'' of
                     Inl err \<Rightarrow> (x, Some err)
                   | Inr None \<Rightarrow>
                       (case typeOfValue userKeyValue of
                          Inl err \<Rightarrow> (x, Some err)
                        | Inr ut \<Rightarrow>
                            (x, Some (Errorf ''method GetObject not found on type %s'' [T ut])))
                   | Inr (Some methodToCall) \<Rightarrow>
                       (case Call methodToCall of
                          Inl err \<Rightarrow> (x, Some err)
                        | Inr [] \<Rightarrow>
                            (x, Some (Errorf ''method GetObject returned no values'' []))
                        | Inr (r # rs') \<Rightarrow>
                            (case typeOfValue r of
                               Inl err \<Rightarrow> (x, Some err)
                             | Inr rt \<Rightarrow>
                                 (case typeOfValue fieldValue of
                                    Inl err \<Rightarrow> (x, Some err)
                                  | Inr ft \<Rightarrow>
                                      if rt = ft then setResult lib x fieldValue r
                                      else (x, Some (Errorf
                                               ''method Value returned wrong type. Expected %s, got %s''
                                               [T ft, T rt])))))))))"

text \<open>
  \<^verbatim>\<open>v.Bytes()\<close> is the content of a slice of bytes or of an addressable array of
  bytes, and a panic on any other value.
\<close>

definition Bytes :: "Value \<Rightarrow> error + gval list option" where
  "Bytes v =
     (case val v of
        Some (VSlice t xs) \<Rightarrow>
          if kindOf t = UInt Uint8 then Inr xs
          else Inl (Panic ''reflect.Value.Bytes of non-byte slice'')
      | Some (VArray t xs) \<Rightarrow>
          if kindOf t \<noteq> UInt Uint8 then Inl (Panic ''reflect.Value.Bytes of non-byte array'')
          else if \<not> CanAddr v then Inl (Panic ''reflect.Value.Bytes of unaddressable byte array'')
          else Inr (Some xs)
      | _ \<Rightarrow> Inl (Panic ''reflect: call of reflect.Value.Bytes on a Value that holds no bytes''))"

definition decodeKey_digest :: "golib \<Rightarrow> Value \<Rightarrow> Value \<Rightarrow> gval \<Rightarrow> gval \<times> error option" where
  "decodeKey_digest lib recordValue fieldValue x =
     (if \<not> CanSet fieldValue
      then (x, Some (cannotBeChanged fieldValue))
      else
        (case getMethod lib recordValue ''Digest'' of
           Inl err \<Rightarrow> (x, Some err)
         | Inr m \<Rightarrow>
             (case Call m of
                Inl err \<Rightarrow> (x, Some err)
              | Inr [] \<Rightarrow> (x, Some (Errorf ''method Digest returned no values'' []))
              | Inr (digestValue # rs) \<Rightarrow>
                  (case Bytes digestValue of
                     Inl err \<Rightarrow> (x, Some err)
                   | Inr digest \<Rightarrow>
                       (let digestBytes = (case digest of None \<Rightarrow> [] | Some bs \<Rightarrow> bs) in
                        case typeOfValue fieldValue of
                          Inl err \<Rightarrow> (x, Some err)
                        | Inr ft \<Rightarrow>
                        (case ft of
                          TArray len t \<Rightarrow>
                            if kindOf t = UInt Uint8 then
                              (if len \<noteq> length digestBytes
                               then (x, Some (Errorf
                                       (''method Digest returned []byte of length %d, '' @
                                        ''expected array of length %d'')
                                       [N (int (length digestBytes)), N (int len)]))
                               else (putDeref x (VArray t digestBytes), None))
                            else (x, Some (Errorf
                                     (''method Digest returned wrong type. Expected []byte or [N]byte, '' @
                                      ''got %s'') [T ft]))
                        | TSlice t \<Rightarrow>
                            if t = TUint Uint8
                            then setResult lib x fieldValue
                                   (ValueOf (Some (VSlice (TUint Uint8) digest)))
                            else (x, Some (Errorf
                                     (''method Digest returned wrong type. Expected []byte or [N]byte, '' @
                                      ''got %s'') [T ft]))
                        | _ \<Rightarrow>
                            (x, Some (Errorf
                               (''method Digest returned wrong type. Expected []byte or [N]byte, '' @
                                ''got %s'') [T ft]))))))))"

function decodeKey :: "golib \<Rightarrow> Value \<Rightarrow> any \<Rightarrow> any \<times> error option"
  and decodeKey_fields ::
    "golib \<Rightarrow> Value \<Rightarrow> flags \<Rightarrow> (sfield \<times> gval) list \<Rightarrow> (sfield \<times> gval) list \<times> error option"
  and decodeKey_field :: "golib \<Rightarrow> Value \<Rightarrow> flags \<Rightarrow> sfield \<Rightarrow> gval \<Rightarrow> gval \<times> error option"
where
  "decodeKey lib recordValue v =
     (case structValue v of
        Inl err \<Rightarrow> (v, Some err)
      | Inr targetValue \<Rightarrow>
          (case val targetValue of
             Some (VStruct n fs) \<Rightarrow>
               (case decodeKey_fields lib recordValue (flag targetValue) fs of
                  (fs', err) \<Rightarrow> (storeStruct v (VStruct n fs'), err))
           | _ \<Rightarrow> (v, Some (Panic ''reflect: NumField of non-struct type''))))"
| "decodeKey_fields lib recordValue fl [] = ([], None)"
| "decodeKey_fields lib recordValue fl ((d, x) # rest) =
     (case decodeKey_field lib recordValue fl d x of
        (x', Some err) \<Rightarrow> ((d, x') # rest, Some err)
      | (x', None) \<Rightarrow>
          (case decodeKey_fields lib recordValue fl rest of
             (rest', err) \<Rightarrow> ((d, x') # rest', err)))"
| "decodeKey_field lib recordValue fl d x =
     (let fieldValue = fieldValueDeref fl d x in
      if Kind fieldValue = Struct then
        (case decodeKey lib recordValue (Refl fieldValue) of
           (v', err) \<Rightarrow> (nestedResult x v', err))
      else if ftag d = [] then (x, None)
      else
        (case parseTag (ftag d) of
           Inl err \<Rightarrow> (x, Some err)
         | Inr tag \<Rightarrow>
             if \<not> meta tag then (x, None)
             else if name tag = metaTagNamespace
               then decodeKey_namespace lib recordValue fieldValue x
             else if name tag = metaTagSetName
               then decodeKey_setName lib recordValue fieldValue x
             else if name tag = metaTagUserKey
               then decodeKey_userKey lib recordValue fieldValue x
             else if name tag = metaTagDigest
               then decodeKey_digest lib recordValue fieldValue x
             else (x, None)))"
  by pat_completeness auto
termination
  apply (relation "measure (\<lambda>a. case a of
           Inl (lib, r, v) \<Rightarrow> 3 * anySize v + 1
         | Inr (Inl (lib, r, fl, fs)) \<Rightarrow> 3 * size_list (size_prod (\<lambda>u. 0) size) fs + 2
         | Inr (Inr (lib, r, fl, d, x)) \<Rightarrow> 3 * size x + 6)")
      apply simp
  subgoal for lib r v sv y n fs using size_structValue [of v sv] by simp
    apply simp
   apply simp
  subgoal for lib r fl d x fv using size_fieldValueDeref [of fl d x] by simp
  done

declare decodeKey.simps [simp del]
declare decodeKey_field.simps [simp del]

text \<open>
  \<open>setIntegerValue\<close> returns the new content of \<open>fieldValue\<close>.  Its switch on the kind
  of the field has no case for \<open>uintptr\<close>.  \<open>setConverted\<close> is the assignment at the
  end of its two cases; \<open>overflowsDestination\<close> and \<open>unsupportedFieldType\<close> are its two
  errors, which name the type of the field and so panic on the invalid Value.
\<close>

definition setConverted :: "golib \<Rightarrow> Value \<Rightarrow> Value \<Rightarrow> error + gval" where
  "setConverted lib fieldValue recordValue =
     (case typeOfValue fieldValue of
        Inl err \<Rightarrow> Inl err
      | Inr ft \<Rightarrow>
          (case Convert lib recordValue ft of
             Inl err \<Rightarrow> Inl err
           | Inr c \<Rightarrow>
               (case valueInterface c of
                  Inl err \<Rightarrow> Inl err
                | Inr d \<Rightarrow> Set lib fieldValue (ValueOf d))))"

definition overflowsDestination :: "int \<Rightarrow> Value \<Rightarrow> error" where
  "overflowsDestination i fieldValue =
     (case typeOfValue fieldValue of
        Inl err \<Rightarrow> err
      | Inr ft \<Rightarrow> Errorf ''value '%d' overflows destination type '%s'' [N i, T ft])"

definition unsupportedFieldType :: "Value \<Rightarrow> error" where
  "unsupportedFieldType fieldValue =
     (case typeOfValue fieldValue of
        Inl err \<Rightarrow> err
      | Inr ft \<Rightarrow> Errorf ''unsupported field type: %s'' [T ft])"

definition setIntegerValue :: "golib \<Rightarrow> Value \<Rightarrow> Value \<Rightarrow> error + gval" where
  "setIntegerValue lib fieldValue recordValue =
     (case Kind fieldValue of
        SInt k \<Rightarrow>
          (case IntOf recordValue of
             Inl err \<Rightarrow> Inl err
           | Inr i \<Rightarrow>
               if OverflowInt k i then Inl (overflowsDestination i fieldValue)
               else setConverted lib fieldValue recordValue)
      | UInt k \<Rightarrow>
          if k = Uintptr then Inl (unsupportedFieldType fieldValue)
          else
            (case UintOf recordValue of
               Inl err \<Rightarrow> Inl err
             | Inr u \<Rightarrow>
                 if OverflowUint k u
                 then (case IntOf recordValue of
                         Inl err \<Rightarrow> Inl err
                       | Inr i \<Rightarrow> Inl (overflowsDestination i fieldValue))
                 else setConverted lib fieldValue recordValue)
      | _ \<Rightarrow> Inl (unsupportedFieldType fieldValue))"

text \<open>
  The two cases of the switch of \<open>decodeRecord\<close>, which differ in the name of the
  field of the record only.
\<close>

definition decodeRecord_integer ::
    "golib \<Rightarrow> Value \<Rightarrow> Value \<Rightarrow> gval \<Rightarrow> string \<Rightarrow> string \<Rightarrow> gval \<times> error option" where
  "decodeRecord_integer lib recordValue fieldValue x tagName fieldName =
     (if \<not> CanSet fieldValue then (x, Some (Errorf ''cannot set %s'' [S tagName]))
      else
        (case getField lib recordValue fieldName of
           Inl err \<Rightarrow> (x, Some err)
         | Inr f \<Rightarrow>
             (case setIntegerValue lib fieldValue f of
                Inl err \<Rightarrow> (x, Some (wrapf ''%s: %w'' [S tagName] err))
              | Inr z \<Rightarrow> (putDeref x z, None))))"

function decodeRecord :: "golib \<Rightarrow> Value \<Rightarrow> any \<Rightarrow> any \<times> error option"
  and decodeRecord_fields ::
    "golib \<Rightarrow> Value \<Rightarrow> flags \<Rightarrow> (sfield \<times> gval) list \<Rightarrow> (sfield \<times> gval) list \<times> error option"
  and decodeRecord_field :: "golib \<Rightarrow> Value \<Rightarrow> flags \<Rightarrow> sfield \<Rightarrow> gval \<Rightarrow> gval \<times> error option"
where
  "decodeRecord lib recordValue v =
     (case structValue v of
        Inl err \<Rightarrow> (v, Some err)
      | Inr targetValue \<Rightarrow>
          (case val targetValue of
             Some (VStruct n fs) \<Rightarrow>
               (case decodeRecord_fields lib recordValue (flag targetValue) fs of
                  (fs', err) \<Rightarrow> (storeStruct v (VStruct n fs'), err))
           | _ \<Rightarrow> (v, Some (Panic ''reflect: NumField of non-struct type''))))"
| "decodeRecord_fields lib recordValue fl [] = ([], None)"
| "decodeRecord_fields lib recordValue fl ((d, x) # rest) =
     (case decodeRecord_field lib recordValue fl d x of
        (x', Some err) \<Rightarrow> ((d, x') # rest, Some err)
      | (x', None) \<Rightarrow>
          (case decodeRecord_fields lib recordValue fl rest of
             (rest', err) \<Rightarrow> ((d, x') # rest', err)))"
| "decodeRecord_field lib recordValue fl d x =
     (let fieldValue = fieldValueDeref fl d x in
      if Kind fieldValue = Struct then
        (case decodeRecord lib recordValue (Refl fieldValue) of
           (v', err) \<Rightarrow> (nestedResult x v', err))
      else if ftag d = [] then (x, None)
      else
        (case parseTag (ftag d) of
           Inl err \<Rightarrow> (x, Some err)
         | Inr tag \<Rightarrow>
             if \<not> meta tag then (x, None)
             else if name tag = ''generation''
               then decodeRecord_integer lib recordValue fieldValue x (name tag) ''Generation''
             else if name tag = ''expiration''
               then decodeRecord_integer lib recordValue fieldValue x (name tag) ''Expiration''
             else (x, None)))"
  by pat_completeness auto
termination
  apply (relation "measure (\<lambda>a. case a of
           Inl (lib, r, v) \<Rightarrow> 3 * anySize v + 1
         | Inr (Inl (lib, r, fl, fs)) \<Rightarrow> 3 * size_list (size_prod (\<lambda>u. 0) size) fs + 2
         | Inr (Inr (lib, r, fl, d, x)) \<Rightarrow> 3 * size x + 6)")
      apply simp
  subgoal for lib r v sv y n fs using size_structValue [of v sv] by simp
    apply simp
   apply simp
  subgoal for lib r fl d x fv using size_fieldValueDeref [of fl d x] by simp
  done

declare decodeRecord.simps [simp del]
declare decodeRecord_field.simps [simp del]

text \<open>
  \<open>Decode\<close> is the function of the source and \<open>Decode_fields\<close> its loop over the fields
  of the record from index \<open>i\<close> on, with the variable \<open>isRecord\<close> and the destination
  \<open>v\<close> as the iterations before left them; after the last field it is the end of
  \<open>Decode\<close>.  \<open>inner\<close> says that the argument \<open>record\<close> holds a \<^verbatim>\<open>reflect.Value\<close>.
\<close>

function Decode :: "golib \<Rightarrow> any \<Rightarrow> any \<Rightarrow> any \<times> error option"
  and Decode_fields ::
    "golib \<Rightarrow> bool \<Rightarrow> Value \<Rightarrow> (sfield \<times> gval) list \<Rightarrow> bool \<Rightarrow> any \<Rightarrow> any \<times> error option"
where
  "Decode lib record v =
     (let inner = (case record of Refl rv \<Rightarrow> True | Dyn d \<Rightarrow> False) in
      case structValue record of
        Inl err \<Rightarrow> (v, Some err)
      | Inr recordValue \<Rightarrow>
          (case val recordValue of
             Some (VStruct n fs) \<Rightarrow> Decode_fields lib inner recordValue fs False v
           | _ \<Rightarrow> (v, Some (Panic ''reflect: NumField of non-struct type''))))"
| "Decode_fields lib inner recordValue [] isRecord v =
     (if \<not> isRecord then (v, Some ErrInvalidSource) else (v, None))"
| "Decode_fields lib inner recordValue ((d, x) # rest) isRecord v =
     (let fieldValue = fieldValueDeref (flag recordValue) d x;
          fieldName = fname d
      in
      if Kind fieldValue = Struct \<and> fieldName = ''BatchRecord'' then
        (case Decode lib (Refl fieldValue) v of
           (v', Some err) \<Rightarrow> (v', Some err)
         | (v', None) \<Rightarrow> Decode_fields lib inner recordValue rest True v')
      else if Kind fieldValue = Struct \<and> fieldName = ''Record'' then
        (case decodeRecord lib fieldValue v of
           (v', Some err) \<Rightarrow> (v', Some err)
         | (v', None) \<Rightarrow>
             (case Decode lib (Refl fieldValue) v' of
                (v'', Some err) \<Rightarrow> (v'', Some err)
              | (v'', None) \<Rightarrow> Decode_fields lib inner recordValue rest True v''))
      else if Kind fieldValue = Struct \<and> fieldName = ''Key'' then
        (case decodeKey lib fieldValue v of
           (v', Some err) \<Rightarrow> (v', Some err)
         | (v', None) \<Rightarrow> Decode_fields lib inner recordValue rest isRecord v')
      else if Kind fieldValue = Map \<and> fieldName = ''Bins'' then
        (case decodeBins lib fieldValue v of
           (v', Some err) \<Rightarrow> (v', Some err)
         | (v', None) \<Rightarrow> Decode_fields lib inner recordValue rest True v')
      else if \<not> inner \<and> Kind fieldValue = UInt Uint32 \<and>
              (fieldName = ''Generation'' \<or> fieldName = ''Expiration'') then
        (case decodeRecord lib recordValue v of
           (v', Some err) \<Rightarrow> (v', Some err)
         | (v', None) \<Rightarrow> Decode_fields lib inner recordValue rest isRecord v')
      else Decode_fields lib inner recordValue rest isRecord v)"
  by pat_completeness auto
termination
  apply (relation "measure (\<lambda>a. case a of
           Inl (lib, r, v) \<Rightarrow> 3 * anySize r + 1
         | Inr (lib, inner, rv, fs, isRecord, v) \<Rightarrow>
             3 * size_list (size_prod (\<lambda>u. 0) size) fs + 2)")
         apply simp
  subgoal for lib r v x sv y n fs using size_structValue [of r sv] by simp
  subgoal for lib inner rv d x rest isRecord v fv
    using size_fieldValueDeref [of "flag rv" d x] by simp
       apply simp
  subgoal for lib inner rv d x rest isRecord v fv
    using size_fieldValueDeref [of "flag rv" d x] by simp
     apply simp_all
  done

declare Decode.simps [simp del]

section \<open>The types of the tests and a run time for closed examples\<close>

text \<open>
  \<^verbatim>\<open>testtypes.Key\<close> and \<^verbatim>\<open>testtypes.Record\<close>, the records that the tests of the
  package decode: the key has four unexported fields and is reached through a pointer,
  the bins are a map from strings to \<^verbatim>\<open>any\<close>.
\<close>

definition testKeyType :: gtype where
  "testKeyType = TStruct ''testtypes.Key''
     [SField ''namespace'' False False [] TString,
      SField ''setName'' False False [] TString,
      SField ''digest'' False False [] (TArray 20 (TUint Uint8)),
      SField ''userKey'' False False [] (TInterface ''testtypes.Value'')]"

definition testRecordType :: gtype where
  "testRecordType = TStruct ''testtypes.Record''
     [SField ''Key'' True False [] (TPtr testKeyType),
      SField ''Bins'' True False [] (TMap TString anyType),
      SField ''Generation'' True False [] (TUint Uint32),
      SField ''Expiration'' True False [] (TUint Uint32)]"

definition testRecord :: "gval option \<Rightarrow> (string \<times> gval option) list \<Rightarrow> int \<Rightarrow> int \<Rightarrow> gval" where
  "testRecord key bins generation expiration =
     structOf testRecordType
       [VPtr testKeyType key,
        VMap TString anyType
          (Some (map (\<lambda>(k, d). (VString k, VIface ''interface {}'' d)) bins)),
        VUint Uint32 generation,
        VUint Uint32 expiration]"

text \<open>
  The run time of a program none of whose types has a method or promotes a field.  Its
  float conversions and its \<^verbatim>\<open>time.Parse\<close> are placeholders: the examples of this theory
  that are evaluated with \<open>bareLib\<close> do not reach them.
\<close>

definition bareLib :: golib where
  "bareLib =
     \<lparr>ParseFloat = (\<lambda>s. None), FormatFloat = (\<lambda>w. []), ParseTime = (\<lambda>s. None),
      floatToInt64 = (\<lambda>w. 0), int64ToFloat = (\<lambda>i. 0), float32To64 = (\<lambda>w. 0),
      float64To32 = (\<lambda>w. 0), promoted = (\<lambda>t nm. None), methodSet = (\<lambda>t nm. None),
      implements = (\<lambda>t nm. False)\<rparr>"

section \<open>The cases of the switch of Decode\<close>

text \<open>
  \<open>kindDeref x\<close> is the kind of the value that \<open>fieldValueDeref\<close> returns for a field
  with content \<open>x\<close>.  \<open>recordComponent\<close> says that a field of the record meets one of
  the cases of the switch of \<open>Decode\<close> for a batch record, a record, the bins, or the
  generation and the expiration; \<open>keyComponent\<close> that it meets the case for the key.
\<close>

definition kindDeref :: "gval \<Rightarrow> kind" where
  "kindDeref x =
     (case x of
        VPtr t None \<Rightarrow> Invalid
      | VPtr t (Some y) \<Rightarrow> kindOf (typeOf y)
      | _ \<Rightarrow> kindOf (typeOf x))"

definition recordComponent :: "sfield \<Rightarrow> gval \<Rightarrow> bool" where
  "recordComponent d x =
     ((kindDeref x = Struct \<and> (fname d = ''BatchRecord'' \<or> fname d = ''Record'')) \<or>
      (kindDeref x = Map \<and> fname d = ''Bins'') \<or>
      (kindDeref x = UInt Uint32 \<and> (fname d = ''Generation'' \<or> fname d = ''Expiration'')))"

definition keyComponent :: "sfield \<Rightarrow> gval \<Rightarrow> bool" where
  "keyComponent d x = (kindDeref x = Struct \<and> fname d = ''Key'')"

section \<open>Bin fields of primitive type\<close>

text \<open>
  What the tag of a field declares, read off \<open>parseTag\<close>: \<open>binField\<close> says that the
  tag parses to a directive with a name and without the flags \<open>meta\<close> and \<open>omit\<close>,
  \<open>binName\<close> is that name and \<open>omitsEmpty\<close> the flag \<open>omitempty\<close>.  A primitive value
  is a bool, an integer, a float or a string; \<open>negativeZero\<close> is the float
  \<^verbatim>\<open>-0.0\<close>.
\<close>

definition binField :: "sfield \<Rightarrow> bool" where
  "binField d =
     (case parseTag (ftag d) of
        Inr tg \<Rightarrow> \<not> meta tg \<and> \<not> omit tg \<and> name tg \<noteq> []
      | Inl err \<Rightarrow> False)"

definition binName :: "sfield \<Rightarrow> string" where
  "binName d = (case parseTag (ftag d) of Inr tg \<Rightarrow> name tg | Inl err \<Rightarrow> [])"

definition omitsEmpty :: "sfield \<Rightarrow> bool" where
  "omitsEmpty d = (case parseTag (ftag d) of Inr tg \<Rightarrow> omitempty tg | Inl err \<Rightarrow> False)"

definition primitive :: "gval \<Rightarrow> bool" where
  "primitive x =
     (case x of
        VBool b \<Rightarrow> True
      | VInt k i \<Rightarrow> True
      | VUint k i \<Rightarrow> True
      | VFloat32 w \<Rightarrow> True
      | VFloat64 w \<Rightarrow> True
      | VString s \<Rightarrow> True
      | _ \<Rightarrow> False)"

definition negativeZero :: "gval \<Rightarrow> bool" where
  "negativeZero x =
     (case x of
        VFloat32 w \<Rightarrow> w = push_bit 31 1
      | VFloat64 w \<Rightarrow> w = push_bit 63 1
      | _ \<Rightarrow> False)"

definition written :: "sfield \<Rightarrow> gval \<Rightarrow> bool" where
  "written d x = (\<not> (omitsEmpty d \<and> isEmptyValue (V (Some x) noFlags)))"

text \<open>
  \<open>derefFields x\<close> are the fields of the struct that \<open>x\<close> is or points to.
\<close>

definition derefFields :: "gval \<Rightarrow> (sfield \<times> gval) list" where
  "derefFields x =
     (case x of
        VStruct n fs \<Rightarrow> fs
      | VPtr t (Some (VStruct n fs)) \<Rightarrow> fs
      | _ \<Rightarrow> [])"

lemma size_derefFields: "size_list (size_prod (\<lambda>u. 0) size) (derefFields x) \<le> size x"
  by (auto simp: derefFields_def split: gval.splits option.splits)

text \<open>
  The structs whose bins are written by primitive fields only.  \<open>encode\<close> and the
  decoders walk into every field that holds a struct or a pointer to one, whatever its
  tag, so the predicates do the same.  \<open>unmapped fs\<close> says that the walk of \<open>encode\<close>
  through \<open>fs\<close> meets no field with a tag.  In \<open>primitiveBins hidden fs\<close>, \<open>hidden\<close> says
  that the walk has passed an unexported field that is not embedded, below which
  reflect lets no field be read through \<^verbatim>\<open>Interface()\<close> nor be set.  The predicate asks
  of every field that its value has the declared type; of a field that holds a struct,
  the same of the fields of that struct; of any other field without tag, that it does
  not point to a struct in which \<open>encode\<close> meets a tag; and of any other field with a
  tag, that it is an exported bin field, not below such an unexported field, whose
  value is primitive and not the negative zero.
\<close>

function unmapped :: "(sfield \<times> gval) list \<Rightarrow> bool" where
  "unmapped [] = True"
| "unmapped ((d, x) # rest) =
     ((if kindDeref x = Struct then unmapped (derefFields x) else ftag d = []) \<and>
      unmapped rest)"
  by pat_completeness auto
termination
  apply (relation "measure (size_list (size_prod (\<lambda>u. 0) size))")
    apply simp
  subgoal for d x rest using size_derefFields [of x] by simp
  apply simp
  done

function primitiveBins :: "bool \<Rightarrow> (sfield \<times> gval) list \<Rightarrow> bool" where
  "primitiveBins hidden [] = True"
| "primitiveBins hidden ((d, x) # rest) =
     (typeOf x = ftype d \<and>
      (case x of
         VStruct n gs \<Rightarrow> primitiveBins (hidden \<or> (\<not> fexported d \<and> \<not> fembedded d)) gs
       | _ \<Rightarrow>
           if ftag d = [] then kindDeref x = Struct \<longrightarrow> unmapped (derefFields x)
           else primitive x \<and> \<not> negativeZero x \<and> binField d \<and> fexported d \<and> \<not> hidden) \<and>
      primitiveBins hidden rest)"
  by pat_completeness auto
termination
  by (relation "measure (\<lambda>(hidden, fs). size_list (size_prod (\<lambda>u. 0) size) fs)") auto

text \<open>
  \<open>binLeaves\<close> lists the fields with a tag that are no structs, in the order in which
  \<open>encode\<close> meets them, \<open>binNames\<close> their bin names; \<open>decodedFields fs\<close> is the struct
  \<open>fs\<close> with every field that has no tag and is no struct set to the zero value of its
  type.
\<close>

function binLeaves :: "(sfield \<times> gval) list \<Rightarrow> (sfield \<times> gval) list" where
  "binLeaves [] = []"
| "binLeaves ((d, x) # rest) =
     (case x of
        VStruct n gs \<Rightarrow> binLeaves gs
      | _ \<Rightarrow> if ftag d = [] then [] else [(d, x)]) @ binLeaves rest"
  by pat_completeness auto
termination
  by (relation "measure (size_list (size_prod (\<lambda>u. 0) size))") auto

definition binNames :: "(sfield \<times> gval) list \<Rightarrow> string list" where
  "binNames fs = map (\<lambda>(d, x). binName d) (binLeaves fs)"

function decodedFields :: "(sfield \<times> gval) list \<Rightarrow> (sfield \<times> gval) list" where
  "decodedFields [] = []"
| "decodedFields ((d, x) # rest) =
     (d, case x of
           VStruct n gs \<Rightarrow> VStruct n (decodedFields gs)
         | _ \<Rightarrow> if ftag d = [] then zero (ftype d) else x) # decodedFields rest"
  by pat_completeness auto
termination
  by (relation "measure (size_list (size_prod (\<lambda>u. 0) size))") auto

section \<open>Fields of the destination and components of the source\<close>

text \<open>
  \<open>holdsField d x v\<close> says that the destination \<open>v\<close> is a pointer to a struct one of
  whose fields is declared by \<open>d\<close> and has the content \<open>x\<close>.  \<open>reachesKey fs\<close> says that \<open>Decode\<close>,
  on a source with the fields \<open>fs\<close>, meets the case of its switch for the key, in the
  source itself or in a batch record or a record into which it recurses;
  \<open>reachesRecord inner fs\<close> says the same of a call of \<open>decodeRecord\<close>, which is made
  for a record and, when the source is no \<^verbatim>\<open>reflect.Value\<close> (\<open>inner\<close> is false), for a
  generation or expiration of type \<^verbatim>\<open>uint32\<close>.
\<close>

definition holdsField :: "sfield \<Rightarrow> gval \<Rightarrow> any \<Rightarrow> bool" where
  "holdsField d x v =
     (case v of
        Dyn (Some (VPtr t (Some (VStruct n fs)))) \<Rightarrow> (d, x) \<in> set fs
      | _ \<Rightarrow> False)"

function reachesKey :: "(sfield \<times> gval) list \<Rightarrow> bool" where
  "reachesKey [] = False"
| "reachesKey ((d, x) # rest) =
     (keyComponent d x \<or>
      (kindDeref x = Struct \<and> (fname d = ''BatchRecord'' \<or> fname d = ''Record'') \<and>
       reachesKey (derefFields x)) \<or>
      reachesKey rest)"
  by pat_completeness auto
termination
  apply (relation "measure (size_list (size_prod (\<lambda>u. 0) size))")
    apply simp
  subgoal for d x rest using size_derefFields [of x] by simp
  apply simp
  done

function reachesRecord :: "bool \<Rightarrow> (sfield \<times> gval) list \<Rightarrow> bool" where
  "reachesRecord inner [] = False"
| "reachesRecord inner ((d, x) # rest) =
     ((kindDeref x = Struct \<and> fname d = ''Record'') \<or>
      (\<not> inner \<and> kindDeref x = UInt Uint32 \<and>
       (fname d = ''Generation'' \<or> fname d = ''Expiration'')) \<or>
      (kindDeref x = Struct \<and> fname d = ''BatchRecord'' \<and> reachesRecord True (derefFields x)) \<or>
      reachesRecord inner rest)"
  by pat_completeness auto
termination
  apply (relation "measure (\<lambda>(inner, fs). size_list (size_prod (\<lambda>u. 0) size) fs)")
    apply simp
  subgoal for inner d x rest using size_derefFields [of x] by simp
  apply simp
  done

section \<open>The tag parser: a lone \<open>meta\<close>\<close>

lemma parseTag_parts_reserved:
  assumes "\<forall>p \<in> set parts. TrimSpace p \<in> {tagValueMeta, tagValueOmit, tagValueOmitempty, []}"
    and "name parsed = []"
  shows "parseTag_parts tagString parts parsed =
     Inr (parsed\<lparr>meta := meta parsed \<or> tagValueMeta \<in> set (map TrimSpace parts),
                 omit := omit parsed \<or> tagValueOmit \<in> set (map TrimSpace parts),
                 omitempty := omitempty parsed \<or> tagValueOmitempty \<in> set (map TrimSpace parts)\<rparr>)"
  using assms
proof (induction parts arbitrary: parsed)
  case Nil
  then show ?case by simp
next
  case (Cons p parts)
  then show ?case
    by (auto simp: Let_def tagValueMeta_def tagValueOmit_def tagValueOmitempty_def)
qed

text \<open>
  C4.  When the parts of a tag, split at the commas and trimmed, are only reserved
  tokens (or empty) and \<open>meta\<close> is one of them, \<open>parseTag\<close> returns without error a tag
  whose \<open>meta\<close> flag is cleared and whose name is the string "meta"; the other two
  flags say whether their token occurs.
\<close>

theorem parseTag_lone_meta:
  assumes "\<forall>p \<in> set (Split tagString (CHR '','')).
             TrimSpace p \<in> {tagValueMeta, tagValueOmit, tagValueOmitempty, []}"
    and "tagValueMeta \<in> set (map TrimSpace (Split tagString (CHR '','')))"
  shows "parseTag tagString =
     Inr \<lparr>meta = False,
          omit = (tagValueOmit \<in> set (map TrimSpace (Split tagString (CHR '','')))),
          omitempty = (tagValueOmitempty \<in> set (map TrimSpace (Split tagString (CHR '','')))),
          name = ''meta''\<rparr>"
  using assms by (simp add: parseTag_def parseTag_parts_reserved tagValueMeta_def)

theorem parseTag_lone_meta_witness:
  "parseTag ''meta, omitempty'' =
     Inr \<lparr>meta = False, omit = False, omitempty = True, name = ''meta''\<rparr>"
proof -
  have parts: "Split ''meta, omitempty'' (CHR '','') = [''meta'', '' omitempty'']"
    by simp
  have trim: "TrimSpace ''meta'' = ''meta''" "TrimSpace '' omitempty'' = ''omitempty''"
    by code_simp+
  show ?thesis
    using parseTag_lone_meta [of "''meta, omitempty''"]
    unfolding parts
    by (simp add: trim tagValueMeta_def tagValueOmit_def tagValueOmitempty_def)
qed

section \<open>Encode: what one field contributes\<close>

lemma parseTag_empty:
  "parseTag [] = Inr \<lparr>meta = False, omit = False, omitempty = False, name = []\<rparr>"
  by code_simp

lemma encode_fields_append:
  "encode_fields lib fl (xs @ ys) r =
     (case encode_fields lib fl xs r of
        Inl err \<Rightarrow> Inl err
      | Inr r' \<Rightarrow> encode_fields lib fl ys r')"
  by (induction xs arbitrary: r) (auto split: sum.splits)

lemma encode_fields_skip:
  assumes "\<And>r. encode_field lib fl d x r = Inr r"
  shows "encode_fields lib fl (pre @ (d, x) # post) r = encode_fields lib fl (pre @ post) r"
  by (simp add: encode_fields_append assms split: sum.splits)

text \<open>
  C9, as amended.  A field whose value is no struct and no pointer to a struct (so that
  \<open>encode\<close> does not recurse into it) and whose tag parses to a directive with the
  \<open>meta\<close> flag and a name that is none of the six metadata names leaves the record as
  it is and gives no error; the loop over the fields of the struct returns what it
  returns for the struct without this field.
\<close>

theorem encode_unknown_meta_skipped:
  assumes "Kind (fieldValueDeref fl d x) \<noteq> Struct"
    and "parseTag (ftag d) = Inr tg"
    and "meta tg"
    and "name tg \<notin> {metaTagGeneration, metaTagExpiration, metaTagNamespace, metaTagSetName,
           metaTagDigest, metaTagUserKey}"
  shows "encode_field lib fl d x r = Inr r \<and>
         encode_fields lib fl (pre @ (d, x) # post) r = encode_fields lib fl (pre @ post) r"
proof -
  from assms(2,3) have tagged: "ftag d \<noteq> []"
    by (auto simp: parseTag_empty)
  have step: "encode_field lib fl d x r' = Inr r'" for r'
    using assms tagged by (simp add: encode_field.simps Let_def)
  then show ?thesis
    using encode_fields_skip [of lib fl d x pre post r] by simp
qed

theorem encode_unknown_meta_skipped_witness:
  "Kind (fieldValueDeref noFlags (SField ''Shard'' True False ''meta,shard'' TString)
           (VString ''s1'')) \<noteq> Struct \<and>
   parseTag ''meta,shard'' =
     Inr \<lparr>meta = True, omit = False, omitempty = False, name = ''shard''\<rparr> \<and>
   encode_field bareLib noFlags (SField ''Shard'' True False ''meta,shard'' TString)
     (VString ''s1'') newRecord = Inr newRecord"
proof -
  have kind: "Kind (fieldValueDeref noFlags (SField ''Shard'' True False ''meta,shard'' TString)
                 (VString ''s1'')) \<noteq> Struct"
    by (simp add: fieldValueDeref_def Field_def Kind_def)
  have parsed: "parseTag ''meta,shard'' =
      Inr \<lparr>meta = True, omit = False, omitempty = False, name = ''shard''\<rparr>"
    by code_simp
  have other: "''shard'' \<notin> {metaTagGeneration, metaTagExpiration, metaTagNamespace,
      metaTagSetName, metaTagDigest, metaTagUserKey}"
    by (simp add: metaTagGeneration_def metaTagExpiration_def metaTagNamespace_def
        metaTagSetName_def metaTagDigest_def metaTagUserKey_def)
  show ?thesis
    using encode_unknown_meta_skipped
      [of noFlags "SField ''Shard'' True False ''meta,shard'' TString" "VString ''s1''"
          "\<lparr>meta = True, omit = False, omitempty = False, name = ''shard''\<rparr>"
          bareLib newRecord "[]" "[]"]
      kind parsed other
    by simp
qed

text \<open>
  C9 as stated fails for a field that holds a struct: \<open>encode\<close> recurses into it
  before it reads the tag, so the field, tagged \<^verbatim>\<open>meta,shard\<close>, contributes the bin of
  the field inside it.
\<close>

theorem encode_unknown_meta_skipped_counterexample:
  "parseTag ''meta,shard'' =
     Inr \<lparr>meta = True, omit = False, omitempty = False, name = ''shard''\<rparr> \<and>
   ''shard'' \<notin> {metaTagGeneration, metaTagExpiration, metaTagNamespace, metaTagSetName,
      metaTagDigest, metaTagUserKey} \<and>
   encode_field bareLib noFlags
     (SField ''Addr'' True False ''meta,shard''
        (TStruct ''Address'' [SField ''City'' True False ''city'' TString]))
     (VStruct ''Address'' [(SField ''City'' True False ''city'' TString, VString ''x'')])
     newRecord =
   Inr (newRecord\<lparr>Bins := [(''city'', Some (VString ''x''))]\<rparr>) \<and>
   newRecord\<lparr>Bins := [(''city'', Some (VString ''x''))]\<rparr> \<noteq> newRecord"
  by code_simp

text \<open>
  What \<open>encode\<close> does for a field whose tag parses to a directive with the \<open>omit\<close>
  flag and whose value is no struct and no pointer to a struct: the bins of the record
  after the field are the bins before it, whatever the value of the field; and unless
  the directive has the \<open>meta\<close> flag as well, the record is unchanged and there is no
  error.
\<close>

lemma encode_omit_leaf:
  assumes "parseTag (ftag d) = Inr tg" and "omit tg"
    and leaf: "Kind (fieldValueDeref fl d x) \<noteq> Struct"
  shows "(\<forall>r'. encode_field lib fl d x r = Inr r' \<longrightarrow> Bins r' = Bins r) \<and>
         (\<not> meta tg \<longrightarrow> encode_field lib fl d x r = Inr r)"
proof -
  from assms have tagged: "ftag d \<noteq> []"
    by (auto simp: parseTag_empty)
  have plain: "encode_field lib fl d x r = Inr r" if "\<not> meta tg"
    using that leaf tagged assms by (simp add: encode_field.simps Let_def)
  have bins: "Bins r' = Bins r" if "encode_field lib fl d x r = Inr r'" for r'
  proof (cases "meta tg")
    case False
    with plain that show ?thesis by simp
  next
    case True
    with that leaf tagged assms(1) show ?thesis
      by (simp add: encode_field.simps Let_def split: if_splits sum.splits option.splits) auto
  qed
  from plain bins show ?thesis by simp
qed

text \<open>
  C2, at the failing input.  The field \<^verbatim>\<open>In Inner\<close> is tagged \<^verbatim>\<open>aero:"secret,omit"\<close>
  and holds a struct whose field \<^verbatim>\<open>Secret\<close> is tagged \<^verbatim>\<open>aero:"secret"\<close>.  \<open>encode\<close>
  recurses into a field that holds a struct before it reads the tag, so the \<open>omit\<close>
  flag is never seen and the record has the bin \<^verbatim>\<open>secret\<close> with the content of the
  field.
\<close>

theorem encode_omit_struct_field:
  "parseTag ''secret,omit'' =
     Inr \<lparr>meta = False, omit = True, omitempty = False, name = ''secret''\<rparr> \<and>
   Encode bareLib (Dyn (Some (VStruct ''Outer''
     [(SField ''In'' True False ''secret,omit''
         (TStruct ''Inner'' [SField ''Secret'' True False ''secret'' TString]),
       VStruct ''Inner'' [(SField ''Secret'' True False ''secret'' TString, VString ''s'')])]))) =
   Inr (newRecord\<lparr>Bins := [(''secret'', Some (VString ''s''))]\<rparr>)"
  by code_simp

section \<open>Encode: \<open>omitempty\<close> and the empty value\<close>

text \<open>
  What \<open>encode\<close> does for a field that it does not recurse into and whose tag parses to
  a directive without \<open>meta\<close> and \<open>omit\<close> and with a name: nothing when the directive
  has \<open>omitempty\<close> and the field is empty in the sense of \<open>isEmptyValue\<close>; else it
  writes the bin, with the zero value of the field's type when the field is empty and
  with the value of the field otherwise.
\<close>

lemma encode_bin_field:
  assumes "Kind (fieldValueDeref fl d x) \<noteq> Struct"
    and "parseTag (ftag d) = Inr tg"
    and "\<not> meta tg" and "\<not> omit tg" and "name tg \<noteq> []"
  shows "encode_field lib fl d x r =
     (if omitempty tg \<and> isEmptyValue (fieldValueDeref fl d x) then Inr r
      else
        (case (if isEmptyValue (fieldValueDeref fl d x) then valueInterface (Zero (ftype d))
               else valueInterface (fieldValueDeref fl d x)) of
           Inl err \<Rightarrow> Inl err
         | Inr y \<Rightarrow> Inr (r\<lparr>Bins := AList.update (name tg) y (Bins r)\<rparr>)))"
proof -
  from assms(2,5) have "ftag d \<noteq> []"
    by (auto simp: parseTag_empty)
  with assms show ?thesis
    by (simp add: encode_field.simps Let_def)
qed

text \<open>
  C3, at the failing input.  A field of type \<^verbatim>\<open>[2]byte\<close> tagged
  \<^verbatim>\<open>aero:"checksum,omitempty"\<close> that holds the zero value of its type is written to
  the bins: \<open>isEmptyValue\<close> takes an array for empty when its length is 0, not when
  its elements are zero.
\<close>

theorem encode_omitempty_zero_array:
  "Encode bareLib (Dyn (Some (VStruct ''Item''
       [(SField ''Checksum'' True False ''checksum,omitempty'' (TArray 2 (TUint Uint8)),
         zero (TArray 2 (TUint Uint8)))]))) =
     Inr (newRecord\<lparr>Bins := [(''checksum'', Some (zero (TArray 2 (TUint Uint8))))]\<rparr>)"
  by code_simp

text \<open>
  The other values on which emptiness and being the zero value differ: a pointer to an
  empty value and a slice that is empty but not nil are not zero values and are left
  out; a float that is negative zero is left out as well.
\<close>

lemma isEmptyValue_not_zero:
  "isEmptyValue (fieldValueDeref fl d (VPtr (TInt k) (Some (VInt k 0)))) \<and>
   VPtr (TInt k) (Some (VInt k 0)) \<noteq> zero (TPtr (TInt k)) \<and>
   isEmptyValue (fieldValueDeref fl d (VSlice t (Some []))) \<and>
   VSlice t (Some []) \<noteq> zero (TSlice t) \<and>
   isEmptyValue (fieldValueDeref fl d (VFloat64 (push_bit 63 1))) \<and>
   VFloat64 (push_bit 63 1) \<noteq> zero (TFloat Float64)"
  by (simp add: isEmptyValue_def fieldValueDeref_def Field_def Kind_def Elem_def Let_def)

section \<open>Decode: the generation and the expiration of the record\<close>

text \<open>
  \<open>setIntegerValue\<close> on a field of an integer kind and a value of the record of an
  unsigned kind, as the generation and the expiration of a record are.  For a signed
  field it reads the value of the record with \<^verbatim>\<open>Int()\<close>, which panics on an unsigned
  value.  For an unsigned field it compares with \<^verbatim>\<open>Uint()\<close>, but formats the overflow
  error with \<^verbatim>\<open>Int()\<close>, so an overflow is a panic as well; a value that fits is
  assigned as it is.
\<close>

lemma setIntegerValue_signed_field:
  "setIntegerValue lib (V (Some (VInt k old)) ffl) (V (Some (VUint u g)) rfl) =
     Inl (Panic ''reflect: call of reflect.Value.Int on a Value of another kind'')"
  by (simp add: setIntegerValue_def Kind_def IntOf_def)

lemma setIntegerValue_unsigned_overflow:
  "k \<noteq> Uintptr \<Longrightarrow> OverflowUint k g \<Longrightarrow>
   setIntegerValue lib (V (Some (VUint k old)) ffl) (V (Some (VUint u g)) rfl) =
     Inl (Panic ''reflect: call of reflect.Value.Int on a Value of another kind'')"
  by (simp add: setIntegerValue_def Kind_def IntOf_def UintOf_def)

lemma setIntegerValue_unsigned_fits:
  "k \<noteq> Uintptr \<Longrightarrow> \<not> OverflowUint k g \<Longrightarrow>
   setIntegerValue lib (V (Some (VUint k old)) (Flags True False False))
       (V (Some (VUint u g)) (Flags a False False)) =
     Inr (VUint k g)"
  by (simp add: setIntegerValue_def Kind_def UintOf_def setConverted_def Convert_def
      typeOfValue_def valueInterface_def ro_def Set_def CanSet_def ValueOf_def noFlags_def
      assignTo_def OverflowUint_def)

text \<open>
  C5, at the failing input.  Decoding a \<^verbatim>\<open>testtypes.Record\<close> with generation 3 into
  a struct whose field \<^verbatim>\<open>Gen int64\<close> is tagged \<^verbatim>\<open>aero:"meta,generation"\<close> panics; the
  field stays 0.
\<close>

theorem decode_generation_into_int64:
  "Decode bareLib (Dyn (Some (VPtr testRecordType (Some (testRecord None [] 3 1000)))))
     (Dyn (Some (VPtr (TStruct ''Item'' [SField ''Gen'' True False ''meta,generation'' (TInt Int64)])
        (Some (VStruct ''Item''
           [(SField ''Gen'' True False ''meta,generation'' (TInt Int64), VInt Int64 0)]))))) =
   (Dyn (Some (VPtr (TStruct ''Item'' [SField ''Gen'' True False ''meta,generation'' (TInt Int64)])
        (Some (VStruct ''Item''
           [(SField ''Gen'' True False ''meta,generation'' (TInt Int64), VInt Int64 0)])))),
    Some (Panic ''reflect: call of reflect.Value.Int on a Value of another kind''))"
  by code_simp

text \<open>
  The same for a field \<^verbatim>\<open>Gen uint8\<close> and the generation 300, where the claim expects
  the overflow error.
\<close>

lemma decode_generation_300_into_uint8:
  "snd (Decode bareLib (Dyn (Some (VPtr testRecordType (Some (testRecord None [] 300 1000)))))
     (Dyn (Some (VPtr (TStruct ''Item'' [SField ''Gen'' True False ''meta,generation'' (TUint Uint8)])
        (Some (VStruct ''Item''
           [(SField ''Gen'' True False ''meta,generation'' (TUint Uint8), VUint Uint8 0)])))))) =
   Some (Panic ''reflect: call of reflect.Value.Int on a Value of another kind'')"
  by code_simp

section \<open>convertElementType: absent sources, nil pointers, pointers\<close>

text \<open>
  C7.  For every target type \<open>t\<close>, \<open>convertElementType\<close> returns the zero value of
  \<open>t\<close>, which for a pointer type is the nil pointer, and no error, when the source is
  absent (the nil interface, the invalid Value, a Value that holds a nil interface) and
  when it is a nil pointer (passed as it is, in a Value, or in an interface held by a
  Value).  A pointer that is not nil is dereferenced once: when the target is the type
  of what it points to, that value is returned, and it is returned as it is also when
  it is a pointer itself; a pointer to an integer converts to a string as the integer
  does; a pointer to a pointer to an integer does not convert to an integer.
\<close>

theorem convertElementType_absent_or_nil:
  "convertElementType lib (Dyn None) t = Inr (Zero t) \<and>
   convertElementType lib (Refl (V None fl)) t = Inr (Zero t) \<and>
   convertElementType lib (Refl (V (Some (VIface n None)) fl)) t = Inr (Zero t) \<and>
   convertElementType lib (Dyn (Some (VPtr u None))) t = Inr (Zero t) \<and>
   convertElementType lib (Refl (V (Some (VPtr u None)) fl)) t = Inr (Zero t) \<and>
   convertElementType lib (Refl (V (Some (VIface n (Some (VPtr u None)))) fl)) t = Inr (Zero t) \<and>
   val (Zero t) = Some (zero t) \<and>
   val (Zero (TPtr u)) = Some (VPtr u None) \<and>
   convertElementType lib (Dyn (Some (VPtr u (Some x)))) (typeOf x) =
     Inr (V (Some x) (Flags True False False)) \<and>
   convertElementType lib (Refl (V (Some (VPtr u (Some x))) fl)) (typeOf x) =
     Inr (V (Some x) (Flags True (stickyRO fl) (embedRO fl))) \<and>
   convertElementType lib (Dyn (Some (VPtr u (Some (VInt k i))))) TString =
     Inr (ValueOf (Some (VString (FormatInt i)))) \<and>
   convertElementType lib (Dyn (Some (VPtr u (Some (VPtr w (Some (VInt k i))))))) (TInt k) =
     Inl (Errorf ''cannot convert %s to int'' [T (TPtr w)])"
  by (simp add: convertElementType.simps Let_def ValueOf_def Kind_def Elem_def IsValid_def
      Zero_def reflectZeroValue_def noFlags_def)

theorem convertElementType_absent_or_nil_witness:
  "convertElementType bareLib (Dyn None) (TSlice TString) = Inr (Zero (TSlice TString)) \<and>
   convertElementType bareLib (Dyn (Some (VPtr TBool None))) (TPtr (TInt Int32)) =
     Inr (Zero (TPtr (TInt Int32))) \<and>
   val (Zero (TPtr (TInt Int32))) = Some (VPtr (TInt Int32) None) \<and>
   convertElementType bareLib (Dyn (Some (VPtr TString (Some (VString ''a''))))) TString =
     Inr (V (Some (VString ''a'')) (Flags True False False))"
  using convertElementType_absent_or_nil
      [of bareLib "TSlice TString" noFlags "[]" TBool "VString ''a''" Int' 0 TBool]
    convertElementType_absent_or_nil
      [of bareLib "TPtr (TInt Int32)" noFlags "[]" TBool "VString ''a''" Int' 0 TBool]
    convertElementType_absent_or_nil
      [of bareLib "TString" noFlags "[]" TString "VString ''a''" Int' 0 TBool]
    convertElementType_absent_or_nil
      [of bareLib "TString" noFlags "[]" "TInt Int32" "VString ''a''" Int' 0 TBool]
  by simp

section \<open>Decode: bins that are absent and fields that cannot be set\<close>

lemma decodeBins_fields_length: "length (fst (decodeBins_fields lib rv fl fs)) = length fs"
  by (induction fs) (auto split: prod.splits option.splits)

lemma decodeBins_fields_append:
  "decodeBins_fields lib rv fl (xs @ ys) =
     (case decodeBins_fields lib rv fl xs of
        (xs', Some err) \<Rightarrow> (xs' @ ys, Some err)
      | (xs', None) \<Rightarrow>
          (case decodeBins_fields lib rv fl ys of (ys', err) \<Rightarrow> (xs' @ ys', err)))"
  by (induction xs) (auto split: prod.splits option.splits)

text \<open>
  A field that its iteration leaves as it is, without error: the loop returns what it
  returns for the struct without the field, with the field put back in its place.
\<close>

lemma decodeBins_fields_unchanged_field:
  assumes "decodeBins_field lib rv fl d x = (x, None)"
  shows "decodeBins_fields lib rv fl (pre @ (d, x) # post) =
     (case decodeBins_fields lib rv fl (pre @ post) of
        (fs', err) \<Rightarrow> (take (length pre) fs' @ (d, x) # drop (length pre) fs', err))"
proof -
  obtain pre' e where pre: "decodeBins_fields lib rv fl pre = (pre', e)"
    by (cases "decodeBins_fields lib rv fl pre")
  with decodeBins_fields_length [of lib rv fl pre] have len: "length pre' = length pre"
    by simp
  obtain post' e' where post: "decodeBins_fields lib rv fl post = (post', e')"
    by (cases "decodeBins_fields lib rv fl post")
  show ?thesis
    using pre post len assms
    by (cases e) (simp_all add: decodeBins_fields_append)
qed

lemma MapIndex_string_map:
  "val rv = Some (VMap TString vt es) \<Longrightarrow>
   MapIndex lib rv key =
     (case map_of (case es of None \<Rightarrow> [] | Some ps \<Rightarrow> ps) (VString key) of
        None \<Rightarrow> Inr reflectZeroValue
      | Some y \<Rightarrow> Inr (V (Some y) (Flags False (ro (flag rv)) False)))"
  by (simp add: MapIndex_def assignTo_def)




lemma decodeKey_fields_append:
  "decodeKey_fields lib rv fl (xs @ ys) =
     (case decodeKey_fields lib rv fl xs of
        (xs', Some err) \<Rightarrow> (xs' @ ys, Some err)
      | (xs', None) \<Rightarrow>
          (case decodeKey_fields lib rv fl ys of (ys', err) \<Rightarrow> (xs' @ ys', err)))"
  by (induction xs) (auto split: prod.splits option.splits)

lemma decodeRecord_fields_append:
  "decodeRecord_fields lib rv fl (xs @ ys) =
     (case decodeRecord_fields lib rv fl xs of
        (xs', Some err) \<Rightarrow> (xs' @ ys, Some err)
      | (xs', None) \<Rightarrow>
          (case decodeRecord_fields lib rv fl ys of (ys', err) \<Rightarrow> (xs' @ ys', err)))"
  by (induction xs) (auto split: prod.splits option.splits)

lemma decodeKey_fields_failing_field:
  assumes "decodeKey_field lib rv fl d x = (x', Some err)"
  shows "snd (decodeKey_fields lib rv fl (pre @ (d, x) # post)) \<noteq> None"
  using assms by (simp add: decodeKey_fields_append split: prod.splits option.splits)

lemma decodeRecord_fields_failing_field:
  assumes "decodeRecord_field lib rv fl d x = (x', Some err)"
  shows "snd (decodeRecord_fields lib rv fl (pre @ (d, x) # post)) \<noteq> None"
  using assms by (simp add: decodeRecord_fields_append split: prod.splits option.splits)

lemma Kind_fieldValueDeref: "Kind (fieldValueDeref fl d x) = kindDeref x"
  by (cases x)
     (auto simp: fieldValueDeref_def Field_def Kind_def Elem_def Let_def kindDeref_def
        reflectZeroValue_def split: option.splits)

lemma kind_Struct: "kindOf (typeOf x) = Struct \<Longrightarrow> \<exists>n fs. x = VStruct n fs"
  by (cases x) auto


section \<open>Decode: fields of the destination that cannot be set\<close>

text \<open>
  A field that is not settable and into which the decoders do not recurse is left as
  it is by each of them, whether they return an error or not, and so by \<open>Decode\<close>.
\<close>

lemma decodeBins_field_unsettable:
  assumes "Kind (fieldValueDeref fl d x) \<noteq> Struct" and "\<not> CanSet (fieldValueDeref fl d x)"
  shows "fst (decodeBins_field lib rv fl d x) = x"
  using assms
  by (simp add: decodeBins_field.simps Let_def split: sum.splits)

lemma decodeKey_field_unsettable:
  assumes "Kind (fieldValueDeref fl d x) \<noteq> Struct" and "\<not> CanSet (fieldValueDeref fl d x)"
  shows "fst (decodeKey_field lib rv fl d x) = x"
  using assms
  by (simp add: decodeKey_field.simps Let_def decodeKey_namespace_def decodeKey_setName_def
        decodeKey_userKey_def decodeKey_digest_def split: sum.splits)

lemma decodeRecord_field_unsettable:
  assumes "Kind (fieldValueDeref fl d x) \<noteq> Struct" and "\<not> CanSet (fieldValueDeref fl d x)"
  shows "fst (decodeRecord_field lib rv fl d x) = x"
  using assms
  by (simp add: decodeRecord_field.simps Let_def decodeRecord_integer_def split: sum.splits)

lemma decodeBins_fields_keeps:
  assumes "fst (decodeBins_field lib rv fl d x) = x" and "(d, x) \<in> set fs"
  shows "(d, x) \<in> set (fst (decodeBins_fields lib rv fl fs))"
  using assms(2)
proof (induction fs)
  case Nil
  then show ?case by simp
next
  case (Cons p fs)
  obtain d' x' where p: "p = (d', x')"
    by (cases p)
  show ?case
  proof (cases "p = (d, x)")
    case True
    with assms(1) p show ?thesis
      by (auto split: prod.splits option.splits)
  next
    case False
    with Cons p show ?thesis
      by (auto split: prod.splits option.splits)
  qed
qed

lemma decodeKey_fields_keeps:
  assumes "fst (decodeKey_field lib rv fl d x) = x" and "(d, x) \<in> set fs"
  shows "(d, x) \<in> set (fst (decodeKey_fields lib rv fl fs))"
  using assms(2)
proof (induction fs)
  case Nil
  then show ?case by simp
next
  case (Cons p fs)
  obtain d' x' where p: "p = (d', x')"
    by (cases p)
  show ?case
  proof (cases "p = (d, x)")
    case True
    with assms(1) p show ?thesis
      by (auto split: prod.splits option.splits)
  next
    case False
    with Cons p show ?thesis
      by (auto split: prod.splits option.splits)
  qed
qed

lemma decodeRecord_fields_keeps:
  assumes "fst (decodeRecord_field lib rv fl d x) = x" and "(d, x) \<in> set fs"
  shows "(d, x) \<in> set (fst (decodeRecord_fields lib rv fl fs))"
  using assms(2)
proof (induction fs)
  case Nil
  then show ?case by simp
next
  case (Cons p fs)
  obtain d' x' where p: "p = (d', x')"
    by (cases p)
  show ?case
  proof (cases "p = (d, x)")
    case True
    with assms(1) p show ?thesis
      by (auto split: prod.splits option.splits)
  next
    case False
    with Cons p show ?thesis
      by (auto split: prod.splits option.splits)
  qed
qed

lemma holdsField_iff:
  "holdsField d x v \<longleftrightarrow>
     (\<exists>t n fs. v = Dyn (Some (VPtr t (Some (VStruct n fs)))) \<and> (d, x) \<in> set fs)"
  by (auto simp: holdsField_def split: any.splits option.splits gval.splits)

lemma structValue_pointer:
  "structValue (Dyn (Some (VPtr t (Some (VStruct n fs))))) =
     Inr (V (Some (VStruct n fs)) (Flags True False False))"
  by (simp add: structValue_def ValueOf_def Kind_def Elem_def noFlags_def)

lemma decodeBins_keeps:
  assumes "Kind (fieldValueDeref (Flags True False False) d x) \<noteq> Struct"
    and "\<not> CanSet (fieldValueDeref (Flags True False False) d x)"
    and "holdsField d x v"
  shows "holdsField d x (fst (decodeBins lib rv v))"
proof -
  from assms(3) obtain t n fs where v: "v = Dyn (Some (VPtr t (Some (VStruct n fs))))"
    and mem: "(d, x) \<in> set fs"
    by (auto simp: holdsField_iff)
  from assms(1,2) have "fst (decodeBins_field lib rv (Flags True False False) d x) = x"
    by (rule decodeBins_field_unsettable)
  then have "(d, x) \<in> set (fst (decodeBins_fields lib rv (Flags True False False) fs))"
    using mem by (rule decodeBins_fields_keeps)
  with assms(3) v show ?thesis
    by (auto simp: decodeBins.simps structValue_pointer storeStruct_def holdsField_iff
          split: prod.splits)
qed

lemma decodeKey_keeps:
  assumes "Kind (fieldValueDeref (Flags True False False) d x) \<noteq> Struct"
    and "\<not> CanSet (fieldValueDeref (Flags True False False) d x)"
    and "holdsField d x v"
  shows "holdsField d x (fst (decodeKey lib rv v))"
proof -
  from assms(3) obtain t n fs where v: "v = Dyn (Some (VPtr t (Some (VStruct n fs))))"
    and mem: "(d, x) \<in> set fs"
    by (auto simp: holdsField_iff)
  from assms(1,2) have "fst (decodeKey_field lib rv (Flags True False False) d x) = x"
    by (rule decodeKey_field_unsettable)
  then have "(d, x) \<in> set (fst (decodeKey_fields lib rv (Flags True False False) fs))"
    using mem by (rule decodeKey_fields_keeps)
  with v show ?thesis
    by (auto simp: decodeKey.simps structValue_pointer storeStruct_def holdsField_iff
          split: prod.splits)
qed

lemma decodeRecord_keeps:
  assumes "Kind (fieldValueDeref (Flags True False False) d x) \<noteq> Struct"
    and "\<not> CanSet (fieldValueDeref (Flags True False False) d x)"
    and "holdsField d x v"
  shows "holdsField d x (fst (decodeRecord lib rv v))"
proof -
  from assms(3) obtain t n fs where v: "v = Dyn (Some (VPtr t (Some (VStruct n fs))))"
    and mem: "(d, x) \<in> set fs"
    by (auto simp: holdsField_iff)
  from assms(1,2) have "fst (decodeRecord_field lib rv (Flags True False False) d x) = x"
    by (rule decodeRecord_field_unsettable)
  then have "(d, x) \<in> set (fst (decodeRecord_fields lib rv (Flags True False False) fs))"
    using mem by (rule decodeRecord_fields_keeps)
  with v show ?thesis
    by (auto simp: decodeRecord.simps structValue_pointer storeStruct_def holdsField_iff
          split: prod.splits)
qed

lemma Decode_keeps:
  assumes "Kind (fieldValueDeref (Flags True False False) d x) \<noteq> Struct"
    and "\<not> CanSet (fieldValueDeref (Flags True False False) d x)"
  shows "holdsField d x v \<Longrightarrow> holdsField d x (fst (Decode lib r v))"
    and "holdsField d x v \<Longrightarrow> holdsField d x (fst (Decode_fields lib inner rv fs isRecord v))"
proof (induction lib r v and lib inner rv fs isRecord v rule: Decode_Decode_fields.induct)
  case (1 lib r v)
  then show ?case
    by (auto simp: Decode.simps Let_def split: sum.splits option.splits gval.splits)
next
  case (2 lib inner rv isRecord v)
  then show ?case by simp
next
  case (3 lib inner rv d' x' rest isRecord v)
  let ?fv = "fieldValueDeref (flag rv) d' x'"
  note h = "3.prems"
  consider
      (batch) "Kind ?fv = Struct \<and> fname d' = ''BatchRecord''"
    | (rcd) "\<not> (Kind ?fv = Struct \<and> fname d' = ''BatchRecord'')"
        "Kind ?fv = Struct \<and> fname d' = ''Record''"
    | (key) "\<not> (Kind ?fv = Struct \<and> fname d' = ''BatchRecord'')"
        "\<not> (Kind ?fv = Struct \<and> fname d' = ''Record'')"
        "Kind ?fv = Struct \<and> fname d' = ''Key''"
    | (bins) "\<not> (Kind ?fv = Struct \<and> fname d' = ''BatchRecord'')"
        "\<not> (Kind ?fv = Struct \<and> fname d' = ''Record'')"
        "\<not> (Kind ?fv = Struct \<and> fname d' = ''Key'')"
        "Kind ?fv = Map \<and> fname d' = ''Bins''"
    | (integer) "\<not> (Kind ?fv = Struct \<and> fname d' = ''BatchRecord'')"
        "\<not> (Kind ?fv = Struct \<and> fname d' = ''Record'')"
        "\<not> (Kind ?fv = Struct \<and> fname d' = ''Key'')"
        "\<not> (Kind ?fv = Map \<and> fname d' = ''Bins'')"
        "\<not> inner \<and> Kind ?fv = UInt Uint32 \<and>
         (fname d' = ''Generation'' \<or> fname d' = ''Expiration'')"
    | (other) "\<not> (Kind ?fv = Struct \<and> fname d' = ''BatchRecord'')"
        "\<not> (Kind ?fv = Struct \<and> fname d' = ''Record'')"
        "\<not> (Kind ?fv = Struct \<and> fname d' = ''Key'')"
        "\<not> (Kind ?fv = Map \<and> fname d' = ''Bins'')"
        "\<not> (\<not> inner \<and> Kind ?fv = UInt Uint32 \<and>
            (fname d' = ''Generation'' \<or> fname d' = ''Expiration''))"
    by blast
  then show ?case
  proof cases
    case batch
    obtain v1 e1 where r1: "Decode lib (Refl ?fv) v = (v1, e1)"
      by (cases "Decode lib (Refl ?fv) v")
    from "3.IH"(1) [OF refl refl batch h] r1 have h1: "holdsField d x v1"
      by simp
    show ?thesis
    proof (cases e1)
      case None
      from "3.IH"(2) [OF refl refl batch r1 [symmetric] None h1] batch r1 None show ?thesis
        by (simp add: Let_def)
    next
      case (Some err)
      with batch r1 h1 show ?thesis
        by (simp add: Let_def)
    qed
  next
    case rcd
    obtain v1 e1 where r1: "decodeRecord lib ?fv v = (v1, e1)"
      by (cases "decodeRecord lib ?fv v")
    from decodeRecord_keeps [OF assms h, of lib ?fv] r1 have h1: "holdsField d x v1"
      by simp
    show ?thesis
    proof (cases e1)
      case None
      obtain v2 e2 where r2: "Decode lib (Refl ?fv) v1 = (v2, e2)"
        by (cases "Decode lib (Refl ?fv) v1")
      from "3.IH"(3) [OF refl refl rcd r1 [symmetric] None h1] r2
      have h2: "holdsField d x v2"
        by simp
      show ?thesis
      proof (cases e2)
        case n2: None
        from "3.IH"(4) [OF refl refl rcd r1 [symmetric] None r2 [symmetric] n2 h2]
          rcd r1 None r2 n2
        show ?thesis
          by (simp add: Let_def)
      next
        case (Some err)
        with rcd r1 None r2 h2 show ?thesis
          by (simp add: Let_def)
      qed
    next
      case (Some err)
      with rcd r1 h1 show ?thesis
        by (simp add: Let_def)
    qed
  next
    case key
    obtain v1 e1 where r1: "decodeKey lib ?fv v = (v1, e1)"
      by (cases "decodeKey lib ?fv v")
    from decodeKey_keeps [OF assms h, of lib ?fv] r1 have h1: "holdsField d x v1"
      by simp
    show ?thesis
    proof (cases e1)
      case None
      from "3.IH"(5) [OF refl refl key r1 [symmetric] None h1] key r1 None show ?thesis
        by (simp add: Let_def)
    next
      case (Some err)
      with key r1 h1 show ?thesis
        by (simp add: Let_def)
    qed
  next
    case bins
    obtain v1 e1 where r1: "decodeBins lib ?fv v = (v1, e1)"
      by (cases "decodeBins lib ?fv v")
    from decodeBins_keeps [OF assms h, of lib ?fv] r1 have h1: "holdsField d x v1"
      by simp
    show ?thesis
    proof (cases e1)
      case None
      from "3.IH"(6) [OF refl refl bins r1 [symmetric] None h1] bins r1 None show ?thesis
        by (simp add: Let_def)
    next
      case (Some err)
      with bins r1 h1 show ?thesis
        by (simp add: Let_def)
    qed
  next
    case integer
    obtain v1 e1 where r1: "decodeRecord lib rv v = (v1, e1)"
      by (cases "decodeRecord lib rv v")
    from decodeRecord_keeps [OF assms h, of lib rv] r1 have h1: "holdsField d x v1"
      by simp
    show ?thesis
    proof (cases e1)
      case None
      from "3.IH"(7) [OF refl refl integer r1 [symmetric] None h1] integer r1 None
      show ?thesis
        by (simp add: Let_def)
    next
      case (Some err)
      with integer r1 h1 show ?thesis
        by (simp add: Let_def)
    qed
  next
    case other
    have "Decode_fields lib inner rv ((d', x') # rest) isRecord v =
        Decode_fields lib inner rv rest isRecord v"
      using other by (auto simp: Let_def)
    with "3.IH"(8) [OF refl refl other h] show ?thesis
      by simp
  qed
qed

text \<open>
  How a failure of the key decoder or of the record decoder on such a field reaches the
  caller of \<open>Decode\<close>: every field of the source before the component either fails
  itself or leaves the field of the destination as it was.
\<close>

lemma Decode_nested:
  assumes "kindDeref x = Struct"
  shows "Decode lib (Refl (fieldValueDeref fl d x)) v =
    Decode_fields lib True (fieldValueDeref fl d x) (derefFields x) False v"
proof -
  from assms obtain n fs where "val (fieldValueDeref fl d x) = Some (VStruct n fs)"
    and "derefFields x = fs"
    by (cases x)
       (auto simp: kindDeref_def fieldValueDeref_def Field_def Kind_def Elem_def derefFields_def
          Let_def split: option.splits dest: kind_Struct)
  then show ?thesis
    by (simp add: Decode.simps structValue_def)
qed

lemma Decode_fields_head:
  assumes "Kind (fieldValueDeref (Flags True False False) d x) \<noteq> Struct"
    and "\<not> CanSet (fieldValueDeref (Flags True False False) d x)"
    and "holdsField d x v"
  shows "snd (Decode_fields lib inner rv ((d', x') # rest) isRecord v) \<noteq> None \<or>
    (\<exists>b v'. holdsField d x v' \<and>
       Decode_fields lib inner rv ((d', x') # rest) isRecord v =
       Decode_fields lib inner rv rest b v')"
proof -
  let ?fv = "fieldValueDeref (flag rv) d' x'"
  note h = assms(3)
  note keeps = assms(1,2)
  consider
      (batch) "Kind ?fv = Struct \<and> fname d' = ''BatchRecord''"
    | (rcd) "\<not> (Kind ?fv = Struct \<and> fname d' = ''BatchRecord'')"
        "Kind ?fv = Struct \<and> fname d' = ''Record''"
    | (key) "\<not> (Kind ?fv = Struct \<and> fname d' = ''BatchRecord'')"
        "\<not> (Kind ?fv = Struct \<and> fname d' = ''Record'')"
        "Kind ?fv = Struct \<and> fname d' = ''Key''"
    | (bins) "\<not> (Kind ?fv = Struct \<and> fname d' = ''BatchRecord'')"
        "\<not> (Kind ?fv = Struct \<and> fname d' = ''Record'')"
        "\<not> (Kind ?fv = Struct \<and> fname d' = ''Key'')"
        "Kind ?fv = Map \<and> fname d' = ''Bins''"
    | (integer) "\<not> (Kind ?fv = Struct \<and> fname d' = ''BatchRecord'')"
        "\<not> (Kind ?fv = Struct \<and> fname d' = ''Record'')"
        "\<not> (Kind ?fv = Struct \<and> fname d' = ''Key'')"
        "\<not> (Kind ?fv = Map \<and> fname d' = ''Bins'')"
        "\<not> inner \<and> Kind ?fv = UInt Uint32 \<and>
         (fname d' = ''Generation'' \<or> fname d' = ''Expiration'')"
    | (other) "\<not> (Kind ?fv = Struct \<and> fname d' = ''BatchRecord'')"
        "\<not> (Kind ?fv = Struct \<and> fname d' = ''Record'')"
        "\<not> (Kind ?fv = Struct \<and> fname d' = ''Key'')"
        "\<not> (Kind ?fv = Map \<and> fname d' = ''Bins'')"
        "\<not> (\<not> inner \<and> Kind ?fv = UInt Uint32 \<and>
            (fname d' = ''Generation'' \<or> fname d' = ''Expiration''))"
    by blast
  then show ?thesis
  proof cases
    case batch
    obtain v1 e1 where r1: "Decode lib (Refl ?fv) v = (v1, e1)"
      by (cases "Decode lib (Refl ?fv) v")
    from Decode_keeps(1) [OF keeps h, of lib "Refl ?fv"] r1 have h1: "holdsField d x v1"
      by simp
    show ?thesis
    proof (cases e1)
      case None
      with batch r1 have "Decode_fields lib inner rv ((d', x') # rest) isRecord v =
          Decode_fields lib inner rv rest True v1"
        by (simp add: Let_def)
      with h1 show ?thesis
        by blast
    next
      case (Some err)
      with batch r1 show ?thesis
        by (simp add: Let_def)
    qed
  next
    case rcd
    obtain v1 e1 where r1: "decodeRecord lib ?fv v = (v1, e1)"
      by (cases "decodeRecord lib ?fv v")
    from decodeRecord_keeps [OF keeps h, of lib ?fv] r1 have h1: "holdsField d x v1"
      by simp
    show ?thesis
    proof (cases e1)
      case None
      obtain v2 e2 where r2: "Decode lib (Refl ?fv) v1 = (v2, e2)"
        by (cases "Decode lib (Refl ?fv) v1")
      from Decode_keeps(1) [OF keeps h1, of lib "Refl ?fv"] r2 have h2: "holdsField d x v2"
        by simp
      show ?thesis
      proof (cases e2)
        case n2: None
        with rcd r1 None r2 have "Decode_fields lib inner rv ((d', x') # rest) isRecord v =
            Decode_fields lib inner rv rest True v2"
          by (simp add: Let_def)
        with h2 show ?thesis
          by blast
      next
        case (Some err)
        with rcd r1 None r2 show ?thesis
          by (simp add: Let_def)
      qed
    next
      case (Some err)
      with rcd r1 show ?thesis
        by (simp add: Let_def)
    qed
  next
    case key
    obtain v1 e1 where r1: "decodeKey lib ?fv v = (v1, e1)"
      by (cases "decodeKey lib ?fv v")
    from decodeKey_keeps [OF keeps h, of lib ?fv] r1 have h1: "holdsField d x v1"
      by simp
    show ?thesis
    proof (cases e1)
      case None
      with key r1 have "Decode_fields lib inner rv ((d', x') # rest) isRecord v =
          Decode_fields lib inner rv rest isRecord v1"
        by (simp add: Let_def)
      with h1 show ?thesis
        by blast
    next
      case (Some err)
      with key r1 show ?thesis
        by (simp add: Let_def)
    qed
  next
    case bins
    obtain v1 e1 where r1: "decodeBins lib ?fv v = (v1, e1)"
      by (cases "decodeBins lib ?fv v")
    from decodeBins_keeps [OF keeps h, of lib ?fv] r1 have h1: "holdsField d x v1"
      by simp
    show ?thesis
    proof (cases e1)
      case None
      with bins r1 have "Decode_fields lib inner rv ((d', x') # rest) isRecord v =
          Decode_fields lib inner rv rest True v1"
        by (simp add: Let_def)
      with h1 show ?thesis
        by blast
    next
      case (Some err)
      with bins r1 show ?thesis
        by (simp add: Let_def)
    qed
  next
    case integer
    obtain v1 e1 where r1: "decodeRecord lib rv v = (v1, e1)"
      by (cases "decodeRecord lib rv v")
    from decodeRecord_keeps [OF keeps h, of lib rv] r1 have h1: "holdsField d x v1"
      by simp
    show ?thesis
    proof (cases e1)
      case None
      with integer r1 have "Decode_fields lib inner rv ((d', x') # rest) isRecord v =
          Decode_fields lib inner rv rest isRecord v1"
        by (simp add: Let_def)
      with h1 show ?thesis
        by blast
    next
      case (Some err)
      with integer r1 show ?thesis
        by (simp add: Let_def)
    qed
  next
    case other
    have "Decode_fields lib inner rv ((d', x') # rest) isRecord v =
        Decode_fields lib inner rv rest isRecord v"
      using other by (auto simp: Let_def)
    with h show ?thesis
      by blast
  qed
qed

lemma decodeKey_pointer_fails:
  assumes "snd (decodeKey_fields lib kv (Flags True False False) fs) \<noteq> None"
  shows "snd (decodeKey lib kv (Dyn (Some (VPtr t (Some (VStruct n fs)))))) \<noteq> None"
  using assms
  by (auto simp: decodeKey.simps structValue_pointer split: prod.splits)

lemma decodeRecord_pointer_fails:
  assumes "snd (decodeRecord_fields lib rv (Flags True False False) fs) \<noteq> None"
  shows "snd (decodeRecord lib rv (Dyn (Some (VPtr t (Some (VStruct n fs)))))) \<noteq> None"
  using assms
  by (auto simp: decodeRecord.simps structValue_pointer split: prod.splits)

lemma decodeKey_fails:
  assumes "\<And>kv. snd (decodeKey_field lib kv (Flags True False False) d x) \<noteq> None"
    and "holdsField d x v"
  shows "snd (decodeKey lib kv v) \<noteq> None"
proof -
  from assms(2) obtain t n fs where v: "v = Dyn (Some (VPtr t (Some (VStruct n fs))))"
    and "(d, x) \<in> set fs"
    by (auto simp: holdsField_iff)
  then obtain pre post where fs: "fs = pre @ (d, x) # post"
    by (auto dest: split_list)
  obtain x' e where "decodeKey_field lib kv (Flags True False False) d x = (x', Some e)"
    using assms(1) [of kv] by (cases "decodeKey_field lib kv (Flags True False False) d x") auto
  then have "snd (decodeKey_fields lib kv (Flags True False False) (pre @ (d, x) # post)) \<noteq> None"
    by (rule decodeKey_fields_failing_field)
  with v fs show ?thesis
    by (simp add: decodeKey_pointer_fails)
qed

lemma decodeRecord_fails:
  assumes "\<And>rv. snd (decodeRecord_field lib rv (Flags True False False) d x) \<noteq> None"
    and "holdsField d x v"
  shows "snd (decodeRecord lib rv v) \<noteq> None"
proof -
  from assms(2) obtain t n fs where v: "v = Dyn (Some (VPtr t (Some (VStruct n fs))))"
    and "(d, x) \<in> set fs"
    by (auto simp: holdsField_iff)
  then obtain pre post where fs: "fs = pre @ (d, x) # post"
    by (auto dest: split_list)
  obtain x' e where "decodeRecord_field lib rv (Flags True False False) d x = (x', Some e)"
    using assms(1) [of rv]
    by (cases "decodeRecord_field lib rv (Flags True False False) d x") auto
  then have "snd (decodeRecord_fields lib rv (Flags True False False) (pre @ (d, x) # post)) \<noteq> None"
    by (rule decodeRecord_fields_failing_field)
  with v fs show ?thesis
    by (simp add: decodeRecord_pointer_fails)
qed

lemma Decode_fields_reachesKey:
  assumes "Kind (fieldValueDeref (Flags True False False) d x) \<noteq> Struct"
    and "\<not> CanSet (fieldValueDeref (Flags True False False) d x)"
    and "\<And>kv. snd (decodeKey_field lib kv (Flags True False False) d x) \<noteq> None"
  shows "reachesKey fs \<Longrightarrow> holdsField d x v \<Longrightarrow>
    snd (Decode_fields lib inner rv fs isRecord v) \<noteq> None"
proof (induction fs arbitrary: inner rv isRecord v rule: reachesKey.induct)
  case 1
  then show ?case by simp
next
  case (2 d' x' rest)
  let ?fv = "fieldValueDeref (flag rv) d' x'"
  note h = "2.prems"(2)
  have kind: "Kind ?fv = kindDeref x'"
    by (rule Kind_fieldValueDeref)
  from "2.prems"(1) consider
      (key) "keyComponent d' x'"
    | (nested) "kindDeref x' = Struct" "fname d' = ''BatchRecord'' \<or> fname d' = ''Record''"
        "reachesKey (derefFields x')"
    | (later) "reachesKey rest"
    by auto
  then show ?case
  proof cases
    case key
    from assms(3) h have "snd (decodeKey lib ?fv v) \<noteq> None"
      by (rule decodeKey_fails)
    with key kind show ?thesis
      by (auto simp: Let_def keyComponent_def split: prod.splits)
  next
    case nested
    have inner_fails: "snd (Decode lib (Refl ?fv) w) \<noteq> None" if "holdsField d x w" for w
      using "2.IH"(1) [OF nested(3) that] nested(1) by (simp add: Decode_nested)
    from nested(2) show ?thesis
    proof
      assume "fname d' = ''BatchRecord''"
      with nested(1) kind inner_fails [OF h] show ?thesis
        by (auto simp: Let_def split: prod.splits)
    next
      assume nm: "fname d' = ''Record''"
      obtain v1 e1 where r1: "decodeRecord lib ?fv v = (v1, e1)"
        by (cases "decodeRecord lib ?fv v")
      from decodeRecord_keeps [OF assms(1,2) h, of lib ?fv] r1 have "holdsField d x v1"
        by simp
      then have "snd (Decode lib (Refl ?fv) v1) \<noteq> None"
        by (rule inner_fails)
      with nm nested(1) kind r1 show ?thesis
        by (auto simp: Let_def split: prod.splits option.splits)
    qed
  next
    case later
    from Decode_fields_head [OF assms(1,2) h, of lib inner rv d' x' rest isRecord]
    show ?thesis
    proof
      assume "snd (Decode_fields lib inner rv ((d', x') # rest) isRecord v) \<noteq> None"
      then show ?thesis .
    next
      assume "\<exists>b v'. holdsField d x v' \<and>
        Decode_fields lib inner rv ((d', x') # rest) isRecord v =
        Decode_fields lib inner rv rest b v'"
      then obtain b v' where h': "holdsField d x v'"
        and eq: "Decode_fields lib inner rv ((d', x') # rest) isRecord v =
          Decode_fields lib inner rv rest b v'"
        by blast
      from "2.IH"(2) [OF later h'] have "snd (Decode_fields lib inner rv rest b v') \<noteq> None" .
      with eq show ?thesis
        by simp
    qed
  qed
qed

lemma Decode_fields_reachesRecord:
  assumes "Kind (fieldValueDeref (Flags True False False) d x) \<noteq> Struct"
    and "\<not> CanSet (fieldValueDeref (Flags True False False) d x)"
    and "\<And>rv. snd (decodeRecord_field lib rv (Flags True False False) d x) \<noteq> None"
  shows "reachesRecord inner fs \<Longrightarrow> holdsField d x v \<Longrightarrow>
    snd (Decode_fields lib inner rv fs isRecord v) \<noteq> None"
proof (induction inner fs arbitrary: rv isRecord v rule: reachesRecord.induct)
  case (1 inner)
  then show ?case by simp
next
  case (2 inner d' x' rest)
  let ?fv = "fieldValueDeref (flag rv) d' x'"
  note h = "2.prems"(2)
  have kind: "Kind ?fv = kindDeref x'"
    by (rule Kind_fieldValueDeref)
  from "2.prems"(1) consider
      (rcd) "kindDeref x' = Struct" "fname d' = ''Record''"
    | (integer) "\<not> inner" "kindDeref x' = UInt Uint32"
        "fname d' = ''Generation'' \<or> fname d' = ''Expiration''"
    | (batch) "kindDeref x' = Struct" "fname d' = ''BatchRecord''"
        "reachesRecord True (derefFields x')"
    | (later) "reachesRecord inner rest"
    by auto
  then show ?case
  proof cases
    case rcd
    from assms(3) h have "snd (decodeRecord lib ?fv v) \<noteq> None"
      by (rule decodeRecord_fails)
    with rcd kind show ?thesis
      by (auto simp: Let_def split: prod.splits)
  next
    case integer
    from assms(3) h have "snd (decodeRecord lib rv v) \<noteq> None"
      by (rule decodeRecord_fails)
    with integer kind show ?thesis
      by (auto simp: Let_def split: prod.splits)
  next
    case batch
    from "2.IH"(1) [OF batch(3) h] batch(1) have "snd (Decode lib (Refl ?fv) v) \<noteq> None"
      by (simp add: Decode_nested)
    with batch kind show ?thesis
      by (auto simp: Let_def split: prod.splits)
  next
    case later
    from Decode_fields_head [OF assms(1,2) h, of lib inner rv d' x' rest isRecord]
    show ?thesis
    proof
      assume "snd (Decode_fields lib inner rv ((d', x') # rest) isRecord v) \<noteq> None"
      then show ?thesis .
    next
      assume "\<exists>b v'. holdsField d x v' \<and>
        Decode_fields lib inner rv ((d', x') # rest) isRecord v =
        Decode_fields lib inner rv rest b v'"
      then obtain b v' where h': "holdsField d x v'"
        and eq: "Decode_fields lib inner rv ((d', x') # rest) isRecord v =
          Decode_fields lib inner rv rest b v'"
        by blast
      from "2.IH"(2) [OF later h'] have "snd (Decode_fields lib inner rv rest b v') \<noteq> None" .
      with eq show ?thesis
        by simp
    qed
  qed
qed





section \<open>Decode: the two errors for a source that is no record\<close>

lemma Decode_fields_no_component:
  assumes "list_all (\<lambda>(d, x). \<not> recordComponent d x \<and> \<not> keyComponent d x) fs"
  shows "Decode_fields lib False rv fs isRecord v =
     (if \<not> isRecord then (v, Some ErrInvalidSource) else (v, None))"
  using assms
  by (induction fs)
     (auto simp: Let_def Kind_fieldValueDeref recordComponent_def keyComponent_def)

lemma Decode_fields_no_record:
  assumes "list_all (\<lambda>(d, x). \<not> recordComponent d x) fs"
  shows "snd (Decode_fields lib False rv fs False v) \<noteq> None"
  using assms
proof (induction fs arbitrary: v)
  case Nil
  then show ?case by simp
next
  case (Cons p fs)
  obtain d x where p: "p = (d, x)" by (cases p)
  with Cons.prems have here: "\<not> recordComponent d x"
    and rest: "list_all (\<lambda>(d, x). \<not> recordComponent d x) fs"
    by simp_all
  note IH = Cons.IH [OF rest]
  show ?case
  proof (cases "keyComponent d x")
    case True
    with here p IH show ?thesis
      by (auto simp: Let_def Kind_fieldValueDeref recordComponent_def keyComponent_def
          split: prod.splits option.splits)
  next
    case False
    with here p IH show ?thesis
      by (auto simp: Let_def Kind_fieldValueDeref recordComponent_def keyComponent_def)
  qed
qed

text \<open>
  C6, as amended.  When the source is neither a struct nor a pointer to a struct that is
  not nil, \<open>Decode\<close> returns the error \<open>ErrInvalidSourceType\<close> and leaves the
  destination as it is.  When the source is a struct, or a pointer to one, none of whose
  fields meets a case of the switch for a batch record, a record, the bins, the
  generation or the expiration, \<open>Decode\<close> fails; and when no field meets the case for
  the key either, the error is \<open>ErrInvalidSource\<close> and the destination is as it was.
\<close>

theorem Decode_invalid_source:
  "((\<forall>n fs. d \<noteq> Some (VStruct n fs)) \<and> (\<forall>t n fs. d \<noteq> Some (VPtr t (Some (VStruct n fs)))) \<longrightarrow>
      Decode lib (Dyn d) v = (v, Some ErrInvalidSourceType)) \<and>
   ((d = Some (VStruct n fs) \<or> d = Some (VPtr t (Some (VStruct n fs)))) \<and>
    list_all (\<lambda>(d, x). \<not> recordComponent d x) fs \<longrightarrow>
      snd (Decode lib (Dyn d) v) \<noteq> None \<and>
      (list_all (\<lambda>(d, x). \<not> keyComponent d x) fs \<longrightarrow>
         Decode lib (Dyn d) v = (v, Some ErrInvalidSource)))"
proof (intro conjI impI)
  assume "(\<forall>n fs. d \<noteq> Some (VStruct n fs)) \<and> (\<forall>t n fs. d \<noteq> Some (VPtr t (Some (VStruct n fs))))"
  then have "structValue (Dyn d) = Inl ErrInvalidSourceType"
    by (auto simp: structValue_def ValueOf_def Kind_def Elem_def Let_def reflectZeroValue_def
        split: option.splits gval.splits dest: kind_Struct)
  then show "Decode lib (Dyn d) v = (v, Some ErrInvalidSourceType)"
    by (simp add: Decode.simps)
next
  assume a: "(d = Some (VStruct n fs) \<or> d = Some (VPtr t (Some (VStruct n fs)))) \<and>
    list_all (\<lambda>(d, x). \<not> recordComponent d x) fs"
  then obtain rfl where sv: "structValue (Dyn d) = Inr (V (Some (VStruct n fs)) rfl)"
    by (auto simp: structValue_def ValueOf_def Kind_def Elem_def Let_def)
  then have dec: "Decode lib (Dyn d) v = Decode_fields lib False (V (Some (VStruct n fs)) rfl) fs False v"
    by (simp add: Decode.simps)
  from a dec show "snd (Decode lib (Dyn d) v) \<noteq> None"
    using Decode_fields_no_record by simp
  assume k: "list_all (\<lambda>(d, x). \<not> keyComponent d x) fs"
  with a have "list_all (\<lambda>(d, x). \<not> recordComponent d x \<and> \<not> keyComponent d x) fs"
    by (auto simp: list_all_iff)
  with dec show "Decode lib (Dyn d) v = (v, Some ErrInvalidSource)"
    by (simp add: Decode_fields_no_component)
qed

theorem Decode_invalid_source_witness:
  "Decode bareLib (Dyn (Some (VInt Int' 1)))
     (Dyn (Some (VPtr (TStruct ''Item'' []) (Some (VStruct ''Item'' []))))) =
   (Dyn (Some (VPtr (TStruct ''Item'' []) (Some (VStruct ''Item'' [])))),
    Some ErrInvalidSourceType) \<and>
   Decode bareLib
     (Dyn (Some (VStruct ''testtypes.Item1''
        [(SField ''Title'' True False ''title'' TString, VString [])])))
     (Dyn (Some (VPtr (TStruct ''Item'' []) (Some (VStruct ''Item'' []))))) =
   (Dyn (Some (VPtr (TStruct ''Item'' []) (Some (VStruct ''Item'' [])))),
    Some ErrInvalidSource)"
  using
    Decode_invalid_source
      [of "Some (VInt Int' 1)" bareLib
          "Dyn (Some (VPtr (TStruct ''Item'' []) (Some (VStruct ''Item'' []))))"
          "[]" "[]" TBool]
    Decode_invalid_source
      [of "Some (VStruct ''testtypes.Item1''
             [(SField ''Title'' True False ''title'' TString, VString [])])" bareLib
          "Dyn (Some (VPtr (TStruct ''Item'' []) (Some (VStruct ''Item'' []))))"
          "''testtypes.Item1''" "[(SField ''Title'' True False ''title'' TString, VString [])]"
          TBool]
  by (simp add: recordComponent_def keyComponent_def kindDeref_def)

text \<open>
  C6 as stated fails where the source has a field \<open>Key\<close> that is a struct and none of
  the components that the claim lists: \<open>Decode\<close> decodes the key first, and here that
  fails, for want of a method \<open>Namespace\<close>, with an error that is not
  \<open>ErrInvalidSource\<close>.
\<close>

theorem Decode_invalid_source_counterexample:
  "list_all (\<lambda>(d, x). \<not> recordComponent d x)
     [(SField ''Key'' True False [] (TStruct ''Owner'' []), VStruct ''Owner'' [])] \<and>
   snd (Decode bareLib
     (Dyn (Some (VStruct ''Source''
        [(SField ''Key'' True False [] (TStruct ''Owner'' []), VStruct ''Owner'' [])])))
     (Dyn (Some (VPtr (TStruct ''Item'' [SField ''Namespace'' True False ''meta,namespace'' TString])
        (Some (VStruct ''Item''
           [(SField ''Namespace'' True False ''meta,namespace'' TString, VString [])])))))) =
   Some (Errorf ''%s: %w''
     [T (TStruct ''Owner'' []),
      W (Errorf ''method '%s' not found on type %s (or pointer to it)''
           [S ''Namespace'', T (TStruct ''Owner'' [])])]) \<and>
   Errorf ''%s: %w''
     [T (TStruct ''Owner'' []),
      W (Errorf ''method '%s' not found on type %s (or pointer to it)''
           [S ''Namespace'', T (TStruct ''Owner'' [])])] \<noteq> ErrInvalidSource"
  by code_simp



section \<open>Encode, then Decode into a fresh struct\<close>

text \<open>
  A float whose bits are all zero but for the sign is one of the two zeros; a primitive
  value that \<open>isEmptyValue\<close> takes for empty is the zero value of its type unless it is
  the negative zero.
\<close>

lemma multiple_below_double:
  fixes n m :: nat
  assumes "n mod m = 0" and "n < 2 * m"
  shows "n = 0 \<or> n = m"
proof -
  from assms(1) have "m dvd n"
    by (simp add: mod_eq_0_iff_dvd)
  then obtain q where q: "n = m * q" ..
  with assms(2) have "q < 2"
    by (cases "m = 0") auto
  then have "q = 0 \<or> q = 1"
    by auto
  with q show ?thesis
    by auto
qed

lemma sign_bit_only:
  fixes w :: "'a::len word"
  assumes "take_bit (LENGTH('a) - 1) w = 0" and "w \<noteq> push_bit (LENGTH('a) - 1) 1"
  shows "w = 0"
proof -
  let ?m = "2 ^ (LENGTH('a) - 1) :: nat"
  from assms(1) have "unat (take_bit (LENGTH('a) - 1) w) = unat (0::'a word)"
    by (rule arg_cong)
  then have "take_bit (LENGTH('a) - 1) (unat w) = 0"
    by (simp only: unsigned_take_bit_eq unsigned_0)
  then have m: "unat w mod ?m = 0"
    by (simp only: take_bit_eq_mod)
  have "(2::nat) ^ LENGTH('a) = 2 * ?m"
    using power_Suc [of "2::nat" "LENGTH('a) - 1"] by simp
  then have "unat w < 2 * ?m"
    using unsigned_less [of w, where 'a = nat] by simp
  with m have "unat w = 0 \<or> unat w = ?m"
    by (rule multiple_below_double)
  then show ?thesis
  proof
    assume "unat w = 0"
    then show ?thesis
      by (simp only: unsigned_eq_0_iff)
  next
    assume u: "unat w = ?m"
    have "w = word_of_nat (unat w)"
      by simp
    also have "\<dots> = word_of_nat ?m"
      by (simp only: u)
    also have "\<dots> = push_bit (LENGTH('a) - 1) 1"
      by (simp add: push_bit_eq_mult)
    finally show ?thesis
      using assms(2) by simp
  qed
qed

lemma empty_is_zero:
  assumes "primitive x" and "\<not> negativeZero x" and "isEmptyValue (V (Some x) fl)"
  shows "x = zero (typeOf x)"
proof (cases x)
  case (VFloat32 w)
  with assms sign_bit_only [of w] show ?thesis
    by (simp add: negativeZero_def isEmptyValue_def)
next
  case (VFloat64 w)
  with assms sign_bit_only [of w] show ?thesis
    by (simp add: negativeZero_def isEmptyValue_def)
qed (use assms in \<open>auto simp: primitive_def isEmptyValue_def\<close>)

text \<open>Primitive values under \<open>fieldValueDeref\<close>, \<^verbatim>\<open>Interface()\<close> and the tag parser.\<close>

lemma zeroField_eq: "zeroField d = (d, zero (ftype d))"
  by (cases d) simp

lemma primitive_zero: "primitive x \<Longrightarrow> primitive (zero (typeOf x))"
  by (cases x) (auto simp: primitive_def split: fkind.splits)

lemma primitive_deref:
  "primitive x \<Longrightarrow> fieldValueDeref fl d x = V (Some x) (fieldFlags fl d)"
  by (cases x) (auto simp: primitive_def fieldValueDeref_def Field_def Kind_def)

lemma primitive_kind: "primitive x \<Longrightarrow> kindOf (typeOf x) \<noteq> Struct \<and> kindOf (typeOf x) \<noteq> Ptr \<and> kindOf (typeOf x) \<noteq> Interface"
  by (cases x) (auto simp: primitive_def)

lemma primitive_interface: "primitive x \<Longrightarrow> valueInterface (V (Some x) fl) = (if ro fl then Inl (Panic ''reflect.Value.Interface: cannot return value obtained from unexported field or method'') else Inr (Some x))"
  by (cases x) (auto simp: primitive_def valueInterface_def)

lemma isEmptyValue_flags: "isEmptyValue (V a fl) = isEmptyValue (V a noFlags)"
  by (simp add: isEmptyValue_def)

lemma binField_tagged: "ftag d = [] \<Longrightarrow> \<not> binField d"
  by (simp add: binField_def parseTag_empty)

lemma binField_tag:
  assumes "binField d"
  shows "\<exists>tg. parseTag (ftag d) = Inr tg \<and> \<not> meta tg \<and> \<not> omit tg \<and>
    name tg \<noteq> [] \<and> name tg = binName d \<and> omitempty tg = omitsEmpty d"
  using assms
  by (cases "parseTag (ftag d)") (simp_all add: binField_def binName_def omitsEmpty_def)

text \<open>
  What \<open>encode\<close> does for one primitive field: with a bin directive it writes the
  value under the bin name unless \<open>omitempty\<close> keeps it out, without a tag nothing.
\<close>

lemma encode_primitive_bin_field:
  assumes "primitive x" and "typeOf x = ftype d" and "\<not> negativeZero x"
    and "binField d" and "fexported d" and "\<not> stickyRO fl"
  shows "encode_field lib fl d x r =
     Inr (if omitsEmpty d \<and> isEmptyValue (V (Some x) noFlags) then r
          else r\<lparr>Bins := AList.update (binName d) (Some x) (Bins r)\<rparr>)"
proof -
  from assms(4) obtain tg where tg: "parseTag (ftag d) = Inr tg" "\<not> meta tg" "\<not> omit tg"
    "name tg \<noteq> []" "name tg = binName d" "omitempty tg = omitsEmpty d"
    using binField_tag by blast
  have deref: "fieldValueDeref fl d x = V (Some x) (fieldFlags fl d)"
    using assms(1) by (rule primitive_deref)
  have k: "Kind (fieldValueDeref fl d x) \<noteq> Struct"
    using assms(1) by (simp add: deref Kind_def primitive_kind)
  have e: "isEmptyValue (V (Some x) (fieldFlags fl d)) = isEmptyValue (V (Some x) noFlags)"
    by (rule isEmptyValue_flags)
  have nro: "\<not> ro (fieldFlags fl d)"
    using assms(5,6) by (simp add: ro_def fieldFlags_def)
  have z: "isEmptyValue (V (Some x) noFlags) \<Longrightarrow> valueInterface (Zero (ftype d)) = Inr (Some x)"
  proof -
    assume "isEmptyValue (V (Some x) noFlags)"
    with assms(1,3) have "x = zero (typeOf x)"
      by (rule empty_is_zero)
    with assms(2) have "zero (ftype d) = x"
      by simp
    with assms(1) show ?thesis
      by (simp add: Zero_def primitive_interface ro_def noFlags_def)
  qed
  show ?thesis
    using z nro assms(1)
    by (simp add: encode_bin_field [OF k tg(1-4)] e deref primitive_interface tg(5,6))
qed

lemma decodeKey_field_primitive:
  assumes "primitive x" and "ftag d = [] \<or> binField d"
  shows "decodeKey_field lib kv fl d x = (x, None)"
proof (cases "ftag d = []")
  case True
  with assms(1) show ?thesis
    by (simp add: decodeKey_field.simps Let_def primitive_deref Kind_def primitive_kind)
next
  case False
  with assms(2) obtain tg where "parseTag (ftag d) = Inr tg" and "\<not> meta tg"
    using binField_tag by blast
  with assms(1) show ?thesis
    by (simp add: decodeKey_field.simps Let_def primitive_deref Kind_def primitive_kind)
qed

lemma decodeBins_field_absent:
  assumes "primitive z" and "binField d"
    and "val rv = Some (VMap TString vt (Some es))"
    and "map_of es (VString (binName d)) = None"
  shows "decodeBins_field lib rv fl d z = (z, None)"
proof -
  from assms(2) obtain tg where "parseTag (ftag d) = Inr tg" and "name tg = binName d"
    using binField_tag by blast
  with assms(1,3,4) show ?thesis
    by (simp add: decodeBins_field.simps Let_def primitive_deref Kind_def primitive_kind
          MapIndex_string_map)
qed

lemma convertElementType_same_type:
  assumes "primitive x"
  shows "convertElementType lib (Refl (V (Some (VIface n (Some x))) fl)) (typeOf x) =
    Inr (V (Some x) (Flags False (ro fl) False))"
  using assms
  by (simp add: convertElementType.simps Let_def Kind_def Elem_def IsValid_def primitive_kind)

lemma decodeBins_field_found:
  assumes "primitive x" and "typeOf x = ftype d" and "binField d" and "fexported d"
    and "val rv = Some (VMap TString vt (Some es))"
    and "map_of es (VString (binName d)) = Some (VIface n (Some x))"
    and "\<not> ro (flag rv)" and "canAddr fl" and "\<not> stickyRO fl"
  shows "decodeBins_field lib rv fl d (zero (ftype d)) = (x, None)"
proof -
  from assms(3) obtain tg where tg: "parseTag (ftag d) = Inr tg" "name tg = binName d"
    "name tg \<noteq> []"
    using binField_tag by blast
  from assms(3) have tagged: "ftag d \<noteq> []"
    using binField_tagged by blast
  from assms(1,2) have pz: "primitive (zero (ftype d))"
    using primitive_zero [of x] by simp
  have set: "CanSet (V (Some (zero (ftype d))) (fieldFlags fl d))"
    using assms(4,8,9) by (simp add: CanSet_def fieldFlags_def ro_def)
  have conv: "convertElementType lib
      (Refl (V (Some (VIface n (Some x))) (Flags False False False))) (ftype d) =
      Inr (V (Some x) (Flags False False False))"
    using convertElementType_same_type [OF assms(1), of lib n "Flags False False False"] assms(2)
    by (simp add: ro_def)
  have assign: "Set lib (V (Some (zero (ftype d))) (fieldFlags fl d))
      (V (Some x) (Flags False False False)) = Inr x"
    using set assms(2) by (simp add: Set_def ro_def assignTo_def typeOf_zero)
  have put: "putDeref (zero (ftype d)) x = x"
    using pz by (cases "zero (ftype d)") (auto simp: putDeref_def primitive_def)
  show ?thesis
    using tg tagged assms(5,6,7) set conv assign put pz
    by (simp add: decodeBins_field.simps Let_def primitive_deref Kind_def primitive_kind
          MapIndex_string_map reflectZeroValue_def)
qed


lemma map_of_bins:
  "map_of (map (\<lambda>(k, d). (VString k, VIface n d)) bs) (VString k) =
     map_option (VIface n) (map_of bs k)"
  by (induction bs) auto

lemma decodeBins_pointer:
  assumes "Kind rv = Map"
    and "decodeBins_fields lib rv (Flags True False False) gs = (gs', None)"
  shows "decodeBins lib rv (Dyn (Some (VPtr t (Some (VStruct n gs))))) =
    (Dyn (Some (VPtr t (Some (VStruct n gs')))), None)"
  using assms
  by (simp add: decodeBins.simps structValue_def ValueOf_def Kind_def Elem_def storeStruct_def
        noFlags_def)



lemma Decode_mapper_record:
  assumes "decodeKey lib
      (V (Some (VStruct ''mapper.Key''
         [(SField ''Namespace'' True False ''meta,namespace'' TString, Namespace (Key r)),
          (SField ''SetName'' True False ''meta,set_name'' TString, SetName (Key r)),
          (SField ''Digest'' True False ''meta,digest'' (TArray 20 (TUint Uint8)), Digest (Key r))]))
         (Flags True False False)) v = (v, None)"
    and "decodeBins lib
      (V (Some (VMap TString anyType
         (Some (map (\<lambda>(k, d). (VString k, VIface ''interface {}'' d)) (Bins r)))))
         (Flags True False False)) v = (v', None)"
  shows "Decode lib (Dyn (Some (VPtr RecordType (Some (valueOfRecord r))))) v = (v', None)"
  using assms
  by (simp add: Decode.simps structValue_def ValueOf_def Kind_def Elem_def valueOfRecord_def
        structOf_def RecordType_def KeyType_def KeyValueType_def MetadataType_def noFlags_def
        fieldValueDeref_def Field_def fieldFlags_def Let_def)

lemma zero_struct:
  "zero (TStruct n (map fst fs)) = VStruct n (map (\<lambda>(d, x). (d, zero (ftype d))) fs)"
  by (simp add: zeroField_eq case_prod_beta)

lemma Encode_struct:
  assumes "src = Dyn (Some (VStruct n fs)) \<or> src = Dyn (Some (VPtr t (Some (VStruct n fs))))"
  shows "\<exists>fl. \<not> stickyRO fl \<and> Encode lib src = encode_fields lib fl fs newRecord"
  using assms
proof
  assume "src = Dyn (Some (VStruct n fs))"
  then have "\<not> stickyRO noFlags \<and> Encode lib src = encode_fields lib noFlags fs newRecord"
    by (simp add: Encode_def encode.simps structValue_def ValueOf_def Kind_def noFlags_def)
  then show ?thesis ..
next
  assume "src = Dyn (Some (VPtr t (Some (VStruct n fs))))"
  then have "\<not> stickyRO (Flags True False False) \<and>
      Encode lib src = encode_fields lib (Flags True False False) fs newRecord"
    by (simp add: Encode_def encode.simps structValue_def ValueOf_def Kind_def Elem_def
          noFlags_def)
  then show ?thesis ..
qed

text \<open>
  Fields into which the walk goes, fields that it skips, and the composition of what
  two steps of \<open>encode\<close> do to the bins.
\<close>

lemma kindDeref_zero: "kindOf t \<noteq> Struct \<Longrightarrow> kindDeref (zero t) \<noteq> Struct"
  by (cases t) (auto simp: kindDeref_def split: fkind.splits)

lemma not_struct_kind: "(\<And>n gs. x \<noteq> VStruct n gs) \<Longrightarrow> kindOf (typeOf x) \<noteq> Struct"
  by (cases x) auto

lemma zero_nested:
  assumes "typeOf (VStruct n gs) = ftype d"
  shows "zero (ftype d) = VStruct n (map (\<lambda>(d, x). (d, zero (ftype d))) gs)"
proof -
  from assms have "ftype d = TStruct n (map fst gs)"
    by simp
  then show ?thesis
    by (simp add: zeroField_eq case_prod_beta)
qed

lemma encode_field_leaf_untagged:
  assumes "kindDeref x \<noteq> Struct" and "ftag d = []"
  shows "encode_field lib fl d x r = Inr r"
  using assms by (simp add: encode_field.simps Let_def Kind_fieldValueDeref)

lemma decodeKey_field_leaf_untagged:
  assumes "kindDeref x \<noteq> Struct" and "ftag d = []"
  shows "decodeKey_field lib kv fl d x = (x, None)"
  using assms by (simp add: decodeKey_field.simps Let_def Kind_fieldValueDeref)

lemma decodeBins_field_leaf_untagged:
  assumes "kindDeref x \<noteq> Struct" and "ftag d = []"
  shows "decodeBins_field lib rv fl d x = (x, None)"
  using assms by (simp add: decodeBins_field.simps Let_def Kind_fieldValueDeref)

lemma fieldValueDeref_struct:
  "fieldValueDeref fl d (VStruct n gs) = V (Some (VStruct n gs)) (fieldFlags fl d)"
  by (simp add: fieldValueDeref_def Field_def Kind_def)

lemma encode_field_struct:
  "encode_field lib fl d (VStruct n gs) r = encode_fields lib (fieldFlags fl d) gs r"
  by (simp add: encode_field.simps fieldValueDeref_struct Kind_def encode.simps structValue_def)

lemma decodeKey_field_struct:
  "decodeKey_field lib kv fl d (VStruct n gs) =
     (case decodeKey_fields lib kv (fieldFlags fl d) gs of (gs', err) \<Rightarrow> (VStruct n gs', err))"
  by (simp add: decodeKey_field.simps fieldValueDeref_struct Kind_def decodeKey.simps
        structValue_def storeStruct_def nestedResult_def putDeref_def split: prod.splits)

lemma decodeBins_field_struct:
  assumes "Kind rv = Map"
  shows "decodeBins_field lib rv fl d (VStruct n gs) =
     (case decodeBins_fields lib rv (fieldFlags fl d) gs of (gs', err) \<Rightarrow> (VStruct n gs', err))"
  using assms
  by (simp add: decodeBins_field.simps fieldValueDeref_struct Kind_def decodeBins.simps
        structValue_def storeStruct_def nestedResult_def putDeref_def split: prod.splits)

lemma bins_compose:
  assumes "\<forall>(d, x) \<in> set l1. m1 (binName d) = w d x"
    and "\<forall>k. k \<notin> set n1 \<longrightarrow> m1 k = m0 k"
    and "\<forall>(d, x) \<in> set l2. m2 (binName d) = w d x"
    and "\<forall>k. k \<notin> set n2 \<longrightarrow> m2 k = m1 k"
    and "n1 = map (\<lambda>(d, x). binName d) l1"
    and "distinct (n1 @ n2)"
  shows "(\<forall>(d, x) \<in> set (l1 @ l2). m2 (binName d) = w d x) \<and>
    (\<forall>k. k \<notin> set (n1 @ n2) \<longrightarrow> m2 k = m0 k)"
proof -
  have "m2 (binName d) = w d x" if "(d, x) \<in> set l1" for d x
  proof -
    from that assms(5) have "binName d \<in> set n1"
      by force
    with assms(6) have "binName d \<notin> set n2"
      by auto
    with assms(4) have "m2 (binName d) = m1 (binName d)"
      by simp
    with assms(1) that show ?thesis
      by auto
  qed
  moreover have "m2 k = m0 k" if "k \<notin> set (n1 @ n2)" for k
    using that assms(2,4) by simp
  ultimately show ?thesis
    using assms(3) by auto
qed

lemma encode_field_deref_struct:
  assumes "kindDeref x = Struct"
  shows "\<exists>fl'. encode_field lib fl d x r = encode_fields lib fl' (derefFields x) r"
proof -
  from assms obtain n fs where "val (fieldValueDeref fl d x) = Some (VStruct n fs)"
    and "derefFields x = fs"
    by (cases x)
       (auto simp: kindDeref_def fieldValueDeref_def Field_def Kind_def Elem_def derefFields_def
          Let_def split: option.splits dest: kind_Struct)
  with assms show ?thesis
    by (auto simp: encode_field.simps Let_def Kind_fieldValueDeref encode.simps structValue_def)
qed

lemma encode_fields_unmapped:
  assumes "unmapped fs"
  shows "encode_fields lib fl fs r = Inr r"
  using assms
proof (induction fs arbitrary: fl rule: unmapped.induct)
  case 1
  show ?case by simp
next
  case (2 d x rest)
  have "encode_field lib fl d x r = Inr r"
  proof (cases "kindDeref x = Struct")
    case True
    with "2.prems" have "unmapped (derefFields x)"
      by simp
    with "2.IH"(1) [OF True] encode_field_deref_struct [OF True, of lib fl d r] show ?thesis
      by auto
  next
    case False
    with "2.prems" show ?thesis
      by (simp add: encode_field_leaf_untagged)
  qed
  with "2.IH"(2) "2.prems" show ?case
    by simp
qed

text \<open>
  The loop of \<open>encode\<close> over a struct whose bins are written by primitive fields with
  distinct bin names, none of them in the record yet: afterwards the bin of each such
  field holds the value of the field, or is absent when the field was not written, and
  no other bin has changed.
\<close>

lemma encode_fields_primitiveBins:
  assumes "primitiveBins hidden fs"
    and "hidden = stickyRO fl"
    and "distinct (binNames fs)"
    and "\<forall>k \<in> set (binNames fs). map_of (Bins r0) k = None"
  shows "\<exists>r. encode_fields lib fl fs r0 = Inr r \<and>
     (\<forall>(d, x) \<in> set (binLeaves fs).
        map_of (Bins r) (binName d) = (if written d x then Some (Some x) else None)) \<and>
     (\<forall>k. k \<notin> set (binNames fs) \<longrightarrow> map_of (Bins r) k = map_of (Bins r0) k)"
  using assms
proof (induction hidden fs arbitrary: fl r0 rule: primitiveBins.induct)
  case (1 hidden)
  show ?case by (simp add: binNames_def)
next
  case (2 hidden d x rest)
  let ?w = "\<lambda>d x. if written d x then Some (Some x) else None"
  define hl where "hl = (case x of VStruct n gs \<Rightarrow> binLeaves gs
                          | _ \<Rightarrow> if ftag d = [] then [] else [(d, x)])"
  define hn where "hn = map (\<lambda>(d, x). binName d) hl"
  have leaves: "binLeaves ((d, x) # rest) = hl @ binLeaves rest"
    by (simp add: hl_def)
  then have names: "binNames ((d, x) # rest) = hn @ binNames rest"
    by (simp add: binNames_def hn_def)
  from "2.prems"(1) have typed: "typeOf x = ftype d" and tail: "primitiveBins hidden rest"
    by simp_all
  from "2.prems"(3) names have dist: "distinct (hn @ binNames rest)"
    by simp
  from "2.prems"(4) names have fresh: "\<forall>k \<in> set (hn @ binNames rest). map_of (Bins r0) k = None"
    by simp
  have head: "\<exists>r1. encode_field lib fl d x r0 = Inr r1 \<and>
      (\<forall>(d', x') \<in> set hl. map_of (Bins r1) (binName d') = ?w d' x') \<and>
      (\<forall>k. k \<notin> set hn \<longrightarrow> map_of (Bins r1) k = map_of (Bins r0) k)"
  proof (cases "\<exists>n gs. x = VStruct n gs")
    case True
    then obtain n gs where x: "x = VStruct n gs"
      by blast
    with "2.prems"(1)
    have nested: "primitiveBins (hidden \<or> \<not> fexported d \<and> \<not> fembedded d) gs"
      by simp
    have fl': "(hidden \<or> \<not> fexported d \<and> \<not> fembedded d) = stickyRO (fieldFlags fl d)"
      using "2.prems"(2) by (simp add: fieldFlags_def)
    from x have hl: "hl = binLeaves gs" and hn: "hn = binNames gs"
      by (simp_all add: hl_def hn_def binNames_def)
    from dist fresh hn have "distinct (binNames gs)"
      and "\<forall>k \<in> set (binNames gs). map_of (Bins r0) k = None"
      by simp_all
    from "2.IH"(1) [OF x nested fl' this] x hl hn show ?thesis
      by (simp add: encode_field_struct)
  next
    case leaf: False
    show ?thesis
    proof (cases "ftag d = []")
      case True
      from leaf "2.prems"(1) True have inside: "kindDeref x = Struct \<longrightarrow> unmapped (derefFields x)"
        by (cases x) auto
      have "encode_field lib fl d x r0 = Inr r0"
      proof (cases "kindDeref x = Struct")
        case pointer: True
        with inside encode_field_deref_struct [OF pointer, of lib fl d r0] show ?thesis
          by (auto simp: encode_fields_unmapped)
      next
        case False
        with True show ?thesis
          by (simp add: encode_field_leaf_untagged)
      qed
      moreover from leaf True have "hl = []"
        by (cases x) (auto simp: hl_def)
      ultimately show ?thesis
        by (simp add: hn_def)
    next
      case False
      from leaf "2.prems"(1) False
      have "primitive x \<and> \<not> negativeZero x \<and> binField d \<and> fexported d \<and> \<not> hidden"
        by (cases x) auto
      then have good: "primitive x" "\<not> negativeZero x" "binField d" "fexported d" "\<not> hidden"
        by simp_all
      from leaf False have hl: "hl = [(d, x)]"
        by (cases x) (auto simp: hl_def)
      from good(5) "2.prems"(2) have "\<not> stickyRO fl"
        by simp
      from encode_primitive_bin_field [OF good(1) typed good(2,3,4) this, of lib r0]
      have step: "encode_field lib fl d x r0 =
          Inr (if written d x then r0\<lparr>Bins := AList.update (binName d) (Some x) (Bins r0)\<rparr>
               else r0)"
        by (simp add: written_def)
      from fresh hl have "map_of (Bins r0) (binName d) = None"
        by (simp add: hn_def)
      with step hl show ?thesis
        by (simp add: hn_def update_conv')
    qed
  qed
  then obtain r1 where r1: "encode_field lib fl d x r0 = Inr r1"
    and l1: "\<forall>(d', x') \<in> set hl. map_of (Bins r1) (binName d') = ?w d' x'"
    and o1: "\<forall>k. k \<notin> set hn \<longrightarrow> map_of (Bins r1) k = map_of (Bins r0) k"
    by blast
  have "\<forall>k \<in> set (binNames rest). map_of (Bins r1) k = None"
  proof
    fix k
    assume k: "k \<in> set (binNames rest)"
    with dist have "k \<notin> set hn"
      by auto
    with o1 have "map_of (Bins r1) k = map_of (Bins r0) k"
      by simp
    with fresh k show "map_of (Bins r1) k = None"
      by simp
  qed
  with "2.IH"(2) [OF tail "2.prems"(2)] dist obtain r where
    r: "encode_fields lib fl rest r1 = Inr r"
    and l2: "\<forall>(d', x') \<in> set (binLeaves rest). map_of (Bins r) (binName d') = ?w d' x'"
    and o2: "\<forall>k. k \<notin> set (binNames rest) \<longrightarrow> map_of (Bins r) k = map_of (Bins r1) k"
    by force
  from bins_compose [OF l1 o1 l2 o2 hn_def dist] r1 r leaves names show ?case
    by simp
qed

text \<open>
  The decoders on the zero value of such a struct: \<open>decodeKey\<close> leaves it alone, and
  \<open>decodeBins\<close> stores the bin of every field with a tag in the field.
\<close>

lemma decodedFields_Cons_leaf:
  "\<not> (\<exists>n gs. x = VStruct n gs) \<Longrightarrow>
   decodedFields ((d, x) # rest) =
     (d, if ftag d = [] then zero (ftype d) else x) # decodedFields rest"
  by (cases x) auto

lemma decodeKey_fields_primitiveBins:
  assumes "primitiveBins hidden fs"
  shows "decodeKey_fields lib kv fl (map (\<lambda>(d, x). (d, zero (ftype d))) fs) =
    (map (\<lambda>(d, x). (d, zero (ftype d))) fs, None)"
  using assms
proof (induction hidden fs arbitrary: fl rule: primitiveBins.induct)
  case (1 hidden)
  show ?case by simp
next
  case (2 hidden d x rest)
  from "2.prems" have typed: "typeOf x = ftype d" and tail: "primitiveBins hidden rest"
    by simp_all
  have head: "decodeKey_field lib kv fl d (zero (ftype d)) = (zero (ftype d), None)"
  proof (cases "\<exists>n gs. x = VStruct n gs")
    case True
    then obtain n gs where x: "x = VStruct n gs"
      by blast
    with "2.prems" have nested: "primitiveBins (hidden \<or> \<not> fexported d \<and> \<not> fembedded d) gs"
      by simp
    from typed x have z: "zero (ftype d) = VStruct n (map (\<lambda>(d, x). (d, zero (ftype d))) gs)"
      by (simp add: zero_nested)
    from "2.IH"(1) [OF x nested, of "fieldFlags fl d"] show ?thesis
      by (simp add: z decodeKey_field_struct)
  next
    case leaf: False
    then have "kindOf (typeOf x) \<noteq> Struct"
      by (cases x) auto
    with typed have plain: "kindDeref (zero (ftype d)) \<noteq> Struct"
      by (simp add: kindDeref_zero)
    show ?thesis
    proof (cases "ftag d = []")
      case True
      with plain show ?thesis
        by (simp add: decodeKey_field_leaf_untagged)
    next
      case False
      with leaf "2.prems" have "primitive x \<and> binField d"
        by (cases x) auto
      with typed primitive_zero [of x] have "primitive (zero (ftype d))" "binField d"
        by simp_all
      then show ?thesis
        by (simp add: decodeKey_field_primitive)
    qed
  qed
  with "2.IH"(2) [OF tail, of fl] show ?case
    by simp
qed

lemma decodeBins_fields_primitiveBins:
  assumes "primitiveBins hidden fs"
    and "hidden = stickyRO fl" and "canAddr fl"
    and "val rv = Some (VMap TString vt (Some es))" and "\<not> ro (flag rv)"
    and "\<forall>(d, x) \<in> set (binLeaves fs).
           map_of es (VString (binName d)) =
             (if written d x then Some (VIface nm (Some x)) else None)"
  shows "decodeBins_fields lib rv fl (map (\<lambda>(d, x). (d, zero (ftype d))) fs) =
    (decodedFields fs, None)"
  using assms(1,2,3,6)
proof (induction hidden fs arbitrary: fl rule: primitiveBins.induct)
  case (1 hidden)
  show ?case by simp
next
  case (2 hidden d x rest)
  from "2.prems"(1) have typed: "typeOf x = ftype d" and tail: "primitiveBins hidden rest"
    by simp_all
  from assms(4) have isMap: "Kind rv = Map"
    by (simp add: Kind_def)
  have head: "decodeBins_field lib rv fl d (zero (ftype d)) =
      (case x of VStruct n gs \<Rightarrow> VStruct n (decodedFields gs)
       | _ \<Rightarrow> if ftag d = [] then zero (ftype d) else x, None)"
  proof (cases "\<exists>n gs. x = VStruct n gs")
    case True
    then obtain n gs where x: "x = VStruct n gs"
      by blast
    with "2.prems"(1)
    have nested: "primitiveBins (hidden \<or> \<not> fexported d \<and> \<not> fembedded d) gs"
      by simp
    have fl': "(hidden \<or> \<not> fexported d \<and> \<not> fembedded d) = stickyRO (fieldFlags fl d)"
      using "2.prems"(2) by (simp add: fieldFlags_def)
    have addr: "canAddr (fieldFlags fl d)"
      using "2.prems"(3) by (simp add: fieldFlags_def)
    from "2.prems"(4) x have bins: "\<forall>(d, x) \<in> set (binLeaves gs).
        map_of es (VString (binName d)) =
          (if written d x then Some (VIface nm (Some x)) else None)"
      by simp
    from typed x have z: "zero (ftype d) = VStruct n (map (\<lambda>(d, x). (d, zero (ftype d))) gs)"
      by (simp add: zero_nested)
    from "2.IH"(1) [OF x nested fl' addr bins] x show ?thesis
      by (simp add: z decodeBins_field_struct [OF isMap])
  next
    case leaf: False
    then have "kindOf (typeOf x) \<noteq> Struct"
      by (cases x) auto
    with typed have plain: "kindDeref (zero (ftype d)) \<noteq> Struct"
      by (simp add: kindDeref_zero)
    have shape: "(case x of VStruct n gs \<Rightarrow> VStruct n (decodedFields gs)
        | _ \<Rightarrow> if ftag d = [] then zero (ftype d) else x) =
        (if ftag d = [] then zero (ftype d) else x)"
      using leaf by (cases x) auto
    show ?thesis
    proof (cases "ftag d = []")
      case True
      with plain shape show ?thesis
        by (simp add: decodeBins_field_leaf_untagged)
    next
      case False
      from leaf "2.prems"(1) False
      have "primitive x \<and> \<not> negativeZero x \<and> binField d \<and> fexported d \<and> \<not> hidden"
        by (cases x) auto
      then have good: "primitive x" "\<not> negativeZero x" "binField d" "fexported d" "\<not> hidden"
        by simp_all
      from good(5) "2.prems"(2) have sticky: "\<not> stickyRO fl"
        by simp
      from leaf False have "(d, x) \<in> set (binLeaves ((d, x) # rest))"
        by (cases x) auto
      with "2.prems"(4) have bin: "map_of es (VString (binName d)) =
          (if written d x then Some (VIface nm (Some x)) else None)"
        by blast
      from good(1) typed primitive_zero [of x] have pz: "primitive (zero (ftype d))"
        by simp
      show ?thesis
      proof (cases "written d x")
        case True
        with bin have "map_of es (VString (binName d)) = Some (VIface nm (Some x))"
          by simp
        from decodeBins_field_found
          [OF good(1) typed good(3,4) assms(4) this assms(5) "2.prems"(3) sticky]
          False shape
        show ?thesis
          by simp
      next
        case unwritten: False
        then have "isEmptyValue (V (Some x) noFlags)"
          by (simp add: written_def)
        with good(1,2) have "x = zero (typeOf x)"
          by (rule empty_is_zero)
        with typed have z: "zero (ftype d) = x"
          by simp
        from bin unwritten have "map_of es (VString (binName d)) = None"
          by simp
        from decodeBins_field_absent [OF pz good(3) assms(4) this] z False shape
        show ?thesis
          by simp
      qed
    qed
  qed
  have "\<forall>(d, x) \<in> set (binLeaves rest).
      map_of es (VString (binName d)) =
        (if written d x then Some (VIface nm (Some x)) else None)"
    using "2.prems"(4) by (cases x) auto
  from "2.IH"(2) [OF tail "2.prems"(2,3) this] head show ?case
    by (cases x) simp_all
qed

lemma binLeaves_decodedFields:
  assumes "primitiveBins hidden fs"
  shows "binLeaves (decodedFields fs) = binLeaves fs"
  using assms
proof (induction hidden fs rule: primitiveBins.induct)
  case (1 hidden)
  show ?case by simp
next
  case (2 hidden d x rest)
  from "2.prems" have typed: "typeOf x = ftype d" and tail: "primitiveBins hidden rest"
    by simp_all
  show ?case
  proof (cases "\<exists>n gs. x = VStruct n gs")
    case True
    then obtain n gs where x: "x = VStruct n gs"
      by blast
    with "2.prems" have "primitiveBins (hidden \<or> \<not> fexported d \<and> \<not> fembedded d) gs"
      by simp
    from "2.IH"(1) [OF x this] "2.IH"(2) [OF tail] x show ?thesis
      by simp
  next
    case leaf: False
    then have "kindOf (typeOf x) \<noteq> Struct"
      by (cases x) auto
    with typed have "kindOf (typeOf (zero (ftype d))) \<noteq> Struct"
      by (simp add: typeOf_zero)
    then have blank: "\<not> (\<exists>n gs. zero (ftype d) = VStruct n gs)"
      by auto
    have leaves: "binLeaves ((d, y) # rs) = (if ftag d = [] then [] else [(d, y)]) @ binLeaves rs"
      if "\<not> (\<exists>n gs. y = VStruct n gs)" for y rs
      using that by (cases y) auto
    have "decodedFields ((d, x) # rest) =
        (d, if ftag d = [] then zero (ftype d) else x) # decodedFields rest"
      using leaf by (rule decodedFields_Cons_leaf)
    with leaves [OF leaf, of rest] leaves [OF blank, of "decodedFields rest"] "2.IH"(2) [OF tail]
    show ?thesis
      by (cases "ftag d = []") simp_all
  qed
qed

lemma decodeKey_pointer_blank:
  assumes "primitiveBins hidden fs"
  shows "decodeKey lib kv
      (Dyn (Some (VPtr t (Some (VStruct n (map (\<lambda>(d, x). (d, zero (ftype d))) fs)))))) =
    (Dyn (Some (VPtr t (Some (VStruct n (map (\<lambda>(d, x). (d, zero (ftype d))) fs))))), None)"
  using decodeKey_fields_primitiveBins [OF assms, of lib kv "Flags True False False"]
  by (simp add: decodeKey.simps structValue_def ValueOf_def Kind_def Elem_def noFlags_def
        storeStruct_def)




text \<open>
  What the other conditions of the amended statement exclude: a pointer to a struct
  with a bin field, which \<open>Encode\<close> follows and \<open>Decode\<close>, finding the pointer of the
  fresh struct nil, does not; a bin field that is not exported, on which
  \<^verbatim>\<open>Interface()\<close> panics; and the negative zero, which \<open>isEmptyValue\<close> takes for empty,
  so that the bin holds the positive zero.
\<close>

lemma Decode_Encode_pointer_to_struct:
  "Encode bareLib (Dyn (Some (VStruct ''Item''
     [(SField ''Item2'' True True [] (TPtr (TStruct ''Item2'' [SField ''Name'' True False ''name'' TString])),
       VPtr (TStruct ''Item2'' [SField ''Name'' True False ''name'' TString])
         (Some (VStruct ''Item2'' [(SField ''Name'' True False ''name'' TString, VString ''n1'')])))]))) =
   Inr (newRecord\<lparr>Bins := [(''name'', Some (VString ''n1''))]\<rparr>) \<and>
   Decode bareLib
     (Dyn (Some (VPtr RecordType
        (Some (valueOfRecord (newRecord\<lparr>Bins := [(''name'', Some (VString ''n1''))]\<rparr>))))))
     (Dyn (Some (VPtr
        (TStruct ''Item''
           [SField ''Item2'' True True []
              (TPtr (TStruct ''Item2'' [SField ''Name'' True False ''name'' TString]))])
        (Some (VStruct ''Item''
           [(SField ''Item2'' True True []
               (TPtr (TStruct ''Item2'' [SField ''Name'' True False ''name'' TString])),
             VPtr (TStruct ''Item2'' [SField ''Name'' True False ''name'' TString]) None)]))))) =
   (Dyn (Some (VPtr
        (TStruct ''Item''
           [SField ''Item2'' True True []
              (TPtr (TStruct ''Item2'' [SField ''Name'' True False ''name'' TString]))])
        (Some (VStruct ''Item''
           [(SField ''Item2'' True True []
               (TPtr (TStruct ''Item2'' [SField ''Name'' True False ''name'' TString])),
             VPtr (TStruct ''Item2'' [SField ''Name'' True False ''name'' TString]) None)])))),
    None)"
  by code_simp

lemma Encode_unexported_bin_field:
  "Encode bareLib (Dyn (Some (VStruct ''Item''
     [(SField ''title'' False False ''title'' TString, VString ''t1'')]))) =
   Inl (Panic ''reflect.Value.Interface: cannot return value obtained from unexported field or method'')"
  by code_simp

lemma Decode_Encode_negative_zero:
  "Encode bareLib (Dyn (Some (VStruct ''Item''
     [(SField ''Ratio'' True False ''ratio'' (TFloat Float64), VFloat64 (push_bit 63 1))]))) =
   Inr (newRecord\<lparr>Bins := [(''ratio'', Some (VFloat64 0))]\<rparr>) \<and>
   Decode bareLib
     (Dyn (Some (VPtr RecordType
        (Some (valueOfRecord (newRecord\<lparr>Bins := [(''ratio'', Some (VFloat64 0))]\<rparr>))))))
     (Dyn (Some (VPtr (TStruct ''Item'' [SField ''Ratio'' True False ''ratio'' (TFloat Float64)])
        (Some (VStruct ''Item''
           [(SField ''Ratio'' True False ''ratio'' (TFloat Float64), VFloat64 0)]))))) =
   (Dyn (Some (VPtr (TStruct ''Item'' [SField ''Ratio'' True False ''ratio'' (TFloat Float64)])
        (Some (VStruct ''Item''
           [(SField ''Ratio'' True False ''ratio'' (TFloat Float64), VFloat64 0)])))),
    None) \<and>
   VFloat64 (push_bit 63 1) \<noteq> VFloat64 0"
  by code_simp

end
